theory Spec2Isabelle
  imports Main "HOL-Library.Word" "HOL-Library.Code_Target_Nat"
begin

unbundle bit_operations_syntax

section \<open>ELF types and constants\<close>

text \<open>
  The emitter of \<^verbatim>\<open>compiler/elf_builder.h\<close> is a family of class templates over
  \<^verbatim>\<open>ElfTypes\<close>.  The declarations of \<^verbatim>\<open>ElfTypes\<close> live in \<^verbatim>\<open>elf_utils.h\<close>, which
  is not part of the sources at hand.  Following the data model of the specification
  (one word size for \<^verbatim>\<open>Addr\<close>, \<^verbatim>\<open>Word\<close> and the offsets), the word size is the type
  parameter \<open>'w\<close>, and the record sizes are the fields of \<open>elf_types\<close>.
\<close>

record elf_types =
  sizeof_Ehdr :: nat
  sizeof_Phdr :: nat
  sizeof_Shdr :: nat
  sizeof_Sym :: nat
  sizeof_Dyn :: nat
  sizeof_Word :: nat
  sizeof_Addr :: nat

text \<open>Modelled from the spec: the two instances of \<^verbatim>\<open>ElfTypes\<close>, with the record sizes
  of the standard ELF32 and ELF64 layouts.\<close>

definition ElfTypes32 :: elf_types where
  "ElfTypes32 = \<lparr>sizeof_Ehdr = 52, sizeof_Phdr = 32, sizeof_Shdr = 40, sizeof_Sym = 16,
     sizeof_Dyn = 8, sizeof_Word = 4, sizeof_Addr = 4\<rparr>"

definition ElfTypes64 :: elf_types where
  "ElfTypes64 = \<lparr>sizeof_Ehdr = 64, sizeof_Phdr = 56, sizeof_Shdr = 64, sizeof_Sym = 24,
     sizeof_Dyn = 16, sizeof_Word = 8, sizeof_Addr = 8\<rparr>"

record (overloaded) 'w Elf_Shdr =
  sh_name :: "'w word"
  sh_type :: "'w word"
  sh_flags :: "'w word"
  sh_addr :: "'w word"
  sh_offset :: "'w word"
  sh_size :: "'w word"
  sh_link :: "'w word"
  sh_info :: "'w word"
  sh_addralign :: "'w word"
  sh_entsize :: "'w word"

record (overloaded) 'w Elf_Sym =
  st_name :: "'w word"
  st_value :: "'w word"
  st_size :: "'w word"
  st_info :: "8 word"
  st_other :: "8 word"
  st_shndx :: "16 word"

record (overloaded) 'w Elf_Dyn =
  d_tag :: "'w word"
  d_un :: "'w word"

record (overloaded) 'w Elf_Phdr =
  p_type :: "'w word"
  p_offset :: "'w word"
  p_vaddr :: "'w word"
  p_paddr :: "'w word"
  p_filesz :: "'w word"
  p_memsz :: "'w word"
  p_flags :: "'w word"
  p_align :: "'w word"

record (overloaded) 'w Elf_Ehdr =
  e_ident :: "8 word list"
  e_type :: "16 word"
  e_machine :: "16 word"
  e_version :: "32 word"
  e_entry :: "'w word"
  e_phoff :: "'w word"
  e_shoff :: "'w word"
  e_flags :: "32 word"
  e_ehsize :: "16 word"
  e_phentsize :: "16 word"
  e_phnum :: "16 word"
  e_shentsize :: "16 word"
  e_shnum :: "16 word"
  e_shstrndx :: "16 word"

text \<open>Constants of the system header \<^verbatim>\<open>elf.h\<close>.\<close>

definition SHN_UNDEF :: "16 word" where "SHN_UNDEF = 0"
definition STB_GLOBAL :: "8 word" where "STB_GLOBAL = 1"
definition STT_OBJECT :: "8 word" where "STT_OBJECT = 1"

definition SHT_NULL :: "'w::len word" where "SHT_NULL = 0"
definition SHT_PROGBITS :: "'w::len word" where "SHT_PROGBITS = 1"
definition SHT_SYMTAB :: "'w::len word" where "SHT_SYMTAB = 2"
definition SHT_STRTAB :: "'w::len word" where "SHT_STRTAB = 3"
definition SHT_HASH :: "'w::len word" where "SHT_HASH = 5"
definition SHT_DYNAMIC :: "'w::len word" where "SHT_DYNAMIC = 6"
definition SHT_NOBITS :: "'w::len word" where "SHT_NOBITS = 8"
definition SHT_DYNSYM :: "'w::len word" where "SHT_DYNSYM = 11"

definition SHF_WRITE :: "'w::len word" where "SHF_WRITE = 1"
definition SHF_ALLOC :: "'w::len word" where "SHF_ALLOC = 2"
definition SHF_EXECINSTR :: "'w::len word" where "SHF_EXECINSTR = 4"

definition DT_NULL :: "'w::len word" where "DT_NULL = 0"
definition DT_HASH :: "'w::len word" where "DT_HASH = 4"
definition DT_STRTAB :: "'w::len word" where "DT_STRTAB = 5"
definition DT_SYMTAB :: "'w::len word" where "DT_SYMTAB = 6"
definition DT_STRSZ :: "'w::len word" where "DT_STRSZ = 10"
definition DT_SYMENT :: "'w::len word" where "DT_SYMENT = 11"
definition DT_SONAME :: "'w::len word" where "DT_SONAME = 14"

definition PT_NULL :: "'w::len word" where "PT_NULL = 0"
definition PT_LOAD :: "'w::len word" where "PT_LOAD = 1"
definition PT_DYNAMIC :: "'w::len word" where "PT_DYNAMIC = 2"
definition PT_PHDR :: "'w::len word" where "PT_PHDR = 6"
definition PT_GNU_EH_FRAME :: "'w::len word" where "PT_GNU_EH_FRAME = 0x6474e550"

definition PF_X :: "'w::len word" where "PF_X = 1"
definition PF_W :: "'w::len word" where "PF_W = 2"
definition PF_R :: "'w::len word" where "PF_R = 4"

definition EM_386 :: "16 word" where "EM_386 = 3"
definition EM_MIPS :: "16 word" where "EM_MIPS = 8"
definition EM_ARM :: "16 word" where "EM_ARM = 40"
definition EM_X86_64 :: "16 word" where "EM_X86_64 = 62"
definition EM_AARCH64 :: "16 word" where "EM_AARCH64 = 183"

definition EF_ARM_EABI_VER5 :: "32 word" where "EF_ARM_EABI_VER5 = 0x05000000"
definition EF_MIPS_NOREORDER :: "32 word" where "EF_MIPS_NOREORDER = 0x00000001"
definition EF_MIPS_PIC :: "32 word" where "EF_MIPS_PIC = 0x00000002"
definition EF_MIPS_CPIC :: "32 word" where "EF_MIPS_CPIC = 0x00000004"
definition EF_MIPS_ABI_O32 :: "32 word" where "EF_MIPS_ABI_O32 = 0x00001000"
definition EF_MIPS_ARCH_32R2 :: "32 word" where "EF_MIPS_ARCH_32R2 = 0x70000000"
definition EF_MIPS_ARCH_64R6 :: "32 word" where "EF_MIPS_ARCH_64R6 = 0xa0000000"

definition ET_DYN :: "16 word" where "ET_DYN = 3"

definition kPageSize :: "'w::len word" where "kPageSize = 4096"

definition NUL :: char where "NUL = CHR 0x00"

section \<open>Section builders\<close>

text \<open>
  A data member \<^verbatim>\<open>x_\<close> of a class is the record field \<open>x\<close>, prefixed where two classes
  share the name (\<open>sb_\<close> for the section builder, \<open>sym_\<close> for a symbol, \<open>dyn_\<close> for a dynamic
  entry, \<open>oat_\<close> for an oat section).
  Builders refer to one another through pointers (the link, the section of a symbol, the
  section of a dynamic entry, the section table), and the pointee is read when the tables
  are generated, after the layout has been fixed.  A pointer to a builder is a \<open>sec_ref\<close>,
  resolved against the current state of the builders; \<open>R_other p\<close> points to the raw
  section builder at the address \<open>p\<close>.
\<close>

datatype sec_ref =
  R_dynsym | R_dynstr | R_hash | R_rodata | R_text | R_bss | R_dynamic
  | R_symtab | R_strtab | R_shstrtab | R_other nat

record (overloaded) 'w ElfSectionBuilder =
  sb_section :: "'w Elf_Shdr"
  sb_section_index :: "'w word"
  sb_name :: string
  sb_link :: "sec_ref option"

definition zero_Shdr :: "'w::len Elf_Shdr" where
  "zero_Shdr = \<lparr>sh_name = 0, sh_type = 0, sh_flags = 0, sh_addr = 0, sh_offset = 0,
     sh_size = 0, sh_link = 0, sh_info = 0, sh_addralign = 0, sh_entsize = 0\<rparr>"

definition ElfSectionBuilder_ctor ::
  "string \<Rightarrow> 'w::len word \<Rightarrow> 'w word \<Rightarrow> sec_ref option \<Rightarrow> 'w word \<Rightarrow> 'w word \<Rightarrow> 'w word
    \<Rightarrow> 'w ElfSectionBuilder" where
  "ElfSectionBuilder_ctor sec_name type flags link info align entsize =
     \<lparr>sb_section = zero_Shdr\<lparr>sh_type := type, sh_flags := flags, sh_info := info,
                   sh_addralign := align, sh_entsize := entsize\<rparr>,
      sb_section_index = 0, sb_name = sec_name, sb_link = link\<rparr>"

text \<open>\<^verbatim>\<open>GetLink\<close>: the index of the linked section, read through the pointer.\<close>

definition GetLink ::
  "(sec_ref \<Rightarrow> 'w::len ElfSectionBuilder) \<Rightarrow> ('w, 'z) ElfSectionBuilder_scheme \<Rightarrow> 'w word" where
  "GetLink deref b = (case sb_link b of Some l \<Rightarrow> sb_section_index (deref l) | None \<Rightarrow> 0)"

section \<open>The symbol table builder\<close>

definition MakeStInfo :: "8 word \<Rightarrow> 8 word \<Rightarrow> 8 word" where
  "MakeStInfo binding type = push_bit 4 binding + (type AND 0xf)"

text \<open>\<^verbatim>\<open>elfhash\<close> reads the C string: the bytes before the first NUL.\<close>

definition elfhash_step :: "char \<Rightarrow> 32 word \<Rightarrow> 32 word" where
  "elfhash_step c h0 =
     (let h = push_bit 4 h0 + of_nat (of_char c);
          g = h AND 0xf0000000;
          h = h XOR g;
          h = h XOR drop_bit 24 g
      in h)"

definition c_str :: "string \<Rightarrow> string" where
  "c_str s = takeWhile (\<lambda>c. c \<noteq> NUL) s"

definition elfhash :: "string \<Rightarrow> 32 word" where
  "elfhash nm = fold elfhash_step (c_str nm) 0"

record (overloaded) 'w ElfSymbolState =
  sym_name :: string
  sym_section :: sec_ref
  sym_addr :: "'w word"
  sym_size :: "'w word"
  sym_is_relative :: bool
  sym_info :: "8 word"
  sym_other :: "8 word"
  sym_name_idx :: "'w word"

record (overloaded) 'w ElfSymtabBuilder = "'w ElfSectionBuilder" +
  str_name :: string
  str_type :: "'w word"
  symbols :: "'w ElfSymbolState list"
  strtab :: "'w ElfSectionBuilder"

definition AddSymbol ::
  "string \<Rightarrow> sec_ref \<Rightarrow> 'w::len word \<Rightarrow> bool \<Rightarrow> 'w word \<Rightarrow> 8 word \<Rightarrow> 8 word \<Rightarrow> 8 word
    \<Rightarrow> 'w ElfSymtabBuilder \<Rightarrow> 'w ElfSymtabBuilder" where
  "AddSymbol nm section addr is_relative sz binding type other b =
     b\<lparr>symbols := symbols b @
         [\<lparr>sym_name = nm, sym_section = section, sym_addr = addr, sym_size = sz,
           sym_is_relative = is_relative, sym_info = MakeStInfo binding type, sym_other = other,
           sym_name_idx = 0\<rparr>]\<rparr>"

definition zero_Sym :: "'w::len Elf_Sym" where
  "zero_Sym = \<lparr>st_name = 0, st_value = 0, st_size = 0, st_info = 0, st_other = 0,
     st_shndx = 0\<rparr>"

definition undef_sym :: "'w::len Elf_Sym" where
  "undef_sym = zero_Sym\<lparr>st_shndx := SHN_UNDEF\<rparr>"

definition make_sym ::
  "(sec_ref \<Rightarrow> 'w::len ElfSectionBuilder) \<Rightarrow> 'w ElfSymbolState \<Rightarrow> 'w Elf_Sym" where
  "make_sym deref it =
     zero_Sym\<lparr>st_name := sym_name_idx it,
       st_value := (if sym_is_relative it
                    then sym_addr it + sh_offset (sb_section (deref (sym_section it)))
                    else sym_addr it),
       st_size := sym_size it,
       st_other := sym_other it,
       st_shndx := ucast (sb_section_index (deref (sym_section it))),
       st_info := sym_info it\<rparr>"

definition GenerateSymtab ::
  "(sec_ref \<Rightarrow> 'w::len ElfSectionBuilder) \<Rightarrow> 'w ElfSymtabBuilder \<Rightarrow> 'w Elf_Sym list" where
  "GenerateSymtab deref b = undef_sym # map (make_sym deref) (symbols b)"

definition SymtabGetSize :: "'w::len ElfSymtabBuilder \<Rightarrow> nat" where
  "SymtabGetSize b = length (symbols b) + 1"


text \<open>\<^verbatim>\<open>GenerateStrtab\<close> returns the table and records, in every symbol, the offset of
  its name; it also sets the size of the companion string table section.\<close>

fun strtab_loop ::
  "'w::len ElfSymbolState list \<Rightarrow> string \<Rightarrow> 'w ElfSymbolState list \<times> string" where
  "strtab_loop [] tab = ([], tab)"
| "strtab_loop (it # rest) tab =
     (let it' = it\<lparr>sym_name_idx := of_nat (length tab)\<rparr>;
          tab = tab @ sym_name it;
          tab = tab @ [NUL];
          (rest', tab) = strtab_loop rest tab
      in (it' # rest', tab))"

definition GenerateStrtab :: "'w::len ElfSymtabBuilder \<Rightarrow> string \<times> 'w ElfSymtabBuilder" where
  "GenerateStrtab b =
     (let tab = [NUL];
          (syms, tab) = strtab_loop (symbols b) tab
      in (tab, b\<lparr>symbols := syms,
                  strtab := (strtab b)\<lparr>sb_section :=
                     (sb_section (strtab b))\<lparr>sh_size := of_nat (length tab)\<rparr>\<rparr>\<rparr>))"

subsection \<open>The hash table\<close>

text \<open>
  A function of the source either returns, or stops the process in a failed \<^verbatim>\<open>CHECK\<close>, or
  returns \<^verbatim>\<open>false\<close>.  The result of a loop that has no bound in the source is an option:
  \<open>None\<close> stands for a run that never ends.
\<close>

datatype failure = ReturnedFalse | CheckFailed string | LoggedFatal string

text \<open>Modelled from the spec: \<^verbatim>\<open>RoundUp\<close> (of \<^verbatim>\<open>utils.h\<close>, absent here) rounds its first
  argument up to the next multiple of the second.\<close>

definition RoundUp_nat :: "nat \<Rightarrow> nat \<Rightarrow> nat" where
  "RoundUp_nat x n = ((x + n - 1) div n) * n"

text \<open>
  The cells of the table are of type \<^verbatim>\<open>Elf_Word\<close>, and hold bucket counts and symbol
  indexes, which are at most the number of symbols plus one.  They are natural numbers
  here; the statements about the table assume that this number fits an \<^verbatim>\<open>Elf_Word\<close>.
  The vector \<open>hash\<close> is \<open>nbuckets\<close>, \<open>nchain\<close>, the buckets, the chain; \<^verbatim>\<open>buckets\<close> and
  \<^verbatim>\<open>chain\<close> point into it at \<open>bucket_offset\<close> and \<open>chain_offset\<close>.
\<close>

definition select_nbuckets :: "nat \<Rightarrow> nat" where
  "select_nbuckets n =
     (if n < 8 then 2
      else if n < 32 then 4
      else if n < 256 then 16
      else RoundUp_nat (n div 32) 2)"

partial_function (option) chain_walk ::
  "nat list \<Rightarrow> nat \<Rightarrow> nat \<Rightarrow> nat \<Rightarrow> (failure + nat) option" where
  "chain_walk hash chain_offset chain_size hash_val =
     (if hash ! (chain_offset + hash_val) \<noteq> 0
      then (if hash ! (chain_offset + hash_val) < chain_size
            then chain_walk hash chain_offset chain_size (hash ! (chain_offset + hash_val))
            else Some (Inl (CheckFailed ''CHECK_LT(hash_val, chain_size)'')))
      else Some (Inr hash_val))"

declare chain_walk.simps [code]

definition hash_insert ::
  "nat \<Rightarrow> nat \<Rightarrow> nat \<Rightarrow> string \<Rightarrow> nat list \<Rightarrow> (failure + nat list) option" where
  "hash_insert nbuckets chain_size i nm hash =
     (let bucket_offset = 2;
          chain_offset = bucket_offset + nbuckets;
          index = i + 1;
          hash_val = unat (elfhash nm) mod nbuckets
      in if hash ! (bucket_offset + hash_val) = 0
         then Some (Inr (hash[bucket_offset + hash_val := index]))
         else (let hash_val = hash ! (bucket_offset + hash_val)
               in if \<not> hash_val < chain_size
                  then Some (Inl (CheckFailed ''CHECK_LT(hash_val, chain_size)''))
                  else (case chain_walk hash chain_offset chain_size hash_val of
                          None \<Rightarrow> None
                        | Some (Inl e) \<Rightarrow> Some (Inl e)
                        | Some (Inr hash_val) \<Rightarrow>
                            (let hash = hash[chain_offset + hash_val := index]
                             in if hash ! (chain_offset + index) = 0
                                then Some (Inr hash)
                                else Some (Inl (CheckFailed ''CHECK_EQ(chain[index], 0)''))))))"

fun hash_loop ::
  "nat \<Rightarrow> nat \<Rightarrow> nat \<Rightarrow> string list \<Rightarrow> nat list \<Rightarrow> (failure + nat list) option" where
  "hash_loop nbuckets chain_size i [] hash = Some (Inr hash)"
| "hash_loop nbuckets chain_size i (nm # rest) hash =
     (case hash_insert nbuckets chain_size i nm hash of
        Some (Inr hash) \<Rightarrow> hash_loop nbuckets chain_size (i + 1) rest hash
      | r \<Rightarrow> r)"

definition GenerateHashContents ::
  "'w::len ElfSymtabBuilder \<Rightarrow> (failure + nat list) option" where
  "GenerateHashContents b =
     (let chain_size = SymtabGetSize b;
          nbuckets = select_nbuckets (length (symbols b));
          hash = [nbuckets, chain_size];
          hash = hash @ replicate (nbuckets + chain_size) 0
      in hash_loop nbuckets chain_size 0 (map sym_name (symbols b)) hash)"

text \<open>
  The lookup, as the comment in \<^verbatim>\<open>GenerateHashContents\<close> gives it (\<^verbatim>\<open>GetSym\<close>).  The symbol
  table is given by its names, the null symbol first; an index outside the arrays is an
  \<open>IndexError\<close>.
\<close>

datatype lookup = Found nat | SYMBOL_NOT_FOUND | IndexError

partial_function (option) GetSym_walk ::
  "string list \<Rightarrow> nat list \<Rightarrow> string \<Rightarrow> nat \<Rightarrow> lookup option" where
  "GetSym_walk symtab hash nm indx =
     (if indx \<noteq> 0
      then (if \<not> indx < length symtab then Some IndexError
            else if symtab ! indx = nm then Some (Found indx)
            else if \<not> 2 + hash ! 0 + indx < length hash then Some IndexError
            else GetSym_walk symtab hash nm (hash ! (2 + hash ! 0 + indx)))
      else Some SYMBOL_NOT_FOUND)"

declare GetSym_walk.simps [code]

definition GetSym :: "string list \<Rightarrow> nat list \<Rightarrow> string \<Rightarrow> lookup option" where
  "GetSym symtab hash nm =
     GetSym_walk symtab hash nm (hash ! (2 + unat (elfhash nm) mod (hash ! 0)))"

definition symtab_names :: "'w::len ElfSymtabBuilder \<Rightarrow> string list" where
  "symtab_names b = [] # map sym_name (symbols b)"


definition ElfSymtabBuilder_ctor ::
  "elf_types \<Rightarrow> string \<Rightarrow> 'w::len word \<Rightarrow> string \<Rightarrow> 'w word \<Rightarrow> bool \<Rightarrow> sec_ref
     \<Rightarrow> 'w ElfSymtabBuilder" where
  "ElfSymtabBuilder_ctor T sec_name type str_nm str_ty alloc strtab_ref =
     ElfSectionBuilder.extend
       (ElfSectionBuilder_ctor sec_name type (if alloc then SHF_ALLOC else 0) (Some strtab_ref)
          0 (of_nat (sizeof_Word T)) (of_nat (sizeof_Sym T)))
       (ElfSymtabBuilder.fields str_nm str_ty []
          (ElfSectionBuilder_ctor str_nm str_ty (if alloc then SHF_ALLOC else 0) None 0 1 1))"

section \<open>The dynamic section builder\<close>

record (overloaded) 'w ElfDynamicState =
  dyn_section :: "sec_ref option"
  dyn_tag :: "'w word"
  dyn_off :: "'w word"

record (overloaded) 'w ElfDynamicBuilder = "'w ElfSectionBuilder" +
  dynamics :: "'w ElfDynamicState list"

definition AddDynamicTag ::
  "'w::len word \<Rightarrow> 'w word \<Rightarrow> 'w ElfDynamicBuilder \<Rightarrow> 'w ElfDynamicBuilder" where
  "AddDynamicTag tag d b =
     (if tag = DT_NULL then b
      else b\<lparr>dynamics := dynamics b @ [\<lparr>dyn_section = None, dyn_tag = tag, dyn_off = d\<rparr>]\<rparr>)"

definition AddDynamicTag_section ::
  "'w::len word \<Rightarrow> 'w word \<Rightarrow> sec_ref option \<Rightarrow> 'w ElfDynamicBuilder \<Rightarrow> 'w ElfDynamicBuilder" where
  "AddDynamicTag_section tag d section b =
     (if tag = DT_NULL then b
      else b\<lparr>dynamics := dynamics b @ [\<lparr>dyn_section = section, dyn_tag = tag, dyn_off = d\<rparr>]\<rparr>)"

definition ElfDynamicBuilder_ctor ::
  "elf_types \<Rightarrow> string \<Rightarrow> sec_ref option \<Rightarrow> 'w::len ElfDynamicBuilder" where
  "ElfDynamicBuilder_ctor T sec_name link =
     ElfSectionBuilder.extend
       (ElfSectionBuilder_ctor sec_name SHT_DYNAMIC (SHF_ALLOC OR SHF_ALLOC) link 0 kPageSize
          (of_nat (sizeof_Dyn T)))
       (ElfDynamicBuilder.fields [])"

definition DynamicGetSize :: "'w::len ElfDynamicBuilder \<Rightarrow> nat" where
  "DynamicGetSize b = length (dynamics b) + 3"

definition make_dyn ::
  "(sec_ref \<Rightarrow> 'w::len ElfSectionBuilder) \<Rightarrow> 'w ElfDynamicState \<Rightarrow> 'w Elf_Dyn" where
  "make_dyn deref it =
     (case dyn_section it of
        Some s \<Rightarrow> \<lparr>d_tag = dyn_tag it, d_un = dyn_off it + sh_addr (sb_section (deref s))\<rparr>
      | None \<Rightarrow> \<lparr>d_tag = dyn_tag it, d_un = dyn_off it\<rparr>)"

definition GetDynamics ::
  "(sec_ref \<Rightarrow> 'w::len ElfSectionBuilder) \<Rightarrow> 'w word \<Rightarrow> 'w word \<Rightarrow> 'w ElfDynamicBuilder
     \<Rightarrow> 'w Elf_Dyn list" where
  "GetDynamics deref strsz soname b =
     map (make_dyn deref) (dynamics b) @
     [\<lparr>d_tag = DT_STRSZ, d_un = strsz\<rparr>,
      \<lparr>d_tag = DT_SONAME, d_un = soname\<rparr>,
      \<lparr>d_tag = DT_NULL, d_un = 0\<rparr>]"

section \<open>Raw and oat sections\<close>

record (overloaded) 'w ElfRawSectionBuilder = "'w ElfSectionBuilder" +
  buf :: "8 word list"

record (overloaded) 'w ElfOatSectionBuilder = "'w ElfSectionBuilder" +
  oat_offset :: "'w word"
  oat_size :: "'w word"

definition ElfRawSectionBuilder_ctor ::
  "string \<Rightarrow> 'w::len word \<Rightarrow> 'w word \<Rightarrow> sec_ref option \<Rightarrow> 'w word \<Rightarrow> 'w word \<Rightarrow> 'w word
    \<Rightarrow> 'w ElfRawSectionBuilder" where
  "ElfRawSectionBuilder_ctor sec_name type flags link info align entsize =
     ElfSectionBuilder.extend (ElfSectionBuilder_ctor sec_name type flags link info align entsize)
       (ElfRawSectionBuilder.fields [])"

definition SetBuffer :: "8 word list \<Rightarrow> 'w::len ElfRawSectionBuilder \<Rightarrow> 'w ElfRawSectionBuilder" where
  "SetBuffer bytes b = b\<lparr>buf := bytes\<rparr>"

definition ElfOatSectionBuilder_ctor ::
  "string \<Rightarrow> 'w::len word \<Rightarrow> 'w word \<Rightarrow> 'w word \<Rightarrow> 'w word \<Rightarrow> 'w ElfOatSectionBuilder" where
  "ElfOatSectionBuilder_ctor sec_name sz offset type flags =
     ElfSectionBuilder.extend (ElfSectionBuilder_ctor sec_name type flags None 0 kPageSize 0)
       (ElfOatSectionBuilder.fields offset sz)"

section \<open>File pieces\<close>

text \<open>
  A piece holds a file offset and, for a memory piece, a pointer and a size.  The pointer
  is a \<open>mem_ref\<close>: it names the object of the builder, or the local vector of \<^verbatim>\<open>Write\<close>,
  whose memory is written.  \<open>M_program_headers i\<close> is \<^verbatim>\<open>&program_headers_[i]\<close>,
  \<open>M_section_ptr i\<close> is \<^verbatim>\<open>section_ptrs_[i]\<close>, \<open>M_buffer p\<close> the buffer of the raw section at \<open>p\<close>.
\<close>

datatype mem_ref =
  M_elf_header | M_program_headers nat | M_dynamic | M_dynsym | M_dynstr | M_hash
  | M_symtab | M_strtab | M_shstrtab | M_section_ptr nat | M_buffer nat

datatype 'o ElfFilePiece =
  ElfFileMemoryPiece string 'o mem_ref 'o
  | ElfFileRodataPiece 'o
  | ElfFileOatTextPiece 'o

fun piece_offset :: "'o ElfFilePiece \<Rightarrow> 'o" where
  "piece_offset (ElfFileMemoryPiece nm offset data sz) = offset"
| "piece_offset (ElfFileRodataPiece offset) = offset"
| "piece_offset (ElfFileOatTextPiece offset) = offset"

definition Compare :: "'w::len word ElfFilePiece \<Rightarrow> 'w word ElfFilePiece \<Rightarrow> bool" where
  "Compare a b \<longleftrightarrow> piece_offset a < piece_offset b"

text \<open>
  The file and the code producer are outside the emitter.  What the emitter asks of them
  is an event; the outside answers every request with success or failure, as a function
  \<open>accepts\<close> of the requests served so far and of the new one.  \<open>Seek\<close> is an \<^verbatim>\<open>lseek\<close>
  that returns the requested offset, \<open>WriteFully\<close> the call of that name, \<open>OatWrite\<close> the
  pair \<^verbatim>\<open>SetCodeOffset\<close>, \<^verbatim>\<open>Write\<close> of the code producer.
\<close>

datatype 'o file_event = Seek 'o | WriteFully mem_ref 'o | OatWrite 'o

record 'o File =
  events :: "'o file_event list"
  accepts :: "'o file_event list \<Rightarrow> 'o file_event \<Rightarrow> bool"

definition request :: "'o file_event \<Rightarrow> 'o File \<Rightarrow> bool \<times> 'o File" where
  "request ev f =
     (if accepts f (events f) ev then (True, f\<lparr>events := events f @ [ev]\<rparr>) else (False, f))"

fun DoActualWrite :: "'o ElfFilePiece \<Rightarrow> 'o File \<Rightarrow> bool \<times> 'o File" where
  "DoActualWrite (ElfFileMemoryPiece nm offset data sz) f = request (WriteFully data sz) f"
| "DoActualWrite (ElfFileRodataPiece offset) f = request (OatWrite offset) f"
| "DoActualWrite (ElfFileOatTextPiece offset) f = (True, f)"

definition piece_Write :: "'o ElfFilePiece \<Rightarrow> 'o File \<Rightarrow> bool \<times> 'o File" where
  "piece_Write p f =
     (case request (Seek (piece_offset p)) f of
        (False, f) \<Rightarrow> (False, f)
      | (True, f) \<Rightarrow> DoActualWrite p f)"

fun WriteOutFile :: "'o ElfFilePiece list \<Rightarrow> 'o File \<Rightarrow> bool \<times> 'o File" where
  "WriteOutFile [] f = (True, f)"
| "WriteOutFile (it # pieces) f =
     (case piece_Write it f of
        (False, f) \<Rightarrow> (False, f)
      | (True, f) \<Rightarrow> WriteOutFile pieces f)"


section \<open>The builder\<close>

text \<open>The enumerators of \<^verbatim>\<open>InstructionSet\<close> that \<^verbatim>\<open>SetISA\<close> names, and \<open>kNone\<close> for every
  other value of the type.\<close>

datatype InstructionSet = kNone | kArm | kArm64 | kThumb2 | kX86 | kX86_64 | kMips | kMips64

datatype shdr_ref = H_null_hdr | H_section sec_ref

text \<open>
  The members of the class the claims depend on.  \<^verbatim>\<open>other_builders_\<close> holds pointers to raw
  section builders that the caller owns: \<open>other_builders\<close> is the list of their addresses and
  \<open>raw_objects\<close>, which is not a member, is the memory that holds these builders, one at
  every address.  A builder registered twice is one object that is set up and laid out
  twice.
\<close>

record (overloaded) 'w ElfBuilder =
  elf_file_path :: string
  add_symbols :: bool
  fatal_error :: bool
  program_headers :: "'w Elf_Phdr list"
  elf_header :: "'w Elf_Ehdr"
  null_hdr :: "'w Elf_Shdr"
  shstrtab :: string
  section_index :: "32 word"
  dynstr :: string
  dynstr_soname_offset :: "32 word"
  section_ptrs :: "shdr_ref list"
  hash :: "nat list"
  text_builder :: "'w ElfOatSectionBuilder"
  rodata_builder :: "'w ElfOatSectionBuilder"
  bss_builder :: "'w ElfOatSectionBuilder"
  dynsym_builder :: "'w ElfSymtabBuilder"
  symtab_builder :: "'w ElfSymtabBuilder"
  hash_builder :: "'w ElfSectionBuilder"
  dynamic_builder :: "'w ElfDynamicBuilder"
  shstrtab_builder :: "'w ElfSectionBuilder"
  other_builders :: "nat list"
  raw_objects :: "nat \<Rightarrow> 'w ElfRawSectionBuilder"

definition PH_PHDR :: nat where "PH_PHDR = 0"
definition PH_LOAD_R :: nat where "PH_LOAD_R = 1"
definition PH_LOAD_R_X :: nat where "PH_LOAD_R_X = 2"
definition PH_LOAD_RW_BSS :: nat where "PH_LOAD_RW_BSS = 3"
definition PH_LOAD_RW_DYNAMIC :: nat where "PH_LOAD_RW_DYNAMIC = 4"
definition PH_DYNAMIC :: nat where "PH_DYNAMIC = 5"
definition PH_EH_FRAME_HDR :: nat where "PH_EH_FRAME_HDR = 6"
definition PH_NUM :: nat where "PH_NUM = 7"

definition PHDR_OFFSET :: "elf_types \<Rightarrow> nat" where
  "PHDR_OFFSET T = sizeof_Ehdr T"

definition PHDR_SIZE :: "elf_types \<Rightarrow> nat" where
  "PHDR_SIZE T = sizeof_Phdr T * PH_NUM"

text \<open>The builder a pointer refers to, as its base class.\<close>

definition deref :: "'w::len ElfBuilder \<Rightarrow> sec_ref \<Rightarrow> 'w ElfSectionBuilder" where
  "deref b r =
     (case r of
        R_dynsym \<Rightarrow> ElfSectionBuilder.truncate (dynsym_builder b)
      | R_dynstr \<Rightarrow> strtab (dynsym_builder b)
      | R_hash \<Rightarrow> hash_builder b
      | R_rodata \<Rightarrow> ElfSectionBuilder.truncate (rodata_builder b)
      | R_text \<Rightarrow> ElfSectionBuilder.truncate (text_builder b)
      | R_bss \<Rightarrow> ElfSectionBuilder.truncate (bss_builder b)
      | R_dynamic \<Rightarrow> ElfSectionBuilder.truncate (dynamic_builder b)
      | R_symtab \<Rightarrow> ElfSectionBuilder.truncate (symtab_builder b)
      | R_strtab \<Rightarrow> strtab (symtab_builder b)
      | R_shstrtab \<Rightarrow> shstrtab_builder b
      | R_other p \<Rightarrow> ElfSectionBuilder.truncate (raw_objects b p))"

definition deref_shdr :: "'w::len ElfBuilder \<Rightarrow> shdr_ref \<Rightarrow> 'w Elf_Shdr" where
  "deref_shdr b r =
     (case r of H_null_hdr \<Rightarrow> null_hdr b | H_section s \<Rightarrow> sb_section (deref b s))"

subsection \<open>The constructor\<close>

definition SetupEhdr :: "elf_types \<Rightarrow> 'w::len ElfBuilder \<Rightarrow> 'w ElfBuilder" where
  "SetupEhdr T b =
     b\<lparr>elf_header :=
        \<lparr>e_ident = (replicate 16 0)
             [0 := 0x7f, 1 := 0x45, 2 := 0x4c, 3 := 0x46,
              4 := (if sizeof_Addr T = 4 then 1 else 2),
              5 := 1, 6 := 1, 7 := 3, 8 := 0],
         e_type = ET_DYN, e_machine = 0, e_version = 1, e_entry = 0,
         e_phoff = of_nat (sizeof_Ehdr T), e_shoff = 0, e_flags = 0,
         e_ehsize = of_nat (sizeof_Ehdr T), e_phentsize = of_nat (sizeof_Phdr T), e_phnum = 0,
         e_shentsize = of_nat (sizeof_Shdr T), e_shnum = 0, e_shstrndx = 0\<rparr>\<rparr>"

definition SetupDynamic :: "elf_types \<Rightarrow> 'w::len ElfBuilder \<Rightarrow> 'w ElfBuilder" where
  "SetupDynamic T b =
     (let b = b\<lparr>dynamic_builder :=
                 AddDynamicTag_section DT_HASH 0 (Some R_hash) (dynamic_builder b)\<rparr>;
          b = b\<lparr>dynamic_builder :=
                 AddDynamicTag_section DT_STRTAB 0 (Some R_dynstr) (dynamic_builder b)\<rparr>;
          b = b\<lparr>dynamic_builder :=
                 AddDynamicTag_section DT_SYMTAB 0 (Some R_dynsym) (dynamic_builder b)\<rparr>;
          b = b\<lparr>dynamic_builder :=
                 AddDynamicTag DT_SYMENT (of_nat (sizeof_Sym T)) (dynamic_builder b)\<rparr>
      in b)"

definition SetupRequiredSymbols :: "'w::len ElfBuilder \<Rightarrow> 'w ElfBuilder" where
  "SetupRequiredSymbols b =
     (let b = b\<lparr>dynsym_builder :=
                 AddSymbol ''oatdata'' R_rodata 0 True (oat_size (rodata_builder b))
                   STB_GLOBAL STT_OBJECT 0 (dynsym_builder b)\<rparr>;
          b = b\<lparr>dynsym_builder :=
                 AddSymbol ''oatexec'' R_text 0 True (oat_size (text_builder b))
                   STB_GLOBAL STT_OBJECT 0 (dynsym_builder b)\<rparr>;
          b = b\<lparr>dynsym_builder :=
                 AddSymbol ''oatlastword'' R_text (oat_size (text_builder b) - 4) True 4
                   STB_GLOBAL STT_OBJECT 0 (dynsym_builder b)\<rparr>
      in if oat_size (bss_builder b) \<noteq> 0
         then (let b = b\<lparr>dynsym_builder :=
                         AddSymbol ''oatbss'' R_bss 0 True (oat_size (bss_builder b))
                           STB_GLOBAL STT_OBJECT 0 (dynsym_builder b)\<rparr>;
                   b = b\<lparr>dynsym_builder :=
                         AddSymbol ''oatbsslastword'' R_bss (oat_size (bss_builder b) - 4) True 4
                           STB_GLOBAL STT_OBJECT 0 (dynsym_builder b)\<rparr>
               in b)
         else b)"

text \<open>
  \<^verbatim>\<open>SetISA\<close>.  \<^verbatim>\<open>LOG(FATAL)\<close> does not return, no more than a failed \<^verbatim>\<open>CHECK\<close> does (the
  repository follows \<^verbatim>\<open>UNIMPLEMENTED(FATAL)\<close> with \<^verbatim>\<open>UNREACHABLE()\<close>): with an instruction set
  that the \<^verbatim>\<open>switch\<close> does not name, \<^verbatim>\<open>fatal_error_\<close> is set and the process ends there, so
  that no builder is left to carry the flag.
\<close>

definition SetISA :: "InstructionSet \<Rightarrow> 'w::len ElfBuilder \<Rightarrow> failure + 'w ElfBuilder" where
  "SetISA isa b =
     (case isa of
        kArm \<Rightarrow>
          Inr (b\<lparr>elf_header := (elf_header b)\<lparr>e_machine := EM_ARM, e_flags := EF_ARM_EABI_VER5\<rparr>\<rparr>)
      | kThumb2 \<Rightarrow>
          Inr (b\<lparr>elf_header := (elf_header b)\<lparr>e_machine := EM_ARM, e_flags := EF_ARM_EABI_VER5\<rparr>\<rparr>)
      | kArm64 \<Rightarrow> Inr (b\<lparr>elf_header := (elf_header b)\<lparr>e_machine := EM_AARCH64, e_flags := 0\<rparr>\<rparr>)
      | kX86 \<Rightarrow> Inr (b\<lparr>elf_header := (elf_header b)\<lparr>e_machine := EM_386, e_flags := 0\<rparr>\<rparr>)
      | kX86_64 \<Rightarrow> Inr (b\<lparr>elf_header := (elf_header b)\<lparr>e_machine := EM_X86_64, e_flags := 0\<rparr>\<rparr>)
      | kMips \<Rightarrow>
          Inr (b\<lparr>elf_header := (elf_header b)\<lparr>e_machine := EM_MIPS,
               e_flags := EF_MIPS_NOREORDER OR EF_MIPS_PIC OR EF_MIPS_CPIC OR EF_MIPS_ABI_O32
                          OR EF_MIPS_ARCH_32R2\<rparr>\<rparr>)
      | kMips64 \<Rightarrow>
          Inr (b\<lparr>elf_header := (elf_header b)\<lparr>e_machine := EM_MIPS,
               e_flags := EF_MIPS_NOREORDER OR EF_MIPS_PIC OR EF_MIPS_CPIC
                          OR EF_MIPS_ARCH_64R6\<rparr>\<rparr>)
      | kNone \<Rightarrow> Inl (LoggedFatal ''Unknown instruction set''))"

definition zero_Phdr :: "'w::len Elf_Phdr" where
  "zero_Phdr = \<lparr>p_type = 0, p_offset = 0, p_vaddr = 0, p_paddr = 0, p_filesz = 0, p_memsz = 0,
     p_flags = 0, p_align = 0\<rparr>"

definition zero_Ehdr :: "'w::len Elf_Ehdr" where
  "zero_Ehdr = \<lparr>e_ident = replicate 16 0, e_type = 0, e_machine = 0, e_version = 0,
     e_entry = 0, e_phoff = 0, e_shoff = 0, e_flags = 0, e_ehsize = 0, e_phentsize = 0,
     e_phnum = 0, e_shentsize = 0, e_shnum = 0, e_shstrndx = 0\<rparr>"

text \<open>
  The constructor: the member initialisers, then the four set-up calls, of which \<^verbatim>\<open>SetISA\<close>
  may end the process.  The members the initialiser list leaves out are empty (strings,
  vectors) or, for the plain data, taken as zero.  \<open>path\<close> is the path of \<^verbatim>\<open>elf_file\<close>.  No
  raw section builder has been made yet: every address holds an empty one.
\<close>

definition ElfBuilder_ctor ::
  "elf_types \<Rightarrow> string \<Rightarrow> InstructionSet \<Rightarrow> 'w::len word \<Rightarrow> 'w word \<Rightarrow> 'w word \<Rightarrow> 'w word
     \<Rightarrow> 'w word \<Rightarrow> 'w word \<Rightarrow> bool \<Rightarrow> failure + 'w ElfBuilder" where
  "ElfBuilder_ctor T path isa rodata_relative_offset rodata_size text_relative_offset text_size
       bss_relative_offset bss_size add_syms =
     (let b = \<lparr>elf_file_path = path, add_symbols = add_syms, fatal_error = False,
                program_headers = replicate PH_NUM zero_Phdr, elf_header = zero_Ehdr,
                null_hdr = zero_Shdr, shstrtab = [], section_index = 0, dynstr = [],
                dynstr_soname_offset = 0, section_ptrs = [], hash = [],
                text_builder = ElfOatSectionBuilder_ctor ''.text'' text_size text_relative_offset
                   SHT_PROGBITS (SHF_ALLOC OR SHF_EXECINSTR),
                rodata_builder = ElfOatSectionBuilder_ctor ''.rodata'' rodata_size
                   rodata_relative_offset SHT_PROGBITS SHF_ALLOC,
                bss_builder = ElfOatSectionBuilder_ctor ''.bss'' bss_size bss_relative_offset
                   SHT_NOBITS SHF_ALLOC,
                dynsym_builder = ElfSymtabBuilder_ctor T ''.dynsym'' SHT_DYNSYM ''.dynstr''
                   SHT_STRTAB True R_dynstr,
                symtab_builder = ElfSymtabBuilder_ctor T ''.symtab'' SHT_SYMTAB ''.strtab''
                   SHT_STRTAB False R_strtab,
                hash_builder = ElfSectionBuilder_ctor ''.hash'' SHT_HASH SHF_ALLOC (Some R_dynsym)
                   0 (of_nat (sizeof_Word T)) (of_nat (sizeof_Word T)),
                dynamic_builder = ElfDynamicBuilder_ctor T ''.dynamic'' (Some R_dynsym),
                shstrtab_builder = ElfSectionBuilder_ctor ''.shstrtab'' SHT_STRTAB 0 None 0 1 1,
                other_builders = [],
                raw_objects = (\<lambda>_. ElfRawSectionBuilder_ctor [] 0 0 None 0 0 0)\<rparr>;
          b = SetupEhdr T b;
          b = SetupDynamic T b;
          b = SetupRequiredSymbols b
      in SetISA isa b)"

text \<open>\<^verbatim>\<open>RegisterRawSection\<close> stores the pointer it is given; \<^verbatim>\<open>FindRawSection\<close> returns the
  first registered pointer whose builder has the name, \<open>None\<close> for \<^verbatim>\<open>nullptr\<close>.\<close>

definition RegisterRawSection :: "nat \<Rightarrow> 'w::len ElfBuilder \<Rightarrow> 'w ElfBuilder" where
  "RegisterRawSection bld b = b\<lparr>other_builders := other_builders b @ [bld]\<rparr>"

definition FindRawSection :: "'w::len ElfBuilder \<Rightarrow> string \<Rightarrow> nat option" where
  "FindRawSection b nm =
     find (\<lambda>other_builder. sb_name (raw_objects b other_builder) = nm) (other_builders b)"

definition IncludingDebugSymbols :: "'w::len ElfBuilder \<Rightarrow> bool" where
  "IncludingDebugSymbols b \<longleftrightarrow> add_symbols b \<and> SymtabGetSize (symtab_builder b) > 1"


subsection \<open>Helpers of the layout\<close>

text \<open>Modelled from the spec: \<^verbatim>\<open>RoundUp\<close> on machine words, \<^verbatim>\<open>IsAlignedParam\<close> and
  \<^verbatim>\<open>CHECK_ALIGNED\<close> (all three of \<^verbatim>\<open>utils.h\<close>, absent here): rounding up to the next multiple
  of the alignment, and being a multiple of it.\<close>

definition RoundUp :: "'w::len word \<Rightarrow> 'w word \<Rightarrow> 'w word" where
  "RoundUp x n = of_nat (RoundUp_nat (unat x) (unat n))"

definition IsAlignedParam :: "'w::len word \<Rightarrow> 'w word \<Rightarrow> bool" where
  "IsAlignedParam x n \<longleftrightarrow> unat x mod unat n = 0"

definition NextOffset :: "'w::len Elf_Shdr \<Rightarrow> 'w Elf_Shdr \<Rightarrow> 'w word" where
  "NextOffset cur prev = RoundUp (sh_size prev + sh_offset prev) (sh_addralign cur)"

text \<open>\<open>map_section f\<close> is an assignment through \<^verbatim>\<open>GetSection()\<close>.\<close>

definition map_section ::
  "('w::len Elf_Shdr \<Rightarrow> 'w Elf_Shdr) \<Rightarrow> ('w, 'z) ElfSectionBuilder_scheme
     \<Rightarrow> ('w, 'z) ElfSectionBuilder_scheme" where
  "map_section f sb = sb\<lparr>sb_section := f (sb_section sb)\<rparr>"

definition AssignSectionStr ::
  "('w::len, 'z) ElfSectionBuilder_scheme \<Rightarrow> string
     \<Rightarrow> ('w, 'z) ElfSectionBuilder_scheme \<times> string" where
  "AssignSectionStr builder strtb =
     (let builder = map_section (\<lambda>s. s\<lparr>sh_name := of_nat (length strtb)\<rparr>) builder;
          strtb = strtb @ sb_name builder;
          strtb = strtb @ [NUL]
      in (builder, strtb))"

text \<open>
  The four statements that \<^verbatim>\<open>Init\<close> and \<^verbatim>\<open>Write\<close> repeat for every section they set up:
  append the header to the section table, assign the name, set the index, count.  The
  builder is given by the pointer \<open>r\<close> and by its accessor \<open>get\<close> and update \<open>upd\<close>.
\<close>

definition setup_section ::
  "sec_ref \<Rightarrow> ('w::len ElfBuilder \<Rightarrow> ('w, 'z) ElfSectionBuilder_scheme)
     \<Rightarrow> ((('w, 'z) ElfSectionBuilder_scheme \<Rightarrow> ('w, 'z) ElfSectionBuilder_scheme)
          \<Rightarrow> 'w ElfBuilder \<Rightarrow> 'w ElfBuilder)
     \<Rightarrow> 'w ElfBuilder \<Rightarrow> 'w ElfBuilder" where
  "setup_section r get upd b =
     (let b = b\<lparr>section_ptrs := section_ptrs b @ [H_section r]\<rparr>;
          (sb, s) = AssignSectionStr (get b) (shstrtab b);
          b = (upd (\<lambda>_. sb) b)\<lparr>shstrtab := s\<rparr>;
          b = upd (\<lambda>sb. sb\<lparr>sb_section_index := ucast (section_index b)\<rparr>) b;
          b = b\<lparr>section_index := section_index b + 1\<rparr>
      in b)"

definition upd_dynstr ::
  "('w::len ElfSectionBuilder \<Rightarrow> 'w ElfSectionBuilder) \<Rightarrow> 'w ElfBuilder \<Rightarrow> 'w ElfBuilder" where
  "upd_dynstr f b = b\<lparr>dynsym_builder := (dynsym_builder b)\<lparr>strtab := f (strtab (dynsym_builder b))\<rparr>\<rparr>"

definition upd_strtab ::
  "('w::len ElfSectionBuilder \<Rightarrow> 'w ElfSectionBuilder) \<Rightarrow> 'w ElfBuilder \<Rightarrow> 'w ElfBuilder" where
  "upd_strtab f b = b\<lparr>symtab_builder := (symtab_builder b)\<lparr>strtab := f (strtab (symtab_builder b))\<rparr>\<rparr>"

definition upd_other ::
  "nat \<Rightarrow> ('w::len ElfRawSectionBuilder \<Rightarrow> 'w ElfRawSectionBuilder) \<Rightarrow> 'w ElfBuilder
     \<Rightarrow> 'w ElfBuilder" where
  "upd_other p f b = b\<lparr>raw_objects := (raw_objects b)(p := f (raw_objects b p))\<rparr>"

text \<open>\<^verbatim>\<open>rfind\<close> and \<^verbatim>\<open>substr\<close> of \<^verbatim>\<open>std::string\<close>; \<open>None\<close> is \<^verbatim>\<open>npos\<close>.\<close>

fun rfind_below :: "string \<Rightarrow> char \<Rightarrow> nat \<Rightarrow> nat option" where
  "rfind_below s c 0 = None"
| "rfind_below s c (Suc i) = (if s ! i = c then Some i else rfind_below s c i)"

definition rfind :: "string \<Rightarrow> char \<Rightarrow> nat option" where
  "rfind s c = rfind_below s c (length s)"

definition substr :: "string \<Rightarrow> nat \<Rightarrow> string" where
  "substr s pos = drop pos s"

text \<open>The basename in the words of the specification: what follows the final slash, or
  the whole path if it has none.\<close>

definition basename_spec :: "string \<Rightarrow> string" where
  "basename_spec path = rev (takeWhile (\<lambda>c. c \<noteq> CHR ''/'') (rev path))"

subsection \<open>\<^verbatim>\<open>Init\<close>\<close>

definition Init_program_headers :: "elf_types \<Rightarrow> 'w::len ElfBuilder \<Rightarrow> 'w ElfBuilder" where
  "Init_program_headers T b =
     b\<lparr>program_headers :=
        [zero_Phdr\<lparr>p_type := PT_PHDR, p_offset := of_nat (PHDR_OFFSET T),
                   p_vaddr := of_nat (PHDR_OFFSET T), p_paddr := of_nat (PHDR_OFFSET T),
                   p_filesz := of_nat (PHDR_SIZE T), p_memsz := of_nat (PHDR_SIZE T),
                   p_flags := PF_R, p_align := of_nat (sizeof_Word T)\<rparr>,
         zero_Phdr\<lparr>p_type := PT_LOAD, p_offset := 0, p_vaddr := 0, p_paddr := 0,
                   p_flags := PF_R\<rparr>,
         zero_Phdr\<lparr>p_type := PT_LOAD, p_flags := PF_R OR PF_X\<rparr>,
         zero_Phdr\<lparr>p_type := PT_LOAD, p_flags := PF_R OR PF_W\<rparr>,
         zero_Phdr\<lparr>p_type := PT_LOAD, p_flags := PF_R OR PF_W\<rparr>,
         zero_Phdr\<lparr>p_type := PT_DYNAMIC, p_flags := PF_R OR PF_W\<rparr>,
         zero_Phdr\<lparr>p_type := PT_NULL, p_flags := PF_R\<rparr>]\<rparr>"

definition Init_dynstr :: "'w::len ElfBuilder \<Rightarrow> 'w ElfBuilder" where
  "Init_dynstr b =
     (let (tab, dynsym) = GenerateStrtab (dynsym_builder b);
          b = b\<lparr>dynstr := tab, dynsym_builder := dynsym\<rparr>;
          b = b\<lparr>dynstr_soname_offset := of_nat (length (dynstr b))\<rparr>;
          file_name = elf_file_path b;
          directory_separator_pos = rfind file_name (CHR ''/'');
          file_name = (case directory_separator_pos of
                         Some pos \<Rightarrow> substr file_name (pos + 1)
                       | None \<Rightarrow> file_name);
          b = b\<lparr>dynstr := dynstr b @ file_name\<rparr>;
          b = b\<lparr>dynstr := dynstr b @ [NUL]\<rparr>
      in b)"

definition Init_null_hdr :: "'w::len ElfBuilder \<Rightarrow> 'w ElfBuilder" where
  "Init_null_hdr b =
     (let b = b\<lparr>shstrtab := shstrtab b @ [NUL]\<rparr>;
          b = b\<lparr>null_hdr := zero_Shdr\<lparr>sh_type := SHT_NULL, sh_link := ucast SHN_UNDEF\<rparr>\<rparr>;
          b = b\<lparr>section_ptrs := section_ptrs b @ [H_null_hdr]\<rparr>;
          b = b\<lparr>section_index := 1\<rparr>
      in b)"

definition Init_sections :: "'w::len ElfBuilder \<Rightarrow> 'w ElfBuilder" where
  "Init_sections b =
     (let b = setup_section R_dynsym dynsym_builder dynsym_builder_update b;
          b = setup_section R_dynstr (\<lambda>b. strtab (dynsym_builder b)) upd_dynstr b;
          b = setup_section R_hash hash_builder hash_builder_update b;
          b = setup_section R_rodata rodata_builder rodata_builder_update b;
          b = setup_section R_text text_builder text_builder_update b;
          b = (if oat_size (bss_builder b) \<noteq> 0
               then setup_section R_bss bss_builder bss_builder_update b else b);
          b = setup_section R_dynamic dynamic_builder dynamic_builder_update b
      in b)"

definition Init_layout_dynsym :: "elf_types \<Rightarrow> 'w::len ElfBuilder \<Rightarrow> 'w ElfBuilder" where
  "Init_layout_dynsym T b =
     (let base_offset = of_nat (sizeof_Ehdr T + PHDR_SIZE T);
          sb = dynsym_builder b;
          sb = map_section (\<lambda>s. s\<lparr>sh_offset := RoundUp base_offset (sh_addralign s)\<rparr>) sb;
          sb = map_section (\<lambda>s. s\<lparr>sh_addr := sh_offset s\<rparr>) sb;
          sb = map_section (\<lambda>s. s\<lparr>sh_size := of_nat (SymtabGetSize sb * sizeof_Sym T)\<rparr>) sb;
          sb = map_section (\<lambda>s. s\<lparr>sh_link := GetLink (deref b) sb\<rparr>) sb
      in b\<lparr>dynsym_builder := sb\<rparr>)"

definition Init_layout_dynstr :: "'w::len ElfBuilder \<Rightarrow> 'w ElfBuilder" where
  "Init_layout_dynstr b =
     (let sb = strtab (dynsym_builder b);
          sb = map_section
                 (\<lambda>s. s\<lparr>sh_offset := NextOffset s (sb_section (dynsym_builder b))\<rparr>) sb;
          sb = map_section (\<lambda>s. s\<lparr>sh_addr := sh_offset s\<rparr>) sb;
          sb = map_section (\<lambda>s. s\<lparr>sh_size := of_nat (length (dynstr b))\<rparr>) sb;
          sb = map_section (\<lambda>s. s\<lparr>sh_link := GetLink (deref b) sb\<rparr>) sb
      in upd_dynstr (\<lambda>_. sb) b)"

definition Init_layout_hash :: "elf_types \<Rightarrow> 'w::len ElfBuilder \<Rightarrow> 'w ElfBuilder" where
  "Init_layout_hash T b =
     (let sb = hash_builder b;
          sb = map_section
                 (\<lambda>s. s\<lparr>sh_offset := NextOffset s (sb_section (strtab (dynsym_builder b)))\<rparr>) sb;
          sb = map_section (\<lambda>s. s\<lparr>sh_addr := sh_offset s\<rparr>) sb;
          sb = map_section (\<lambda>s. s\<lparr>sh_size := of_nat (length (hash b) * sizeof_Word T)\<rparr>) sb;
          sb = map_section (\<lambda>s. s\<lparr>sh_link := GetLink (deref b) sb\<rparr>) sb
      in b\<lparr>hash_builder := sb\<rparr>)"

text \<open>The loop over the raw sections that carry \<^verbatim>\<open>SHF_ALLOC\<close>, on the pointers that are
  left to visit; \<open>prev\<close> is the header that \<^verbatim>\<open>prev\<close> points to, which no statement changes
  between the assignment of the pointer and the next read through it.\<close>

fun layout_raw_alloc ::
  "'w::len Elf_Shdr \<Rightarrow> nat list \<Rightarrow> 'w ElfBuilder \<Rightarrow> 'w ElfBuilder \<times> 'w Elf_Shdr" where
  "layout_raw_alloc prev [] b = (b, prev)"
| "layout_raw_alloc prev (it # rest) b =
     (if sh_flags (sb_section (raw_objects b it)) AND SHF_ALLOC \<noteq> 0
      then (let b = upd_other it (map_section (\<lambda>s. s\<lparr>sh_offset := NextOffset s prev\<rparr>)) b;
                b = upd_other it (map_section (\<lambda>s. s\<lparr>sh_addr := sh_offset s\<rparr>)) b;
                b = upd_other it
                      (\<lambda>sb. map_section (\<lambda>s. s\<lparr>sh_size := of_nat (length (buf sb))\<rparr>) sb) b;
                b = upd_other it
                      (\<lambda>sb. map_section (\<lambda>s. s\<lparr>sh_link := GetLink (deref b) sb\<rparr>) sb) b;
                prev = sb_section (raw_objects b it)
            in layout_raw_alloc prev rest b)
      else layout_raw_alloc prev rest b)"

definition Init_layout_others :: "'w::len ElfBuilder \<Rightarrow> 'w ElfBuilder \<times> 'w Elf_Shdr" where
  "Init_layout_others b = layout_raw_alloc (sb_section (hash_builder b)) (other_builders b) b"

definition Init_layout_rodata :: "'w::len Elf_Shdr \<Rightarrow> 'w ElfBuilder \<Rightarrow> 'w ElfBuilder" where
  "Init_layout_rodata prev b =
     (let sb = rodata_builder b;
          sb = map_section (\<lambda>s. s\<lparr>sh_offset := NextOffset s prev\<rparr>) sb;
          sb = map_section (\<lambda>s. s\<lparr>sh_addr := sh_offset s\<rparr>) sb;
          sb = map_section (\<lambda>s. s\<lparr>sh_size := oat_size sb\<rparr>) sb;
          sb = map_section (\<lambda>s. s\<lparr>sh_link := GetLink (deref b) sb\<rparr>) sb
      in b\<lparr>rodata_builder := sb\<rparr>)"

definition Init_layout_text :: "'w::len ElfBuilder \<Rightarrow> 'w ElfBuilder" where
  "Init_layout_text b =
     (let sb = text_builder b;
          sb = map_section (\<lambda>s. s\<lparr>sh_offset := NextOffset s (sb_section (rodata_builder b))\<rparr>) sb;
          sb = map_section (\<lambda>s. s\<lparr>sh_addr := sh_offset s\<rparr>) sb;
          sb = map_section (\<lambda>s. s\<lparr>sh_size := oat_size sb\<rparr>) sb;
          sb = map_section (\<lambda>s. s\<lparr>sh_link := GetLink (deref b) sb\<rparr>) sb
      in b\<lparr>text_builder := sb\<rparr>)"

definition Init_layout_bss :: "'w::len ElfBuilder \<Rightarrow> 'w ElfBuilder" where
  "Init_layout_bss b =
     (let sb = bss_builder b;
          sb = map_section (\<lambda>s. s\<lparr>sh_offset := NextOffset s (sb_section (text_builder b))\<rparr>) sb;
          sb = map_section (\<lambda>s. s\<lparr>sh_addr := sh_offset s\<rparr>) sb;
          sb = map_section (\<lambda>s. s\<lparr>sh_size := oat_size sb\<rparr>) sb;
          sb = map_section (\<lambda>s. s\<lparr>sh_link := GetLink (deref b) sb\<rparr>) sb
      in b\<lparr>bss_builder := sb\<rparr>)"

definition Init_layout_dynamic :: "elf_types \<Rightarrow> 'w::len ElfBuilder \<Rightarrow> 'w ElfBuilder" where
  "Init_layout_dynamic T b =
     (let sb = dynamic_builder b;
          sb = map_section (\<lambda>s. s\<lparr>sh_offset := sh_offset (sb_section (bss_builder b))\<rparr>) sb;
          sb = map_section (\<lambda>s. s\<lparr>sh_addr := NextOffset s (sb_section (bss_builder b))\<rparr>) sb;
          sb = map_section (\<lambda>s. s\<lparr>sh_size := of_nat (DynamicGetSize sb * sizeof_Dyn T)\<rparr>) sb;
          sb = map_section (\<lambda>s. s\<lparr>sh_link := GetLink (deref b) sb\<rparr>) sb
      in b\<lparr>dynamic_builder := sb\<rparr>)"

definition Init_layout :: "elf_types \<Rightarrow> 'w::len ElfBuilder \<Rightarrow> failure + 'w ElfBuilder" where
  "Init_layout T b =
     (let b = Init_layout_dynsym T b;
          b = Init_layout_dynstr b;
          b = Init_layout_hash T b;
          (b, prev) = Init_layout_others b;
          b = Init_layout_rodata prev b;
          b = Init_layout_text b
      in if \<not> IsAlignedParam (sh_offset (sb_section (rodata_builder b)) +
                               sh_size (sb_section (rodata_builder b))) kPageSize
         then Inl (CheckFailed ''CHECK_ALIGNED(rodata end, kPageSize)'')
         else (let b = Init_layout_bss b
               in if \<not> IsAlignedParam (sh_offset (sb_section (bss_builder b)))
                                       (sh_addralign (sb_section (dynamic_builder b)))
                  then Inl (CheckFailed ''CHECK(IsAlignedParam(bss offset, dynamic align))'')
                  else Inr (Init_layout_dynamic T b)))"

text \<open>\<^verbatim>\<open>Init\<close>.  The checks of debug builds (\<^verbatim>\<open>DCHECK\<close>) and the logging are left out.\<close>

definition Init :: "elf_types \<Rightarrow> 'w::len ElfBuilder \<Rightarrow> (failure + 'w ElfBuilder) option" where
  "Init T b =
     (if fatal_error b then Some (Inl ReturnedFalse)
      else (let b = Init_program_headers T b;
                b = Init_dynstr b;
                b = Init_null_hdr b;
                b = Init_sections b
            in case GenerateHashContents (dynsym_builder b) of
                 None \<Rightarrow> None
               | Some (Inl e) \<Rightarrow> Some (Inl e)
               | Some (Inr h) \<Rightarrow> Some (Init_layout T (b\<lparr>hash := h\<rparr>))))"


subsection \<open>\<^verbatim>\<open>Write\<close>\<close>

text \<open>The local vectors of \<^verbatim>\<open>Write\<close> that the pieces point to, the offset of the section
  table and the list of pieces.\<close>

record (overloaded) 'w Write_locals =
  w_strtab :: string
  w_dynsym :: "'w Elf_Sym list"
  w_symtab :: "'w Elf_Sym list"
  w_dynamic :: "'w Elf_Dyn list"
  w_sections_offset :: "'w word"
  w_pieces :: "'w word ElfFilePiece list"

definition Write_debug_sections :: "'w::len ElfBuilder \<Rightarrow> 'w ElfBuilder \<times> string" where
  "Write_debug_sections b =
     (if IncludingDebugSymbols b
      then (let b = setup_section R_symtab symtab_builder symtab_builder_update b;
                b = setup_section R_strtab (\<lambda>b. strtab (symtab_builder b)) upd_strtab b;
                (strtb, symtab) = GenerateStrtab (symtab_builder b)
            in (b\<lparr>symtab_builder := symtab\<rparr>, strtb))
      else (b, []))"

fun Write_other_sections :: "nat list \<Rightarrow> 'w::len ElfBuilder \<Rightarrow> 'w ElfBuilder" where
  "Write_other_sections [] b = b"
| "Write_other_sections (builder # rest) b =
     Write_other_sections rest
       (setup_section (R_other builder) (\<lambda>b. raw_objects b builder) (upd_other builder) b)"

definition Write_layout_symtab ::
  "elf_types \<Rightarrow> string \<Rightarrow> 'w::len ElfBuilder \<Rightarrow> 'w ElfBuilder" where
  "Write_layout_symtab T strtb b =
     (let sb = symtab_builder b;
          sb = map_section
                 (\<lambda>s. s\<lparr>sh_offset := NextOffset s (sb_section (dynamic_builder b))\<rparr>) sb;
          sb = map_section (\<lambda>s. s\<lparr>sh_addr := 0\<rparr>) sb;
          sb = map_section (\<lambda>s. s\<lparr>sh_size := of_nat (SymtabGetSize sb * sizeof_Sym T)\<rparr>) sb;
          sb = map_section (\<lambda>s. s\<lparr>sh_link := GetLink (deref b) sb\<rparr>) sb;
          st = strtab sb;
          st = map_section (\<lambda>s. s\<lparr>sh_offset := NextOffset s (sb_section sb)\<rparr>) st;
          st = map_section (\<lambda>s. s\<lparr>sh_addr := 0\<rparr>) st;
          st = map_section (\<lambda>s. s\<lparr>sh_size := of_nat (length strtb)\<rparr>) st;
          st = map_section (\<lambda>s. s\<lparr>sh_link := GetLink (deref b) st\<rparr>) st
      in b\<lparr>symtab_builder := sb\<lparr>strtab := st\<rparr>\<rparr>)"

fun layout_raw_nonalloc ::
  "'w::len Elf_Shdr \<Rightarrow> nat list \<Rightarrow> 'w ElfBuilder \<Rightarrow> 'w ElfBuilder \<times> 'w Elf_Shdr" where
  "layout_raw_nonalloc prev [] b = (b, prev)"
| "layout_raw_nonalloc prev (it # rest) b =
     (if sh_flags (sb_section (raw_objects b it)) AND SHF_ALLOC = 0
      then (let b = upd_other it (map_section (\<lambda>s. s\<lparr>sh_offset := NextOffset s prev\<rparr>)) b;
                b = upd_other it (map_section (\<lambda>s. s\<lparr>sh_addr := 0\<rparr>)) b;
                b = upd_other it
                      (\<lambda>sb. map_section (\<lambda>s. s\<lparr>sh_size := of_nat (length (buf sb))\<rparr>) sb) b;
                b = upd_other it
                      (\<lambda>sb. map_section (\<lambda>s. s\<lparr>sh_link := GetLink (deref b) sb\<rparr>) sb) b;
                prev = sb_section (raw_objects b it)
            in layout_raw_nonalloc prev rest b)
      else layout_raw_nonalloc prev rest b)"

definition Write_layout_shstrtab :: "'w::len Elf_Shdr \<Rightarrow> 'w ElfBuilder \<Rightarrow> 'w ElfBuilder" where
  "Write_layout_shstrtab prev b =
     (let sb = shstrtab_builder b;
          sb = map_section (\<lambda>s. s\<lparr>sh_offset := NextOffset s prev\<rparr>) sb;
          sb = map_section (\<lambda>s. s\<lparr>sh_addr := 0\<rparr>) sb;
          sb = map_section (\<lambda>s. s\<lparr>sh_size := of_nat (length (shstrtab b))\<rparr>) sb;
          sb = map_section (\<lambda>s. s\<lparr>sh_link := GetLink (deref b) sb\<rparr>) sb
      in b\<lparr>shstrtab_builder := sb\<rparr>)"

text \<open>The set-up and the layout that open \<^verbatim>\<open>Write\<close>, up to the offset of the section
  table.\<close>

definition Write_layout ::
  "elf_types \<Rightarrow> 'w::len ElfBuilder \<Rightarrow> 'w ElfBuilder \<times> string \<times> 'w word" where
  "Write_layout T b =
     (let prev = sb_section (dynamic_builder b);
          (b, strtb) = Write_debug_sections b;
          b = Write_other_sections (other_builders b) b;
          b = setup_section R_shstrtab shstrtab_builder shstrtab_builder_update b;
          (b, prev) = (if IncludingDebugSymbols b
                       then (let b = Write_layout_symtab T strtb b
                             in (b, sb_section (strtab (symtab_builder b))))
                       else (b, prev));
          (b, prev) = layout_raw_nonalloc prev (other_builders b) b;
          b = Write_layout_shstrtab prev b;
          sections_offset = RoundUp (sh_offset (sb_section (shstrtab_builder b)) +
                                     sh_size (sb_section (shstrtab_builder b)))
                              (of_nat (sizeof_Word T))
      in (b, strtb, sections_offset))"

definition upd_phdr ::
  "nat \<Rightarrow> ('w::len Elf_Phdr \<Rightarrow> 'w Elf_Phdr) \<Rightarrow> 'w ElfBuilder \<Rightarrow> 'w ElfBuilder" where
  "upd_phdr i f b = b\<lparr>program_headers := (program_headers b)[i := f (program_headers b ! i)]\<rparr>"

definition Write_program_headers :: "'w::len ElfBuilder \<Rightarrow> 'w ElfBuilder" where
  "Write_program_headers b =
     (let rodata = sb_section (rodata_builder b);
          text = sb_section (text_builder b);
          bss = sb_section (bss_builder b);
          dynamic = sb_section (dynamic_builder b);
          load_r_size = sh_offset rodata + sh_size rodata;
          b = upd_phdr PH_LOAD_R
                (\<lambda>h. h\<lparr>p_filesz := load_r_size, p_memsz := load_r_size,
                        p_align := sh_addralign rodata\<rparr>) b;
          load_rx_size = sh_size text;
          b = upd_phdr PH_LOAD_R_X
                (\<lambda>h. h\<lparr>p_offset := sh_offset text, p_vaddr := sh_offset text,
                        p_paddr := sh_offset text, p_filesz := load_rx_size,
                        p_memsz := load_rx_size, p_align := sh_addralign text\<rparr>) b;
          b = upd_phdr PH_LOAD_RW_BSS
                (\<lambda>h. h\<lparr>p_offset := sh_offset bss, p_vaddr := sh_offset bss,
                        p_paddr := sh_offset bss, p_filesz := 0,
                        p_memsz := sh_size bss, p_align := sh_addralign bss\<rparr>) b;
          b = upd_phdr PH_LOAD_RW_DYNAMIC
                (\<lambda>h. h\<lparr>p_offset := sh_offset dynamic, p_vaddr := sh_addr dynamic,
                        p_paddr := sh_addr dynamic, p_filesz := sh_size dynamic,
                        p_memsz := sh_size dynamic, p_align := sh_addralign dynamic\<rparr>) b;
          b = upd_phdr PH_DYNAMIC
                (\<lambda>h. h\<lparr>p_offset := sh_offset dynamic, p_vaddr := sh_addr dynamic,
                        p_paddr := sh_addr dynamic, p_filesz := sh_size dynamic,
                        p_memsz := sh_size dynamic, p_align := sh_addralign dynamic\<rparr>) b
      in b)"

definition Write_eh_frame_hdr :: "'w::len ElfBuilder \<Rightarrow> failure + 'w ElfBuilder" where
  "Write_eh_frame_hdr b =
     (case FindRawSection b ''.eh_frame_hdr'' of
        None \<Rightarrow> Inr b
      | Some eh_frame_hdr \<Rightarrow>
          (case FindRawSection b ''.eh_frame'' of
             None \<Rightarrow> Inl (CheckFailed ''CHECK(eh_frame != nullptr)'')
           | Some eh_frame \<Rightarrow>
               (let eh_frame = sb_section (raw_objects b eh_frame);
                    eh_frame_hdr = sb_section (raw_objects b eh_frame_hdr)
                in if \<not> sh_offset eh_frame \<le> sh_offset eh_frame_hdr
                   then Inl (CheckFailed ''CHECK_LE(eh_frame offset, eh_frame_hdr offset)'')
                   else if sh_offset eh_frame + sh_size eh_frame \<noteq> sh_offset eh_frame_hdr
                   then Inl (CheckFailed ''CHECK_EQ(eh_frame end, eh_frame_hdr offset)'')
                   else Inr (upd_phdr PH_EH_FRAME_HDR
                          (\<lambda>h. h\<lparr>p_type := PT_GNU_EH_FRAME,
                                  p_offset := sh_offset eh_frame_hdr,
                                  p_vaddr := sh_addr eh_frame_hdr,
                                  p_paddr := sh_addr eh_frame_hdr,
                                  p_filesz := sh_size eh_frame_hdr,
                                  p_memsz := sh_size eh_frame_hdr,
                                  p_align := sh_addralign eh_frame_hdr\<rparr>) b))))"

definition Write_ehdr :: "elf_types \<Rightarrow> 'w::len word \<Rightarrow> 'w ElfBuilder \<Rightarrow> 'w ElfBuilder" where
  "Write_ehdr T sections_offset b =
     b\<lparr>elf_header := (elf_header b)
        \<lparr>e_phoff := of_nat (PHDR_OFFSET T),
         e_shoff := sections_offset,
         e_phnum := (if sh_size (sb_section (bss_builder b)) \<noteq> 0
                     then of_nat PH_NUM else of_nat (PH_NUM - 1)),
         e_shnum := of_nat (length (section_ptrs b)),
         e_shstrndx := ucast (sb_section_index (shstrtab_builder b))\<rparr>\<rparr>"

definition program_header_pieces ::
  "elf_types \<Rightarrow> 'w::len ElfBuilder \<Rightarrow> failure + 'w word ElfFilePiece list" where
  "program_header_pieces T b =
     (if sh_size (sb_section (bss_builder b)) \<noteq> 0
      then Inr [ElfFileMemoryPiece ''Program headers'' (of_nat (PHDR_OFFSET T))
                  (M_program_headers 0)
                  (of_nat (unat (e_phnum (elf_header b)) * sizeof_Phdr T))]
      else (let part1_size = of_nat (PH_LOAD_RW_BSS * sizeof_Phdr T);
                part2_size = of_nat ((PH_NUM - PH_LOAD_RW_BSS - 1) * sizeof_Phdr T)
            in if part1_size + part2_size
                    \<noteq> (of_nat (unat (e_phnum (elf_header b)) * sizeof_Phdr T) :: 'w word)
               then Inl (CheckFailed ''CHECK_EQ(part1_size + part2_size, e_phnum * sizeof(Elf_Phdr))'')
               else Inr [ElfFileMemoryPiece ''Program headers'' (of_nat (PHDR_OFFSET T))
                           (M_program_headers 0) part1_size,
                         ElfFileMemoryPiece ''Program headers part 2''
                           (of_nat (PHDR_OFFSET T) + part1_size)
                           (M_program_headers (PH_LOAD_RW_BSS + 1)) part2_size]))"

definition section_table_pieces ::
  "elf_types \<Rightarrow> 'w::len word \<Rightarrow> nat \<Rightarrow> 'w word ElfFilePiece list" where
  "section_table_pieces T sections_offset n =
     map (\<lambda>i. ElfFileMemoryPiece ''section table piece''
                (sections_offset + of_nat (i * sizeof_Shdr T)) (M_section_ptr i)
                (of_nat (sizeof_Shdr T)))
       [0..<n]"

definition raw_section_pieces :: "'w::len ElfBuilder \<Rightarrow> 'w word ElfFilePiece list" where
  "raw_section_pieces b =
     map (\<lambda>it. ElfFileMemoryPiece (sb_name (raw_objects b it))
                 (sh_offset (sb_section (raw_objects b it))) (M_buffer it)
                 (of_nat (length (buf (raw_objects b it)))))
       (other_builders b)"

definition Write_pieces ::
  "elf_types \<Rightarrow> 'w::len ElfBuilder \<Rightarrow> string \<Rightarrow> 'w Elf_Sym list \<Rightarrow> 'w Elf_Sym list
     \<Rightarrow> 'w word \<Rightarrow> 'w word ElfFilePiece list \<Rightarrow> 'w word ElfFilePiece list" where
  "Write_pieces T b strtb dynsym symtab sections_offset phdr_pieces =
     [ElfFileMemoryPiece ''Elf Header'' 0 M_elf_header (of_nat (sizeof_Ehdr T))] @
     phdr_pieces @
     [ElfFileMemoryPiece ''.dynamic'' (sh_offset (sb_section (dynamic_builder b))) M_dynamic
        (sh_size (sb_section (dynamic_builder b))),
      ElfFileMemoryPiece ''.dynsym'' (sh_offset (sb_section (dynsym_builder b))) M_dynsym
        (of_nat (length dynsym * sizeof_Sym T)),
      ElfFileMemoryPiece ''.dynstr'' (sh_offset (sb_section (strtab (dynsym_builder b))))
        M_dynstr (of_nat (length (dynstr b))),
      ElfFileMemoryPiece ''.hash'' (sh_offset (sb_section (hash_builder b))) M_hash
        (of_nat (length (hash b) * sizeof_Word T)),
      ElfFileRodataPiece (sh_offset (sb_section (rodata_builder b))),
      ElfFileOatTextPiece (sh_offset (sb_section (text_builder b)))] @
     (if IncludingDebugSymbols b
      then [ElfFileMemoryPiece ''.symtab'' (sh_offset (sb_section (symtab_builder b))) M_symtab
              (of_nat (length symtab * sizeof_Sym T)),
            ElfFileMemoryPiece ''.strtab'' (sh_offset (sb_section (strtab (symtab_builder b))))
              M_strtab (of_nat (length strtb))]
      else []) @
     [ElfFileMemoryPiece ''.shstrtab'' (sh_offset (sb_section (shstrtab_builder b))) M_shstrtab
        (of_nat (length (shstrtab b)))] @
     section_table_pieces T sections_offset (length (section_ptrs b)) @
     raw_section_pieces b"

text \<open>
  \<^verbatim>\<open>Write\<close> up to the call of \<^verbatim>\<open>WriteOutFile\<close>.  The products of \<^verbatim>\<open>size_t\<close> in the
  \<^verbatim>\<open>CHECK_EQ\<close>s are taken not to overflow.
\<close>

definition Write_prepare ::
  "elf_types \<Rightarrow> 'w::len ElfBuilder \<Rightarrow> failure + 'w ElfBuilder \<times> 'w Write_locals" where
  "Write_prepare T b =
     (let (b, strtb, sections_offset) = Write_layout T b;
          dynsym = GenerateSymtab (deref b) (dynsym_builder b)
      in if length dynsym * sizeof_Sym T \<noteq> unat (sh_size (sb_section (dynsym_builder b)))
         then Inl (CheckFailed ''CHECK_EQ(dynsym.size() * sizeof(Elf_Sym), sh_size)'')
         else (let symtab = (if IncludingDebugSymbols b
                             then GenerateSymtab (deref b) (symtab_builder b) else [])
               in if IncludingDebugSymbols b \<and>
                     length symtab * sizeof_Sym T \<noteq> unat (sh_size (sb_section (symtab_builder b)))
                  then Inl (CheckFailed ''CHECK_EQ(symtab.size() * sizeof(Elf_Sym), sh_size)'')
                  else (let dynamic = GetDynamics (deref b) (of_nat (length (dynstr b)))
                                        (ucast (dynstr_soname_offset b)) (dynamic_builder b)
                        in if length dynamic * sizeof_Dyn T
                                \<noteq> unat (sh_size (sb_section (dynamic_builder b)))
                           then Inl (CheckFailed ''CHECK_EQ(dynamic.size() * sizeof(Elf_Dyn), sh_size)'')
                           else (case Write_eh_frame_hdr (Write_program_headers b) of
                                   Inl e \<Rightarrow> Inl e
                                 | Inr b \<Rightarrow>
                                     (let b = Write_ehdr T sections_offset b
                                      in case program_header_pieces T b of
                                           Inl e \<Rightarrow> Inl e
                                         | Inr phdr_pieces \<Rightarrow>
                                             Inr (b, \<lparr>w_strtab = strtb, w_dynsym = dynsym,
                                                      w_symtab = symtab, w_dynamic = dynamic,
                                                      w_sections_offset = sections_offset,
                                                      w_pieces = Write_pieces T b strtb dynsym
                                                         symtab sections_offset phdr_pieces\<rparr>))))))"

text \<open>\<^verbatim>\<open>Write\<close>: the boolean result, the builder, and the file after the writes.\<close>

definition Write ::
  "elf_types \<Rightarrow> 'w::len ElfBuilder \<Rightarrow> 'w word File
     \<Rightarrow> failure + bool \<times> 'w ElfBuilder \<times> 'w word File" where
  "Write T b f =
     (case Write_prepare T b of
        Inl e \<Rightarrow> Inl e
      | Inr (b, loc) \<Rightarrow>
          (case WriteOutFile (w_pieces loc) f of (ok, f) \<Rightarrow> Inr (ok, b, f)))"

section \<open>Configuration\<close>

text \<open>
  What a caller can do with a builder before \<^verbatim>\<open>Init\<close> and \<^verbatim>\<open>Write\<close>: make a raw section
  builder at an address of its own memory (or change the one that is there), register a
  pointer to a raw section builder, and add symbols to \<^verbatim>\<open>.symtab\<close> (through
  \<^verbatim>\<open>GetSymtabBuilder\<close>).  The arguments of one call of
  \<^verbatim>\<open>AddSymbol\<close> and of \<^verbatim>\<open>AddDynamicTag\<close> are records; \<open>t_section\<close> is \<open>None\<close> for the
  overload without a section.
\<close>

record (overloaded) 'w AddSymbol_args =
  a_name :: string
  a_section :: sec_ref
  a_addr :: "'w word"
  a_is_relative :: bool
  a_size :: "'w word"
  a_binding :: "8 word"
  a_type :: "8 word"
  a_other :: "8 word"

definition AddSymbol_call ::
  "'w::len AddSymbol_args \<Rightarrow> 'w ElfSymtabBuilder \<Rightarrow> 'w ElfSymtabBuilder" where
  "AddSymbol_call a b =
     AddSymbol (a_name a) (a_section a) (a_addr a) (a_is_relative a) (a_size a) (a_binding a)
       (a_type a) (a_other a) b"

definition AddSymbols ::
  "'w::len AddSymbol_args list \<Rightarrow> 'w ElfSymtabBuilder \<Rightarrow> 'w ElfSymtabBuilder" where
  "AddSymbols calls b = foldl (\<lambda>b a. AddSymbol_call a b) b calls"

record (overloaded) 'w AddDynamicTag_args =
  t_tag :: "'w word"
  t_value :: "'w word"
  t_section :: "sec_ref option"

definition dyn_state :: "'w::len AddDynamicTag_args \<Rightarrow> 'w ElfDynamicState" where
  "dyn_state a = \<lparr>dyn_section = t_section a, dyn_tag = t_tag a, dyn_off = t_value a\<rparr>"

definition AddDynamicTag_call ::
  "'w::len AddDynamicTag_args \<Rightarrow> 'w ElfDynamicBuilder \<Rightarrow> 'w ElfDynamicBuilder" where
  "AddDynamicTag_call a b =
     (case t_section a of
        None \<Rightarrow> AddDynamicTag (t_tag a) (t_value a) b
      | Some s \<Rightarrow> AddDynamicTag_section (t_tag a) (t_value a) (Some s) b)"

definition AddDynamicTags ::
  "'w::len AddDynamicTag_args list \<Rightarrow> 'w ElfDynamicBuilder \<Rightarrow> 'w ElfDynamicBuilder" where
  "AddDynamicTags calls b = foldl (\<lambda>b a. AddDynamicTag_call a b) b calls"

datatype ('r, 's) config_op =
  Op_RawSection nat 'r | Op_RegisterRawSection nat | Op_AddSymbol 's

fun apply_op ::
  "('w::len ElfRawSectionBuilder, 'w AddSymbol_args) config_op \<Rightarrow> 'w ElfBuilder \<Rightarrow> 'w ElfBuilder" where
  "apply_op (Op_RawSection p bld) b = b\<lparr>raw_objects := (raw_objects b)(p := bld)\<rparr>"
| "apply_op (Op_RegisterRawSection bld) b = RegisterRawSection bld b"
| "apply_op (Op_AddSymbol a) b = b\<lparr>symtab_builder := AddSymbol_call a (symtab_builder b)\<rparr>"

definition configure ::
  "('w::len ElfRawSectionBuilder, 'w AddSymbol_args) config_op list \<Rightarrow> 'w ElfBuilder
     \<Rightarrow> 'w ElfBuilder" where
  "configure ops b = foldl (\<lambda>b op. apply_op op b) b ops"

text \<open>The symbols \<^verbatim>\<open>SetupRequiredSymbols\<close> is to add, as calls of \<^verbatim>\<open>AddSymbol\<close>.\<close>

definition required_symbols :: "'w::len word \<Rightarrow> 'w word \<Rightarrow> 'w word \<Rightarrow> 'w AddSymbol_args list" where
  "required_symbols rodata_size text_size bss_size =
     [\<lparr>a_name = ''oatdata'', a_section = R_rodata, a_addr = 0, a_is_relative = True,
       a_size = rodata_size, a_binding = STB_GLOBAL, a_type = STT_OBJECT, a_other = 0\<rparr>,
      \<lparr>a_name = ''oatexec'', a_section = R_text, a_addr = 0, a_is_relative = True,
       a_size = text_size, a_binding = STB_GLOBAL, a_type = STT_OBJECT, a_other = 0\<rparr>,
      \<lparr>a_name = ''oatlastword'', a_section = R_text, a_addr = text_size - 4,
       a_is_relative = True, a_size = 4, a_binding = STB_GLOBAL, a_type = STT_OBJECT,
       a_other = 0\<rparr>] @
     (if bss_size \<noteq> 0
      then [\<lparr>a_name = ''oatbss'', a_section = R_bss, a_addr = 0, a_is_relative = True,
              a_size = bss_size, a_binding = STB_GLOBAL, a_type = STT_OBJECT, a_other = 0\<rparr>,
            \<lparr>a_name = ''oatbsslastword'', a_section = R_bss, a_addr = bss_size - 4,
              a_is_relative = True, a_size = 4, a_binding = STB_GLOBAL, a_type = STT_OBJECT,
              a_other = 0\<rparr>]
      else [])"

text \<open>The state of a symbol right after \<^verbatim>\<open>AddSymbol\<close>, and the table entry the claims
  describe for it, given the index of its name in the string table.\<close>

definition symbol_state :: "'w::len AddSymbol_args \<Rightarrow> 'w ElfSymbolState" where
  "symbol_state a =
     \<lparr>sym_name = a_name a, sym_section = a_section a, sym_addr = a_addr a, sym_size = a_size a,
      sym_is_relative = a_is_relative a, sym_info = MakeStInfo (a_binding a) (a_type a),
      sym_other = a_other a, sym_name_idx = 0\<rparr>"

definition symbol_entry ::
  "(sec_ref \<Rightarrow> 'w::len ElfSectionBuilder) \<Rightarrow> 'w AddSymbol_args \<Rightarrow> 'w word \<Rightarrow> 'w Elf_Sym" where
  "symbol_entry d a name_idx =
     \<lparr>st_name = name_idx,
      st_value = (if a_is_relative a
                  then a_addr a + sh_offset (sb_section (d (a_section a)))
                  else a_addr a),
      st_size = a_size a,
      st_info = push_bit 4 (a_binding a) OR (a_type a AND 0xf),
      st_other = a_other a,
      st_shndx = ucast (sb_section_index (d (a_section a)))\<rparr>"

section \<open>An emission\<close>

text \<open>\<^verbatim>\<open>Init\<close>, then \<^verbatim>\<open>Write\<close> on its result: the boolean that \<^verbatim>\<open>Write\<close> returns, the builder and
  the file.  \<open>None\<close> when \<^verbatim>\<open>Init\<close> fails or when a \<^verbatim>\<open>CHECK\<close> stops either of them.\<close>

definition emit ::
  "elf_types \<Rightarrow> 'w::len ElfBuilder \<Rightarrow> 'w word File \<Rightarrow> (bool \<times> 'w ElfBuilder \<times> 'w word File) option" where
  "emit T b f =
     (case Init T b of
        Some (Inr b1) \<Rightarrow> (case Write T b1 f of Inr r \<Rightarrow> Some r | Inl e \<Rightarrow> None)
      | _ \<Rightarrow> None)"

text \<open>The requests one piece makes of the file, and a list of requests served in order
  until one is refused.\<close>

fun piece_events :: "'o ElfFilePiece \<Rightarrow> 'o file_event list" where
  "piece_events (ElfFileMemoryPiece nm offset data sz) = [Seek offset, WriteFully data sz]"
| "piece_events (ElfFileRodataPiece offset) = [Seek offset, OatWrite offset]"
| "piece_events (ElfFileOatTextPiece offset) = [Seek offset]"

fun serve :: "'o file_event list \<Rightarrow> 'o File \<Rightarrow> bool \<times> 'o File" where
  "serve [] f = (True, f)"
| "serve (ev # evs) f =
     (case request ev f of (False, f) \<Rightarrow> (False, f) | (True, f) \<Rightarrow> serve evs f)"

fun seek_offsets :: "'o file_event list \<Rightarrow> 'o list" where
  "seek_offsets [] = []"
| "seek_offsets (Seek offset # evs) = offset # seek_offsets evs"
| "seek_offsets (ev # evs) = seek_offsets evs"

text \<open>What the statements observe of an emission: the offsets the file was positioned at,
  in order; whether \<^verbatim>\<open>.dynamic\<close> is allocatable, with its address and its offset.\<close>

definition emitted_seeks :: "elf_types \<Rightarrow> 'w::len ElfBuilder \<Rightarrow> 'w word File \<Rightarrow> 'w word list" where
  "emitted_seeks T b f =
     (case emit T b f of Some (ok, b2, f') \<Rightarrow> seek_offsets (events f') | None \<Rightarrow> [])"

definition emitted_dynamic ::
  "elf_types \<Rightarrow> 'w::len ElfBuilder \<Rightarrow> 'w word File \<Rightarrow> (bool \<times> 'w word \<times> 'w word) option" where
  "emitted_dynamic T b f =
     (case emit T b f of
        Some (ok, b2, f') \<Rightarrow>
          Some (sh_flags (sb_section (dynamic_builder b2)) AND SHF_ALLOC \<noteq> 0,
                sh_addr (sb_section (dynamic_builder b2)),
                sh_offset (sb_section (dynamic_builder b2)))
      | None \<Rightarrow> None)"

definition addr_is_offset :: "('w::len, 'z) ElfSectionBuilder_scheme \<Rightarrow> bool" where
  "addr_is_offset sb \<longleftrightarrow> sh_addr (sb_section sb) = sh_offset (sb_section sb)"

definition allocatable :: "('w::len, 'z) ElfSectionBuilder_scheme \<Rightarrow> bool" where
  "allocatable sb \<longleftrightarrow> sh_flags (sb_section sb) AND SHF_ALLOC \<noteq> 0"

section \<open>Predicates of the proofs\<close>

text \<open>
  \<open>reach h nb x y\<close>: following the chain of the table \<open>h\<close> (with \<open>nb\<close> buckets) from the
  non-zero index \<open>x\<close> arrives at \<open>y\<close>.
\<close>

inductive reach :: "nat list \<Rightarrow> nat \<Rightarrow> nat \<Rightarrow> nat \<Rightarrow> bool" for h :: "nat list" and nb :: nat where
  reach_here: "x \<noteq> 0 \<Longrightarrow> reach h nb x x"
| reach_next: "x \<noteq> 0 \<Longrightarrow> reach h nb (h ! (2 + nb + x)) y \<Longrightarrow> reach h nb x y"

text \<open>
  The invariant of the insertion loop once the first \<open>k\<close> symbols are in the table: the
  header words, buckets and links at most \<open>k\<close>, every link greater than its own index,
  no link yet for the indexes above \<open>k\<close>.
\<close>

definition hash_inv :: "nat \<Rightarrow> nat \<Rightarrow> nat \<Rightarrow> nat list \<Rightarrow> bool" where
  "hash_inv nb cs k h \<longleftrightarrow>
     k < cs \<and> length h = 2 + nb + cs \<and> h ! 0 = nb \<and> h ! 1 = cs \<and>
     (\<forall>b<nb. h ! (2 + b) \<le> k) \<and>
     (\<forall>j<cs. h ! (2 + nb + j) = 0 \<or> (j < h ! (2 + nb + j) \<and> h ! (2 + nb + j) \<le> k)) \<and>
     (\<forall>j<cs. k < j \<longrightarrow> h ! (2 + nb + j) = 0)"

definition hash_ok :: "nat \<Rightarrow> nat \<Rightarrow> string list \<Rightarrow> nat \<Rightarrow> nat list \<Rightarrow> bool" where
  "hash_ok nb cs names k h \<longleftrightarrow>
     hash_inv nb cs k h \<and>
     (\<forall>i<k. reach h nb (h ! (2 + unat (elfhash (names ! i)) mod nb)) (i + 1))"

text \<open>The file name that \<^verbatim>\<open>Init\<close> appends to the dynamic string table.\<close>

definition basename_src :: "string \<Rightarrow> string" where
  "basename_src path =
     (case rfind path (CHR ''/'') of Some pos \<Rightarrow> substr path (pos + 1) | None \<Rightarrow> path)"

text \<open>The steps of \<^verbatim>\<open>Init\<close> before the hash table is generated.\<close>

definition Init_setup :: "elf_types \<Rightarrow> 'w::len ElfBuilder \<Rightarrow> 'w ElfBuilder" where
  "Init_setup T b = Init_sections (Init_null_hdr (Init_dynstr (Init_program_headers T b)))"

section \<open>Example configurations\<close>

definition example_symtab :: "32 ElfSymtabBuilder" where
  "example_symtab =
     AddSymbol ''oatlastword'' R_text 4092 True 4 STB_GLOBAL STT_OBJECT 0
       (AddSymbol ''oatexec'' R_text 0 True 4096 STB_GLOBAL STT_OBJECT 0
         (AddSymbol ''oatdata'' R_rodata 0 True 4096 STB_GLOBAL STT_OBJECT 0
           (ElfSymtabBuilder_ctor ElfTypes32 ''.dynsym'' SHT_DYNSYM ''.dynstr'' SHT_STRTAB True
              R_dynstr)))"

text \<open>An ELF32 file for x86 with 4096 bytes each of \<^verbatim>\<open>.rodata\<close>, \<^verbatim>\<open>.text\<close> and \<^verbatim>\<open>.bss\<close>, written
  to \<^verbatim>\<open>/tmp/foo/bar.oat\<close> without debug symbols; the same builder after a call of
  \<^verbatim>\<open>AddDynamicTag\<close> with \<open>DT_NULL\<close> and one with the tag 1 on its dynamic builder; the same
  builder with one raw section, not allocatable, registered twice; the same builder with
  one allocatable raw section registered twice; and a file that serves every request.\<close>

definition example_builder :: "32 ElfBuilder" where
  "example_builder =
     projr (ElfBuilder_ctor ElfTypes32 ''/tmp/foo/bar.oat'' kX86 0 4096 4096 4096 8192 4096 False)"

definition example_tags :: "32 AddDynamicTag_args list" where
  "example_tags = [\<lparr>t_tag = DT_NULL, t_value = 5, t_section = None\<rparr>,
                   \<lparr>t_tag = 1, t_value = 7, t_section = None\<rparr>]"

definition example_tags_builder :: "32 ElfBuilder" where
  "example_tags_builder =
     example_builder\<lparr>dynamic_builder :=
       AddDynamicTags example_tags (dynamic_builder example_builder)\<rparr>"

definition example_raw_builder :: "32 ElfBuilder" where
  "example_raw_builder =
     configure
       [Op_RawSection 0 (SetBuffer [1, 2, 3]
          (ElfRawSectionBuilder_ctor ''.debug_info'' SHT_PROGBITS 0 None 0 1 0)),
        Op_RegisterRawSection 0, Op_RegisterRawSection 0]
       example_builder"

definition example_alloc_builder :: "32 ElfBuilder" where
  "example_alloc_builder =
     configure
       [Op_RawSection 0 (SetBuffer [1, 2, 3]
          (ElfRawSectionBuilder_ctor ''.eh_frame'' SHT_PROGBITS SHF_ALLOC None 0 4 0)),
        Op_RegisterRawSection 0, Op_RegisterRawSection 0]
       example_builder"

definition accepting_file :: "32 word File" where
  "accepting_file = \<lparr>events = [], accepts = (\<lambda>_ _. True)\<rparr>"

section \<open>The hash table of the symbol table builder\<close>

lemma hash_inv_chainD:
  "hash_inv nb cs k h \<Longrightarrow> j < cs \<Longrightarrow>
     h ! (2 + nb + j) = 0 \<or> (j < h ! (2 + nb + j) \<and> h ! (2 + nb + j) \<le> k)"
  by (simp add: hash_inv_def)

lemma reach_nonzero: "reach h nb x y \<Longrightarrow> x \<noteq> 0"
  by (erule reach.cases) auto

lemma reach_chain_update:
  assumes "reach h nb x y" and "h ! (2 + nb + e) = 0"
  shows "reach (h[2 + nb + e := v]) nb x y"
  using assms
proof (induction rule: reach.induct)
  case (reach_here x)
  then show ?case by (simp add: reach.reach_here)
next
  case (reach_next x y)
  from reach_next.hyps(2) have nz: "h ! (2 + nb + x) \<noteq> 0" by (rule reach_nonzero)
  with reach_next.prems have "x \<noteq> e" by auto
  then have "h[2 + nb + e := v] ! (2 + nb + x) = h ! (2 + nb + x)" by simp
  with reach_next show ?case by (metis reach.reach_next)
qed

lemma reach_chain_extend:
  assumes "reach h nb x e" and "h ! (2 + nb + e) = 0" and "v \<noteq> 0" and "2 + nb + e < length h"
  shows "reach (h[2 + nb + e := v]) nb x v"
  using assms
proof (induction rule: reach.induct)
  case (reach_here x)
  have "h[2 + nb + x := v] ! (2 + nb + x) = v" using reach_here by simp
  moreover have "reach (h[2 + nb + x := v]) nb v v" using reach_here by (simp add: reach.reach_here)
  ultimately show ?case using reach_here by (metis reach.reach_next)
next
  case (reach_next x y)
  from reach_next.hyps(2) have nz: "h ! (2 + nb + x) \<noteq> 0" by (rule reach_nonzero)
  with reach_next.prems have "x \<noteq> y" by auto
  then have "h[2 + nb + y := v] ! (2 + nb + x) = h ! (2 + nb + x)" by simp
  with reach_next show ?case by (metis reach.reach_next)
qed

lemma reach_bucket_update:
  assumes "reach h nb x y" and "b < nb"
  shows "reach (h[2 + b := v]) nb x y"
  using assms
proof (induction rule: reach.induct)
  case (reach_here x)
  then show ?case by (simp add: reach.reach_here)
next
  case (reach_next x y)
  have "h[2 + b := v] ! (2 + nb + x) = h ! (2 + nb + x)" using reach_next.prems by simp
  with reach_next show ?case by (metis reach.reach_next)
qed

lemma chain_walk_ends:
  assumes inv: "hash_inv nb cs k h"
  shows "x < cs \<Longrightarrow> x \<noteq> 0 \<Longrightarrow>
     \<exists>e. chain_walk h (2 + nb) cs x = Some (Inr e) \<and> e < cs \<and> x \<le> e \<and> h ! (2 + nb + e) = 0 \<and> reach h nb x e"
proof (induction "cs - x" arbitrary: x rule: less_induct)
  case less
  show ?case
  proof (cases "h ! (2 + nb + x) = 0")
    case True
    then have "chain_walk h (2 + nb) cs x = Some (Inr x)"
      by (subst chain_walk.simps) simp
    with True less.prems show ?thesis by (auto intro: reach.reach_here)
  next
    case False
    let ?n = "h ! (2 + nb + x)"
    from inv less.prems False have gt: "x < ?n" and le: "?n \<le> k"
      unfolding hash_inv_def by auto
    from inv le have zero_above: "?n < cs"
      unfolding hash_inv_def by arith
    have "cs - ?n < cs - x" using gt zero_above by arith
    moreover have "?n \<noteq> 0" using False .
    ultimately obtain e where e: "chain_walk h (2 + nb) cs ?n = Some (Inr e)" "e < cs" "?n \<le> e"
        "h ! (2 + nb + e) = 0" "reach h nb ?n e"
      using less.hyps [of ?n] zero_above by blast
    have "chain_walk h (2 + nb) cs x = chain_walk h (2 + nb) cs ?n"
      using False zero_above by (subst chain_walk.simps) simp
    with e gt less.prems show ?thesis
      by (auto intro: reach.reach_next)
  qed
qed



lemma hash_inv_init: "hash_inv nb cs 0 ([nb, cs] @ replicate (nb + cs) 0)" if "0 < cs"
  using that unfolding hash_inv_def by (auto simp: nth_Cons')

lemma hash_ok_init: "0 < cs \<Longrightarrow> hash_ok nb cs names 0 ([nb, cs] @ replicate (nb + cs) 0)"
  unfolding hash_ok_def using hash_inv_init by simp

lemma hash_inv_bucket_update:
  assumes "hash_inv nb cs k h" and "b < nb" and "Suc k < cs"
  shows "hash_inv nb cs (Suc k) (h[2 + b := Suc k])"
  using assms unfolding hash_inv_def
  by (auto simp: nth_list_update le_Suc_eq)

lemma hash_inv_chain_update:
  assumes "hash_inv nb cs k h" and "e < cs" and "e \<le> k" and "Suc k < cs"
  shows "hash_inv nb cs (Suc k) (h[2 + nb + e := Suc k])"
  using assms unfolding hash_inv_def
  by (auto simp: nth_list_update le_Suc_eq)

lemma chain_walk_end_le:
  assumes "hash_inv nb cs k h" and "reach h nb x e" and "x \<le> k"
  shows "e \<le> k"
  using assms(2,1,3)
proof (induction rule: reach.induct)
  case (reach_here x)
  then show ?case by simp
next
  case (reach_next x y)
  from reach_next.hyps(2) have "h ! (2 + nb + x) \<noteq> 0" by (rule reach_nonzero)
  moreover have "x < cs" using reach_next.prems unfolding hash_inv_def by arith
  ultimately have "h ! (2 + nb + x) \<le> k" using reach_next.prems(1) unfolding hash_inv_def by auto
  then show ?case using reach_next by simp
qed

lemma hash_insert_step:
  assumes ok: "hash_ok nb cs names k h" and k: "Suc k < cs" and nb: "0 < nb"
  shows "\<exists>h'. hash_insert nb cs k (names ! k) h = Some (Inr h') \<and> hash_ok nb cs names (Suc k) h'"
proof -
  let ?b = "unat (elfhash (names ! k)) mod nb"
  from ok have inv: "hash_inv nb cs k h" and
    rch: "\<And>i. i < k \<Longrightarrow> reach h nb (h ! (2 + unat (elfhash (names ! i)) mod nb)) (i + 1)"
    unfolding hash_ok_def by auto
  have b: "?b < nb" using nb by simp
  have len: "length h = 2 + nb + cs" using inv unfolding hash_inv_def by simp
  show ?thesis
  proof (cases "h ! (2 + ?b) = 0")
    case True
    let ?h' = "h[2 + ?b := Suc k]"
    have ins: "hash_insert nb cs k (names ! k) h = Some (Inr ?h')"
      using True by (simp add: hash_insert_def)
    have inv': "hash_inv nb cs (Suc k) ?h'"
      using inv b k by (rule hash_inv_bucket_update)
    have "reach ?h' nb (?h' ! (2 + unat (elfhash (names ! i)) mod nb)) (i + 1)" if i: "i < Suc k" for i
    proof (cases "i = k")
      case True
      then have "?h' ! (2 + unat (elfhash (names ! i)) mod nb) = Suc k"
        using len b by simp
      then show ?thesis using True by (simp add: reach.reach_here)
    next
      case False
      with i have ik: "i < k" by simp
      let ?bi = "unat (elfhash (names ! i)) mod nb"
      from rch [OF ik] have r: "reach h nb (h ! (2 + ?bi)) (i + 1)" .
      then have "h ! (2 + ?bi) \<noteq> 0" by (rule reach_nonzero)
      with True have "?bi \<noteq> ?b" by auto
      then have "?h' ! (2 + ?bi) = h ! (2 + ?bi)" by simp
      with reach_bucket_update [OF r b] show ?thesis by simp
    qed
    with ins inv' show ?thesis unfolding hash_ok_def by auto
  next
    case False
    let ?x = "h ! (2 + ?b)"
    have xk: "?x \<le> k" using inv b unfolding hash_inv_def by auto
    have xcs: "?x < cs" using xk k by arith
    from chain_walk_ends [OF inv xcs False]
    obtain e where e: "chain_walk h (2 + nb) cs ?x = Some (Inr e)" "e < cs" "?x \<le> e"
      "h ! (2 + nb + e) = 0" "reach h nb ?x e" by blast
    have ek: "e \<le> k" using chain_walk_end_le [OF inv e(5) xk] .
    let ?h' = "h[2 + nb + e := Suc k]"
    have chk: "?h' ! (2 + nb + Suc k) = 0"
      using inv k ek unfolding hash_inv_def by auto
    have ins: "hash_insert nb cs k (names ! k) h = Some (Inr ?h')"
      using False xcs e(1) chk by (simp add: hash_insert_def)
    have inv': "hash_inv nb cs (Suc k) ?h'"
      using inv e(2) ek k by (rule hash_inv_chain_update)
    have bucket_same: "?h' ! (2 + c) = h ! (2 + c)" if "c < nb" for c
      using that by simp
    have "reach ?h' nb (?h' ! (2 + unat (elfhash (names ! i)) mod nb)) (i + 1)" if i: "i < Suc k" for i
    proof (cases "i = k")
      case True
      have "reach ?h' nb ?x (Suc k)"
        using e(5) e(4) _ _ by (rule reach_chain_extend) (use len e(2) in auto)
      then show ?thesis using True bucket_same [OF b] by simp
    next
      case False
      with i have ik: "i < k" by simp
      let ?bi = "unat (elfhash (names ! i)) mod nb"
      have bi: "?bi < nb" using nb by simp
      from rch [OF ik] have "reach h nb (h ! (2 + ?bi)) (i + 1)" .
      then have "reach ?h' nb (h ! (2 + ?bi)) (i + 1)" using e(4) by (rule reach_chain_update)
      then show ?thesis using bucket_same [OF bi] by simp
    qed
    with ins inv' show ?thesis unfolding hash_ok_def by auto
  qed
qed

lemma hash_loop_ok:
  assumes "hash_ok nb cs names k h" and "cs = length names + 1" and "0 < nb" and "k \<le> length names"
  shows "\<exists>h'. hash_loop nb cs k (drop k names) h = Some (Inr h') \<and>
           hash_ok nb cs names (length names) h'"
  using assms
proof (induction "length names - k" arbitrary: k h)
  case 0
  then show ?case by simp
next
  case (Suc d)
  then have k: "k < length names" by arith
  then have dr: "drop k names = names ! k # drop (Suc k) names"
    by (simp add: Cons_nth_drop_Suc)
  from Suc.prems k have "Suc k < cs" by simp
  from hash_insert_step [OF Suc.prems(1) this Suc.prems(3)]
  obtain h1 where h1: "hash_insert nb cs k (names ! k) h = Some (Inr h1)"
    "hash_ok nb cs names (Suc k) h1" by blast
  have "d = length names - Suc k" using Suc.hyps(2) by arith
  from Suc.hyps(1) [OF this h1(2) Suc.prems(2) Suc.prems(3)] k
  obtain h' where "hash_loop nb cs (Suc k) (drop (Suc k) names) h1 = Some (Inr h')"
    "hash_ok nb cs names (length names) h'" by auto
  with h1 dr show ?case by simp
qed

lemma GetSym_walk_found:
  assumes "reach h nb x y" and "hash_inv nb (length names + 1) (length names) h"
    and "distinct names" and "x \<le> length names" and "y = i + 1" and "i < length names"
  shows "GetSym_walk ([] # names) h (names ! i) x = Some (Found y)"
  using assms
proof (induction rule: reach.induct)
  case (reach_here x)
  then show ?case by (subst GetSym_walk.simps) simp
next
  case (reach_next x y)
  let ?n = "h ! (2 + nb + x)"
  have h0: "h ! 0 = nb" and len: "length h = 2 + nb + (length names + 1)"
    using reach_next.prems(1) unfolding hash_inv_def by auto
  have "x < length names + 1" using reach_next.prems(3) by simp
  with reach_next.prems(1) have "?n = 0 \<or> (x < ?n \<and> ?n \<le> length names)"
    by (rule hash_inv_chainD)
  then have "?n \<le> length names" by auto
  then have IH: "GetSym_walk ([] # names) h (names ! i) ?n = Some (Found y)"
    using reach_next by simp
  show ?case
  proof (cases "([] # names) ! x = names ! i")
    case True
    with reach_next.hyps(1) have "names ! (x - 1) = names ! i" by (simp add: nth_Cons')
    moreover have "x - 1 < length names" using reach_next.hyps(1) reach_next.prems(3) by arith
    ultimately have "x - 1 = i"
      using reach_next.prems(2,5) by (simp add: nth_eq_iff_index_eq)
    then have "x = y" using reach_next.hyps(1) reach_next.prems(4) by arith
    then show ?thesis using reach_next.hyps(1) reach_next.prems(3) True
      by (subst GetSym_walk.simps) simp
  next
    case False
    then show ?thesis using reach_next.hyps(1) reach_next.prems(3) h0 len IH
      by (subst GetSym_walk.simps) simp
  qed
qed

lemma select_nbuckets_pos: "0 < select_nbuckets n"
  unfolding select_nbuckets_def RoundUp_nat_def by (auto simp: not_less) 



lemma RoundUp_nat_2: "even (RoundUp_nat x 2) \<and> x \<le> RoundUp_nat x 2 \<and> RoundUp_nat x 2 < x + 2"
  unfolding RoundUp_nat_def by (simp; arith)

text \<open>
  Claim C1.  For every symbol list whose length fits an \<^verbatim>\<open>Elf_Word\<close>,
  \<^verbatim>\<open>GenerateHashContents\<close> returns (no check fails, every chain walk ends) a table whose
  first word, the bucket count, is 2 when there are fewer than 8 symbols, 4 when fewer than
  32, 16 when fewer than 256, and the count divided by 32 rounded up to a multiple of 2
  otherwise; whose second word, the chain count, is the number of symbols plus one for the
  null symbol;  and in which, when the names are pairwise distinct, the lookup of the name
  of symbol \<open>i\<close> (from the bucket of its \<^verbatim>\<open>elfhash\<close>, along the chain) finds index \<open>i + 1\<close>.
\<close>

theorem GenerateHashContents_correct:
  fixes b :: "'w::len ElfSymtabBuilder"
  assumes fits: "length (symbols b) + 1 < 2 ^ 32"
  shows "\<exists>tbl. GenerateHashContents b = Some (Inr tbl) \<and>
     tbl ! 0 = (let n = length (symbols b) in
                 if n < 8 then 2 else if n < 32 then 4 else if n < 256 then 16
                 else RoundUp_nat (n div 32) 2) \<and>
     tbl ! 1 = length (symbols b) + 1 \<and>
     length tbl = 2 + tbl ! 0 + tbl ! 1 \<and>
     (distinct (map sym_name (symbols b)) \<longrightarrow>
        (\<forall>i<length (symbols b).
           GetSym (symtab_names b) tbl (sym_name (symbols b ! i)) = Some (Found (i + 1))))"
proof -
  let ?names = "map sym_name (symbols b)"
  let ?nb = "select_nbuckets (length (symbols b))"
  let ?cs = "length ?names + 1"
  have nb: "0 < ?nb" by (rule select_nbuckets_pos)
  have "hash_ok ?nb ?cs ?names 0 ([?nb, ?cs] @ replicate (?nb + ?cs) 0)"
    by (rule hash_ok_init) simp
  from hash_loop_ok [OF this refl nb]
  obtain h where h: "hash_loop ?nb ?cs 0 ?names h0 = Some (Inr h)"
      "hash_ok ?nb ?cs ?names (length ?names) h"
    if "h0 = [?nb, ?cs] @ replicate (?nb + ?cs) 0" for h0
    by auto
  have gen: "GenerateHashContents b = Some (Inr h)"
    using h(1) by (simp add: GenerateHashContents_def SymtabGetSize_def Let_def)
  from h(2) have inv: "hash_inv ?nb ?cs (length ?names) h" and
    rch: "\<And>i. i < length ?names \<Longrightarrow>
            reach h ?nb (h ! (2 + unat (elfhash (?names ! i)) mod ?nb)) (i + 1)"
    unfolding hash_ok_def by auto
  from inv have h0: "h ! 0 = ?nb" and h1: "h ! 1 = ?cs" and len: "length h = 2 + ?nb + ?cs"
    unfolding hash_inv_def by auto
  have look: "GetSym (symtab_names b) h (sym_name (symbols b ! i)) = Some (Found (i + 1))"
    if d: "distinct ?names" and i: "i < length (symbols b)" for i
  proof -
    let ?x = "h ! (2 + unat (elfhash (?names ! i)) mod ?nb)"
    have "unat (elfhash (?names ! i)) mod ?nb < ?nb" using nb by simp
    then have "?x \<le> length ?names" using inv unfolding hash_inv_def by blast
    with rch [of i] inv d i
    have "GetSym_walk ([] # ?names) h (?names ! i) ?x = Some (Found (i + 1))"
      by (intro GetSym_walk_found [where nb = ?nb]) simp_all
    then show ?thesis using i h0 by (simp add: GetSym_def symtab_names_def)
  qed
  show ?thesis
    using gen h0 h1 len look by (auto simp: select_nbuckets_def Let_def)
qed



lemma example_symtab_names: "map sym_name (symbols example_symtab) = [''oatdata'', ''oatexec'', ''oatlastword'']"
  by (simp add: example_symtab_def AddSymbol_def ElfSymtabBuilder_ctor_def ElfSymtabBuilder.fields_def ElfSectionBuilder.extend_def)

lemma chain_walk_stop:
  "tbl ! (co + hv) = 0 \<Longrightarrow> chain_walk tbl co cs hv = Some (Inr hv)"
  by (subst chain_walk.simps) simp

lemma chain_walk_step:
  "tbl ! (co + hv) \<noteq> 0 \<Longrightarrow> tbl ! (co + hv) < cs \<Longrightarrow>
     chain_walk tbl co cs hv = chain_walk tbl co cs (tbl ! (co + hv))"
  by (subst chain_walk.simps) simp

lemma GetSym_walk_step:
  "indx \<noteq> 0 \<Longrightarrow> indx < length symtab \<Longrightarrow> symtab ! indx \<noteq> nm \<Longrightarrow>
   2 + tbl ! 0 + indx < length tbl \<Longrightarrow>
     GetSym_walk symtab tbl nm indx = GetSym_walk symtab tbl nm (tbl ! (2 + tbl ! 0 + indx))"
  by (subst GetSym_walk.simps) simp

lemma GetSym_walk_hit:
  "indx \<noteq> 0 \<Longrightarrow> indx < length symtab \<Longrightarrow> symtab ! indx = nm \<Longrightarrow>
     GetSym_walk symtab tbl nm indx = Some (Found indx)"
  by (subst GetSym_walk.simps) simp

lemma elfhash_oat:
  "unat (elfhash ''oatdata'') mod 2 = 1" "unat (elfhash ''oatexec'') mod 2 = 1"
  "unat (elfhash ''oatlastword'') mod 2 = 0"
  by (simp_all add: elfhash_def c_str_def NUL_def elfhash_step_def Let_def)

lemma example_symtab_hash: "GenerateHashContents example_symtab = Some (Inr [2, 4, 3, 1, 0, 2, 0, 0])"
  by (simp add: GenerateHashContents_def example_symtab_names SymtabGetSize_def select_nbuckets_def
        arg_cong [OF example_symtab_names, of length, simplified] hash_insert_def elfhash_oat
        chain_walk_stop chain_walk_step Let_def)


text \<open>The theorem at the three symbols every file has.\<close>

theorem GenerateHashContents_correct_witness:
  "GenerateHashContents example_symtab = Some (Inr [2, 4, 3, 1, 0, 2, 0, 0]) \<and>
   distinct (map sym_name (symbols example_symtab)) \<and>
   GetSym (symtab_names example_symtab) [2, 4, 3, 1, 0, 2, 0, 0] ''oatlastword'' = Some (Found 3)"
proof -
  have n: "map sym_name (symbols example_symtab) = [''oatdata'', ''oatexec'', ''oatlastword'']"
    by (rule example_symtab_names)
  have "length (map sym_name (symbols example_symtab)) = 3" unfolding n by simp
  then have l: "length (symbols example_symtab) = 3" by simp
  have g: "GenerateHashContents example_symtab = Some (Inr [2, 4, 3, 1, 0, 2, 0, 0])"
    by (rule example_symtab_hash)
  have d: "distinct (map sym_name (symbols example_symtab))" unfolding n by simp
  have "map sym_name (symbols example_symtab) ! 2 = ''oatlastword''" unfolding n by simp
  then have s: "sym_name (symbols example_symtab ! 2) = ''oatlastword''"
    using l by simp
  have f: "length (symbols example_symtab) + 1 < 2 ^ 32" unfolding l by simp
  from GenerateHashContents_correct [OF f]
  obtain tbl where H: "GenerateHashContents example_symtab = Some (Inr tbl)"
    and L: "distinct (map sym_name (symbols example_symtab)) \<longrightarrow>
        (\<forall>i<length (symbols example_symtab).
           GetSym (symtab_names example_symtab) tbl (sym_name (symbols example_symtab ! i)) = Some (Found (i + 1)))"
    by blast
  from H g have e: "tbl = [2, 4, 3, 1, 0, 2, 0, 0]" by simp
  have "2 < length (symbols example_symtab)" unfolding l by simp
  with L d have "GetSym (symtab_names example_symtab) tbl (sym_name (symbols example_symtab ! 2)) = Some (Found (2 + 1))"
    by blast
  then have "GetSym (symtab_names example_symtab) [2, 4, 3, 1, 0, 2, 0, 0] ''oatlastword'' = Some (Found 3)"
    unfolding e s by simp
  with g d show ?thesis by blast
qed


section \<open>What every step leaves alone\<close>

text \<open>Each step of the constructor, of \<^verbatim>\<open>Init\<close> and of \<^verbatim>\<open>Write\<close> assigns to a few members only.\<close>

lemma SetupEhdr_frame [simp]:
  "elf_file_path (SetupEhdr T b) = elf_file_path b"
  "add_symbols (SetupEhdr T b) = add_symbols b"
  "fatal_error (SetupEhdr T b) = fatal_error b"
  "program_headers (SetupEhdr T b) = program_headers b"
  "null_hdr (SetupEhdr T b) = null_hdr b"
  "shstrtab (SetupEhdr T b) = shstrtab b"
  "section_index (SetupEhdr T b) = section_index b"
  "dynstr (SetupEhdr T b) = dynstr b"
  "dynstr_soname_offset (SetupEhdr T b) = dynstr_soname_offset b"
  "section_ptrs (SetupEhdr T b) = section_ptrs b"
  "hash (SetupEhdr T b) = hash b"
  "text_builder (SetupEhdr T b) = text_builder b"
  "rodata_builder (SetupEhdr T b) = rodata_builder b"
  "bss_builder (SetupEhdr T b) = bss_builder b"
  "dynsym_builder (SetupEhdr T b) = dynsym_builder b"
  "symtab_builder (SetupEhdr T b) = symtab_builder b"
  "hash_builder (SetupEhdr T b) = hash_builder b"
  "dynamic_builder (SetupEhdr T b) = dynamic_builder b"
  "shstrtab_builder (SetupEhdr T b) = shstrtab_builder b"
  "other_builders (SetupEhdr T b) = other_builders b"
  "raw_objects (SetupEhdr T b) = raw_objects b"
  by (simp_all add: SetupEhdr_def)

lemma SetupDynamic_frame [simp]:
  "elf_file_path (SetupDynamic T b) = elf_file_path b"
  "add_symbols (SetupDynamic T b) = add_symbols b"
  "fatal_error (SetupDynamic T b) = fatal_error b"
  "program_headers (SetupDynamic T b) = program_headers b"
  "elf_header (SetupDynamic T b) = elf_header b"
  "null_hdr (SetupDynamic T b) = null_hdr b"
  "shstrtab (SetupDynamic T b) = shstrtab b"
  "section_index (SetupDynamic T b) = section_index b"
  "dynstr (SetupDynamic T b) = dynstr b"
  "dynstr_soname_offset (SetupDynamic T b) = dynstr_soname_offset b"
  "section_ptrs (SetupDynamic T b) = section_ptrs b"
  "hash (SetupDynamic T b) = hash b"
  "text_builder (SetupDynamic T b) = text_builder b"
  "rodata_builder (SetupDynamic T b) = rodata_builder b"
  "bss_builder (SetupDynamic T b) = bss_builder b"
  "dynsym_builder (SetupDynamic T b) = dynsym_builder b"
  "symtab_builder (SetupDynamic T b) = symtab_builder b"
  "hash_builder (SetupDynamic T b) = hash_builder b"
  "shstrtab_builder (SetupDynamic T b) = shstrtab_builder b"
  "other_builders (SetupDynamic T b) = other_builders b"
  "raw_objects (SetupDynamic T b) = raw_objects b"
  by (simp_all add: SetupDynamic_def Let_def)

lemma SetupRequiredSymbols_frame [simp]:
  "elf_file_path (SetupRequiredSymbols b) = elf_file_path b"
  "add_symbols (SetupRequiredSymbols b) = add_symbols b"
  "fatal_error (SetupRequiredSymbols b) = fatal_error b"
  "program_headers (SetupRequiredSymbols b) = program_headers b"
  "elf_header (SetupRequiredSymbols b) = elf_header b"
  "null_hdr (SetupRequiredSymbols b) = null_hdr b"
  "shstrtab (SetupRequiredSymbols b) = shstrtab b"
  "section_index (SetupRequiredSymbols b) = section_index b"
  "dynstr (SetupRequiredSymbols b) = dynstr b"
  "dynstr_soname_offset (SetupRequiredSymbols b) = dynstr_soname_offset b"
  "section_ptrs (SetupRequiredSymbols b) = section_ptrs b"
  "hash (SetupRequiredSymbols b) = hash b"
  "text_builder (SetupRequiredSymbols b) = text_builder b"
  "rodata_builder (SetupRequiredSymbols b) = rodata_builder b"
  "bss_builder (SetupRequiredSymbols b) = bss_builder b"
  "symtab_builder (SetupRequiredSymbols b) = symtab_builder b"
  "hash_builder (SetupRequiredSymbols b) = hash_builder b"
  "dynamic_builder (SetupRequiredSymbols b) = dynamic_builder b"
  "shstrtab_builder (SetupRequiredSymbols b) = shstrtab_builder b"
  "other_builders (SetupRequiredSymbols b) = other_builders b"
  "raw_objects (SetupRequiredSymbols b) = raw_objects b"
  by (simp_all add: SetupRequiredSymbols_def Let_def)

lemma RegisterRawSection_frame [simp]:
  "elf_file_path (RegisterRawSection bld b) = elf_file_path b"
  "add_symbols (RegisterRawSection bld b) = add_symbols b"
  "fatal_error (RegisterRawSection bld b) = fatal_error b"
  "program_headers (RegisterRawSection bld b) = program_headers b"
  "elf_header (RegisterRawSection bld b) = elf_header b"
  "null_hdr (RegisterRawSection bld b) = null_hdr b"
  "shstrtab (RegisterRawSection bld b) = shstrtab b"
  "section_index (RegisterRawSection bld b) = section_index b"
  "dynstr (RegisterRawSection bld b) = dynstr b"
  "dynstr_soname_offset (RegisterRawSection bld b) = dynstr_soname_offset b"
  "section_ptrs (RegisterRawSection bld b) = section_ptrs b"
  "hash (RegisterRawSection bld b) = hash b"
  "text_builder (RegisterRawSection bld b) = text_builder b"
  "rodata_builder (RegisterRawSection bld b) = rodata_builder b"
  "bss_builder (RegisterRawSection bld b) = bss_builder b"
  "dynsym_builder (RegisterRawSection bld b) = dynsym_builder b"
  "symtab_builder (RegisterRawSection bld b) = symtab_builder b"
  "hash_builder (RegisterRawSection bld b) = hash_builder b"
  "dynamic_builder (RegisterRawSection bld b) = dynamic_builder b"
  "shstrtab_builder (RegisterRawSection bld b) = shstrtab_builder b"
  "raw_objects (RegisterRawSection bld b) = raw_objects b"
  by (simp_all add: RegisterRawSection_def)

lemma Init_program_headers_frame [simp]:
  "elf_file_path (Init_program_headers T b) = elf_file_path b"
  "add_symbols (Init_program_headers T b) = add_symbols b"
  "fatal_error (Init_program_headers T b) = fatal_error b"
  "elf_header (Init_program_headers T b) = elf_header b"
  "null_hdr (Init_program_headers T b) = null_hdr b"
  "shstrtab (Init_program_headers T b) = shstrtab b"
  "section_index (Init_program_headers T b) = section_index b"
  "dynstr (Init_program_headers T b) = dynstr b"
  "dynstr_soname_offset (Init_program_headers T b) = dynstr_soname_offset b"
  "section_ptrs (Init_program_headers T b) = section_ptrs b"
  "hash (Init_program_headers T b) = hash b"
  "text_builder (Init_program_headers T b) = text_builder b"
  "rodata_builder (Init_program_headers T b) = rodata_builder b"
  "bss_builder (Init_program_headers T b) = bss_builder b"
  "dynsym_builder (Init_program_headers T b) = dynsym_builder b"
  "symtab_builder (Init_program_headers T b) = symtab_builder b"
  "hash_builder (Init_program_headers T b) = hash_builder b"
  "dynamic_builder (Init_program_headers T b) = dynamic_builder b"
  "shstrtab_builder (Init_program_headers T b) = shstrtab_builder b"
  "other_builders (Init_program_headers T b) = other_builders b"
  "raw_objects (Init_program_headers T b) = raw_objects b"
  by (simp_all add: Init_program_headers_def)

lemma Init_dynstr_frame [simp]:
  "elf_file_path (Init_dynstr b) = elf_file_path b"
  "add_symbols (Init_dynstr b) = add_symbols b"
  "fatal_error (Init_dynstr b) = fatal_error b"
  "program_headers (Init_dynstr b) = program_headers b"
  "elf_header (Init_dynstr b) = elf_header b"
  "null_hdr (Init_dynstr b) = null_hdr b"
  "shstrtab (Init_dynstr b) = shstrtab b"
  "section_index (Init_dynstr b) = section_index b"
  "section_ptrs (Init_dynstr b) = section_ptrs b"
  "hash (Init_dynstr b) = hash b"
  "text_builder (Init_dynstr b) = text_builder b"
  "rodata_builder (Init_dynstr b) = rodata_builder b"
  "bss_builder (Init_dynstr b) = bss_builder b"
  "symtab_builder (Init_dynstr b) = symtab_builder b"
  "hash_builder (Init_dynstr b) = hash_builder b"
  "dynamic_builder (Init_dynstr b) = dynamic_builder b"
  "shstrtab_builder (Init_dynstr b) = shstrtab_builder b"
  "other_builders (Init_dynstr b) = other_builders b"
  "raw_objects (Init_dynstr b) = raw_objects b"
  by (simp_all add: Init_dynstr_def Let_def split_beta)

lemma Init_null_hdr_frame [simp]:
  "elf_file_path (Init_null_hdr b) = elf_file_path b"
  "add_symbols (Init_null_hdr b) = add_symbols b"
  "fatal_error (Init_null_hdr b) = fatal_error b"
  "program_headers (Init_null_hdr b) = program_headers b"
  "elf_header (Init_null_hdr b) = elf_header b"
  "dynstr (Init_null_hdr b) = dynstr b"
  "dynstr_soname_offset (Init_null_hdr b) = dynstr_soname_offset b"
  "hash (Init_null_hdr b) = hash b"
  "text_builder (Init_null_hdr b) = text_builder b"
  "rodata_builder (Init_null_hdr b) = rodata_builder b"
  "bss_builder (Init_null_hdr b) = bss_builder b"
  "dynsym_builder (Init_null_hdr b) = dynsym_builder b"
  "symtab_builder (Init_null_hdr b) = symtab_builder b"
  "hash_builder (Init_null_hdr b) = hash_builder b"
  "dynamic_builder (Init_null_hdr b) = dynamic_builder b"
  "shstrtab_builder (Init_null_hdr b) = shstrtab_builder b"
  "other_builders (Init_null_hdr b) = other_builders b"
  "raw_objects (Init_null_hdr b) = raw_objects b"
  by (simp_all add: Init_null_hdr_def Let_def)

lemma setup_dynsym_frame [simp]:
  "elf_file_path (setup_section R_dynsym dynsym_builder dynsym_builder_update b) = elf_file_path b"
  "add_symbols (setup_section R_dynsym dynsym_builder dynsym_builder_update b) = add_symbols b"
  "fatal_error (setup_section R_dynsym dynsym_builder dynsym_builder_update b) = fatal_error b"
  "program_headers (setup_section R_dynsym dynsym_builder dynsym_builder_update b) = program_headers b"
  "elf_header (setup_section R_dynsym dynsym_builder dynsym_builder_update b) = elf_header b"
  "null_hdr (setup_section R_dynsym dynsym_builder dynsym_builder_update b) = null_hdr b"
  "dynstr (setup_section R_dynsym dynsym_builder dynsym_builder_update b) = dynstr b"
  "dynstr_soname_offset (setup_section R_dynsym dynsym_builder dynsym_builder_update b) = dynstr_soname_offset b"
  "hash (setup_section R_dynsym dynsym_builder dynsym_builder_update b) = hash b"
  "text_builder (setup_section R_dynsym dynsym_builder dynsym_builder_update b) = text_builder b"
  "rodata_builder (setup_section R_dynsym dynsym_builder dynsym_builder_update b) = rodata_builder b"
  "bss_builder (setup_section R_dynsym dynsym_builder dynsym_builder_update b) = bss_builder b"
  "symtab_builder (setup_section R_dynsym dynsym_builder dynsym_builder_update b) = symtab_builder b"
  "hash_builder (setup_section R_dynsym dynsym_builder dynsym_builder_update b) = hash_builder b"
  "dynamic_builder (setup_section R_dynsym dynsym_builder dynsym_builder_update b) = dynamic_builder b"
  "shstrtab_builder (setup_section R_dynsym dynsym_builder dynsym_builder_update b) = shstrtab_builder b"
  "other_builders (setup_section R_dynsym dynsym_builder dynsym_builder_update b) = other_builders b"
  "raw_objects (setup_section R_dynsym dynsym_builder dynsym_builder_update b) = raw_objects b"
  by (simp_all add: setup_section_def Let_def split_beta upd_dynstr_def upd_strtab_def upd_other_def)

lemma setup_dynstr_frame [simp]:
  "elf_file_path (setup_section R_dynstr (\<lambda>b. strtab (dynsym_builder b)) upd_dynstr b) = elf_file_path b"
  "add_symbols (setup_section R_dynstr (\<lambda>b. strtab (dynsym_builder b)) upd_dynstr b) = add_symbols b"
  "fatal_error (setup_section R_dynstr (\<lambda>b. strtab (dynsym_builder b)) upd_dynstr b) = fatal_error b"
  "program_headers (setup_section R_dynstr (\<lambda>b. strtab (dynsym_builder b)) upd_dynstr b) = program_headers b"
  "elf_header (setup_section R_dynstr (\<lambda>b. strtab (dynsym_builder b)) upd_dynstr b) = elf_header b"
  "null_hdr (setup_section R_dynstr (\<lambda>b. strtab (dynsym_builder b)) upd_dynstr b) = null_hdr b"
  "dynstr (setup_section R_dynstr (\<lambda>b. strtab (dynsym_builder b)) upd_dynstr b) = dynstr b"
  "dynstr_soname_offset (setup_section R_dynstr (\<lambda>b. strtab (dynsym_builder b)) upd_dynstr b) = dynstr_soname_offset b"
  "hash (setup_section R_dynstr (\<lambda>b. strtab (dynsym_builder b)) upd_dynstr b) = hash b"
  "text_builder (setup_section R_dynstr (\<lambda>b. strtab (dynsym_builder b)) upd_dynstr b) = text_builder b"
  "rodata_builder (setup_section R_dynstr (\<lambda>b. strtab (dynsym_builder b)) upd_dynstr b) = rodata_builder b"
  "bss_builder (setup_section R_dynstr (\<lambda>b. strtab (dynsym_builder b)) upd_dynstr b) = bss_builder b"
  "symtab_builder (setup_section R_dynstr (\<lambda>b. strtab (dynsym_builder b)) upd_dynstr b) = symtab_builder b"
  "hash_builder (setup_section R_dynstr (\<lambda>b. strtab (dynsym_builder b)) upd_dynstr b) = hash_builder b"
  "dynamic_builder (setup_section R_dynstr (\<lambda>b. strtab (dynsym_builder b)) upd_dynstr b) = dynamic_builder b"
  "shstrtab_builder (setup_section R_dynstr (\<lambda>b. strtab (dynsym_builder b)) upd_dynstr b) = shstrtab_builder b"
  "other_builders (setup_section R_dynstr (\<lambda>b. strtab (dynsym_builder b)) upd_dynstr b) = other_builders b"
  "raw_objects (setup_section R_dynstr (\<lambda>b. strtab (dynsym_builder b)) upd_dynstr b) = raw_objects b"
  by (simp_all add: setup_section_def Let_def split_beta upd_dynstr_def upd_strtab_def upd_other_def)

lemma setup_hash_frame [simp]:
  "elf_file_path (setup_section R_hash hash_builder hash_builder_update b) = elf_file_path b"
  "add_symbols (setup_section R_hash hash_builder hash_builder_update b) = add_symbols b"
  "fatal_error (setup_section R_hash hash_builder hash_builder_update b) = fatal_error b"
  "program_headers (setup_section R_hash hash_builder hash_builder_update b) = program_headers b"
  "elf_header (setup_section R_hash hash_builder hash_builder_update b) = elf_header b"
  "null_hdr (setup_section R_hash hash_builder hash_builder_update b) = null_hdr b"
  "dynstr (setup_section R_hash hash_builder hash_builder_update b) = dynstr b"
  "dynstr_soname_offset (setup_section R_hash hash_builder hash_builder_update b) = dynstr_soname_offset b"
  "hash (setup_section R_hash hash_builder hash_builder_update b) = hash b"
  "text_builder (setup_section R_hash hash_builder hash_builder_update b) = text_builder b"
  "rodata_builder (setup_section R_hash hash_builder hash_builder_update b) = rodata_builder b"
  "bss_builder (setup_section R_hash hash_builder hash_builder_update b) = bss_builder b"
  "dynsym_builder (setup_section R_hash hash_builder hash_builder_update b) = dynsym_builder b"
  "symtab_builder (setup_section R_hash hash_builder hash_builder_update b) = symtab_builder b"
  "dynamic_builder (setup_section R_hash hash_builder hash_builder_update b) = dynamic_builder b"
  "shstrtab_builder (setup_section R_hash hash_builder hash_builder_update b) = shstrtab_builder b"
  "other_builders (setup_section R_hash hash_builder hash_builder_update b) = other_builders b"
  "raw_objects (setup_section R_hash hash_builder hash_builder_update b) = raw_objects b"
  by (simp_all add: setup_section_def Let_def split_beta upd_dynstr_def upd_strtab_def upd_other_def)

lemma setup_rodata_frame [simp]:
  "elf_file_path (setup_section R_rodata rodata_builder rodata_builder_update b) = elf_file_path b"
  "add_symbols (setup_section R_rodata rodata_builder rodata_builder_update b) = add_symbols b"
  "fatal_error (setup_section R_rodata rodata_builder rodata_builder_update b) = fatal_error b"
  "program_headers (setup_section R_rodata rodata_builder rodata_builder_update b) = program_headers b"
  "elf_header (setup_section R_rodata rodata_builder rodata_builder_update b) = elf_header b"
  "null_hdr (setup_section R_rodata rodata_builder rodata_builder_update b) = null_hdr b"
  "dynstr (setup_section R_rodata rodata_builder rodata_builder_update b) = dynstr b"
  "dynstr_soname_offset (setup_section R_rodata rodata_builder rodata_builder_update b) = dynstr_soname_offset b"
  "hash (setup_section R_rodata rodata_builder rodata_builder_update b) = hash b"
  "text_builder (setup_section R_rodata rodata_builder rodata_builder_update b) = text_builder b"
  "bss_builder (setup_section R_rodata rodata_builder rodata_builder_update b) = bss_builder b"
  "dynsym_builder (setup_section R_rodata rodata_builder rodata_builder_update b) = dynsym_builder b"
  "symtab_builder (setup_section R_rodata rodata_builder rodata_builder_update b) = symtab_builder b"
  "hash_builder (setup_section R_rodata rodata_builder rodata_builder_update b) = hash_builder b"
  "dynamic_builder (setup_section R_rodata rodata_builder rodata_builder_update b) = dynamic_builder b"
  "shstrtab_builder (setup_section R_rodata rodata_builder rodata_builder_update b) = shstrtab_builder b"
  "other_builders (setup_section R_rodata rodata_builder rodata_builder_update b) = other_builders b"
  "raw_objects (setup_section R_rodata rodata_builder rodata_builder_update b) = raw_objects b"
  by (simp_all add: setup_section_def Let_def split_beta upd_dynstr_def upd_strtab_def upd_other_def)

lemma setup_text_frame [simp]:
  "elf_file_path (setup_section R_text text_builder text_builder_update b) = elf_file_path b"
  "add_symbols (setup_section R_text text_builder text_builder_update b) = add_symbols b"
  "fatal_error (setup_section R_text text_builder text_builder_update b) = fatal_error b"
  "program_headers (setup_section R_text text_builder text_builder_update b) = program_headers b"
  "elf_header (setup_section R_text text_builder text_builder_update b) = elf_header b"
  "null_hdr (setup_section R_text text_builder text_builder_update b) = null_hdr b"
  "dynstr (setup_section R_text text_builder text_builder_update b) = dynstr b"
  "dynstr_soname_offset (setup_section R_text text_builder text_builder_update b) = dynstr_soname_offset b"
  "hash (setup_section R_text text_builder text_builder_update b) = hash b"
  "rodata_builder (setup_section R_text text_builder text_builder_update b) = rodata_builder b"
  "bss_builder (setup_section R_text text_builder text_builder_update b) = bss_builder b"
  "dynsym_builder (setup_section R_text text_builder text_builder_update b) = dynsym_builder b"
  "symtab_builder (setup_section R_text text_builder text_builder_update b) = symtab_builder b"
  "hash_builder (setup_section R_text text_builder text_builder_update b) = hash_builder b"
  "dynamic_builder (setup_section R_text text_builder text_builder_update b) = dynamic_builder b"
  "shstrtab_builder (setup_section R_text text_builder text_builder_update b) = shstrtab_builder b"
  "other_builders (setup_section R_text text_builder text_builder_update b) = other_builders b"
  "raw_objects (setup_section R_text text_builder text_builder_update b) = raw_objects b"
  by (simp_all add: setup_section_def Let_def split_beta upd_dynstr_def upd_strtab_def upd_other_def)

lemma setup_bss_frame [simp]:
  "elf_file_path (setup_section R_bss bss_builder bss_builder_update b) = elf_file_path b"
  "add_symbols (setup_section R_bss bss_builder bss_builder_update b) = add_symbols b"
  "fatal_error (setup_section R_bss bss_builder bss_builder_update b) = fatal_error b"
  "program_headers (setup_section R_bss bss_builder bss_builder_update b) = program_headers b"
  "elf_header (setup_section R_bss bss_builder bss_builder_update b) = elf_header b"
  "null_hdr (setup_section R_bss bss_builder bss_builder_update b) = null_hdr b"
  "dynstr (setup_section R_bss bss_builder bss_builder_update b) = dynstr b"
  "dynstr_soname_offset (setup_section R_bss bss_builder bss_builder_update b) = dynstr_soname_offset b"
  "hash (setup_section R_bss bss_builder bss_builder_update b) = hash b"
  "text_builder (setup_section R_bss bss_builder bss_builder_update b) = text_builder b"
  "rodata_builder (setup_section R_bss bss_builder bss_builder_update b) = rodata_builder b"
  "dynsym_builder (setup_section R_bss bss_builder bss_builder_update b) = dynsym_builder b"
  "symtab_builder (setup_section R_bss bss_builder bss_builder_update b) = symtab_builder b"
  "hash_builder (setup_section R_bss bss_builder bss_builder_update b) = hash_builder b"
  "dynamic_builder (setup_section R_bss bss_builder bss_builder_update b) = dynamic_builder b"
  "shstrtab_builder (setup_section R_bss bss_builder bss_builder_update b) = shstrtab_builder b"
  "other_builders (setup_section R_bss bss_builder bss_builder_update b) = other_builders b"
  "raw_objects (setup_section R_bss bss_builder bss_builder_update b) = raw_objects b"
  by (simp_all add: setup_section_def Let_def split_beta upd_dynstr_def upd_strtab_def upd_other_def)

lemma setup_dynamic_frame [simp]:
  "elf_file_path (setup_section R_dynamic dynamic_builder dynamic_builder_update b) = elf_file_path b"
  "add_symbols (setup_section R_dynamic dynamic_builder dynamic_builder_update b) = add_symbols b"
  "fatal_error (setup_section R_dynamic dynamic_builder dynamic_builder_update b) = fatal_error b"
  "program_headers (setup_section R_dynamic dynamic_builder dynamic_builder_update b) = program_headers b"
  "elf_header (setup_section R_dynamic dynamic_builder dynamic_builder_update b) = elf_header b"
  "null_hdr (setup_section R_dynamic dynamic_builder dynamic_builder_update b) = null_hdr b"
  "dynstr (setup_section R_dynamic dynamic_builder dynamic_builder_update b) = dynstr b"
  "dynstr_soname_offset (setup_section R_dynamic dynamic_builder dynamic_builder_update b) = dynstr_soname_offset b"
  "hash (setup_section R_dynamic dynamic_builder dynamic_builder_update b) = hash b"
  "text_builder (setup_section R_dynamic dynamic_builder dynamic_builder_update b) = text_builder b"
  "rodata_builder (setup_section R_dynamic dynamic_builder dynamic_builder_update b) = rodata_builder b"
  "bss_builder (setup_section R_dynamic dynamic_builder dynamic_builder_update b) = bss_builder b"
  "dynsym_builder (setup_section R_dynamic dynamic_builder dynamic_builder_update b) = dynsym_builder b"
  "symtab_builder (setup_section R_dynamic dynamic_builder dynamic_builder_update b) = symtab_builder b"
  "hash_builder (setup_section R_dynamic dynamic_builder dynamic_builder_update b) = hash_builder b"
  "shstrtab_builder (setup_section R_dynamic dynamic_builder dynamic_builder_update b) = shstrtab_builder b"
  "other_builders (setup_section R_dynamic dynamic_builder dynamic_builder_update b) = other_builders b"
  "raw_objects (setup_section R_dynamic dynamic_builder dynamic_builder_update b) = raw_objects b"
  by (simp_all add: setup_section_def Let_def split_beta upd_dynstr_def upd_strtab_def upd_other_def)

lemma setup_symtab_frame [simp]:
  "elf_file_path (setup_section R_symtab symtab_builder symtab_builder_update b) = elf_file_path b"
  "add_symbols (setup_section R_symtab symtab_builder symtab_builder_update b) = add_symbols b"
  "fatal_error (setup_section R_symtab symtab_builder symtab_builder_update b) = fatal_error b"
  "program_headers (setup_section R_symtab symtab_builder symtab_builder_update b) = program_headers b"
  "elf_header (setup_section R_symtab symtab_builder symtab_builder_update b) = elf_header b"
  "null_hdr (setup_section R_symtab symtab_builder symtab_builder_update b) = null_hdr b"
  "dynstr (setup_section R_symtab symtab_builder symtab_builder_update b) = dynstr b"
  "dynstr_soname_offset (setup_section R_symtab symtab_builder symtab_builder_update b) = dynstr_soname_offset b"
  "hash (setup_section R_symtab symtab_builder symtab_builder_update b) = hash b"
  "text_builder (setup_section R_symtab symtab_builder symtab_builder_update b) = text_builder b"
  "rodata_builder (setup_section R_symtab symtab_builder symtab_builder_update b) = rodata_builder b"
  "bss_builder (setup_section R_symtab symtab_builder symtab_builder_update b) = bss_builder b"
  "dynsym_builder (setup_section R_symtab symtab_builder symtab_builder_update b) = dynsym_builder b"
  "hash_builder (setup_section R_symtab symtab_builder symtab_builder_update b) = hash_builder b"
  "dynamic_builder (setup_section R_symtab symtab_builder symtab_builder_update b) = dynamic_builder b"
  "shstrtab_builder (setup_section R_symtab symtab_builder symtab_builder_update b) = shstrtab_builder b"
  "other_builders (setup_section R_symtab symtab_builder symtab_builder_update b) = other_builders b"
  "raw_objects (setup_section R_symtab symtab_builder symtab_builder_update b) = raw_objects b"
  by (simp_all add: setup_section_def Let_def split_beta upd_dynstr_def upd_strtab_def upd_other_def)

lemma setup_strtab_frame [simp]:
  "elf_file_path (setup_section R_strtab (\<lambda>b. strtab (symtab_builder b)) upd_strtab b) = elf_file_path b"
  "add_symbols (setup_section R_strtab (\<lambda>b. strtab (symtab_builder b)) upd_strtab b) = add_symbols b"
  "fatal_error (setup_section R_strtab (\<lambda>b. strtab (symtab_builder b)) upd_strtab b) = fatal_error b"
  "program_headers (setup_section R_strtab (\<lambda>b. strtab (symtab_builder b)) upd_strtab b) = program_headers b"
  "elf_header (setup_section R_strtab (\<lambda>b. strtab (symtab_builder b)) upd_strtab b) = elf_header b"
  "null_hdr (setup_section R_strtab (\<lambda>b. strtab (symtab_builder b)) upd_strtab b) = null_hdr b"
  "dynstr (setup_section R_strtab (\<lambda>b. strtab (symtab_builder b)) upd_strtab b) = dynstr b"
  "dynstr_soname_offset (setup_section R_strtab (\<lambda>b. strtab (symtab_builder b)) upd_strtab b) = dynstr_soname_offset b"
  "hash (setup_section R_strtab (\<lambda>b. strtab (symtab_builder b)) upd_strtab b) = hash b"
  "text_builder (setup_section R_strtab (\<lambda>b. strtab (symtab_builder b)) upd_strtab b) = text_builder b"
  "rodata_builder (setup_section R_strtab (\<lambda>b. strtab (symtab_builder b)) upd_strtab b) = rodata_builder b"
  "bss_builder (setup_section R_strtab (\<lambda>b. strtab (symtab_builder b)) upd_strtab b) = bss_builder b"
  "dynsym_builder (setup_section R_strtab (\<lambda>b. strtab (symtab_builder b)) upd_strtab b) = dynsym_builder b"
  "hash_builder (setup_section R_strtab (\<lambda>b. strtab (symtab_builder b)) upd_strtab b) = hash_builder b"
  "dynamic_builder (setup_section R_strtab (\<lambda>b. strtab (symtab_builder b)) upd_strtab b) = dynamic_builder b"
  "shstrtab_builder (setup_section R_strtab (\<lambda>b. strtab (symtab_builder b)) upd_strtab b) = shstrtab_builder b"
  "other_builders (setup_section R_strtab (\<lambda>b. strtab (symtab_builder b)) upd_strtab b) = other_builders b"
  "raw_objects (setup_section R_strtab (\<lambda>b. strtab (symtab_builder b)) upd_strtab b) = raw_objects b"
  by (simp_all add: setup_section_def Let_def split_beta upd_dynstr_def upd_strtab_def upd_other_def)

lemma setup_shstrtab_frame [simp]:
  "elf_file_path (setup_section R_shstrtab shstrtab_builder shstrtab_builder_update b) = elf_file_path b"
  "add_symbols (setup_section R_shstrtab shstrtab_builder shstrtab_builder_update b) = add_symbols b"
  "fatal_error (setup_section R_shstrtab shstrtab_builder shstrtab_builder_update b) = fatal_error b"
  "program_headers (setup_section R_shstrtab shstrtab_builder shstrtab_builder_update b) = program_headers b"
  "elf_header (setup_section R_shstrtab shstrtab_builder shstrtab_builder_update b) = elf_header b"
  "null_hdr (setup_section R_shstrtab shstrtab_builder shstrtab_builder_update b) = null_hdr b"
  "dynstr (setup_section R_shstrtab shstrtab_builder shstrtab_builder_update b) = dynstr b"
  "dynstr_soname_offset (setup_section R_shstrtab shstrtab_builder shstrtab_builder_update b) = dynstr_soname_offset b"
  "hash (setup_section R_shstrtab shstrtab_builder shstrtab_builder_update b) = hash b"
  "text_builder (setup_section R_shstrtab shstrtab_builder shstrtab_builder_update b) = text_builder b"
  "rodata_builder (setup_section R_shstrtab shstrtab_builder shstrtab_builder_update b) = rodata_builder b"
  "bss_builder (setup_section R_shstrtab shstrtab_builder shstrtab_builder_update b) = bss_builder b"
  "dynsym_builder (setup_section R_shstrtab shstrtab_builder shstrtab_builder_update b) = dynsym_builder b"
  "symtab_builder (setup_section R_shstrtab shstrtab_builder shstrtab_builder_update b) = symtab_builder b"
  "hash_builder (setup_section R_shstrtab shstrtab_builder shstrtab_builder_update b) = hash_builder b"
  "dynamic_builder (setup_section R_shstrtab shstrtab_builder shstrtab_builder_update b) = dynamic_builder b"
  "other_builders (setup_section R_shstrtab shstrtab_builder shstrtab_builder_update b) = other_builders b"
  "raw_objects (setup_section R_shstrtab shstrtab_builder shstrtab_builder_update b) = raw_objects b"
  by (simp_all add: setup_section_def Let_def split_beta upd_dynstr_def upd_strtab_def upd_other_def)

lemma setup_other_frame [simp]:
  "elf_file_path (setup_section (R_other i) (\<lambda>b. raw_objects b i) (upd_other i) b) = elf_file_path b"
  "add_symbols (setup_section (R_other i) (\<lambda>b. raw_objects b i) (upd_other i) b) = add_symbols b"
  "fatal_error (setup_section (R_other i) (\<lambda>b. raw_objects b i) (upd_other i) b) = fatal_error b"
  "program_headers (setup_section (R_other i) (\<lambda>b. raw_objects b i) (upd_other i) b) = program_headers b"
  "elf_header (setup_section (R_other i) (\<lambda>b. raw_objects b i) (upd_other i) b) = elf_header b"
  "null_hdr (setup_section (R_other i) (\<lambda>b. raw_objects b i) (upd_other i) b) = null_hdr b"
  "dynstr (setup_section (R_other i) (\<lambda>b. raw_objects b i) (upd_other i) b) = dynstr b"
  "dynstr_soname_offset (setup_section (R_other i) (\<lambda>b. raw_objects b i) (upd_other i) b) = dynstr_soname_offset b"
  "hash (setup_section (R_other i) (\<lambda>b. raw_objects b i) (upd_other i) b) = hash b"
  "text_builder (setup_section (R_other i) (\<lambda>b. raw_objects b i) (upd_other i) b) = text_builder b"
  "rodata_builder (setup_section (R_other i) (\<lambda>b. raw_objects b i) (upd_other i) b) = rodata_builder b"
  "bss_builder (setup_section (R_other i) (\<lambda>b. raw_objects b i) (upd_other i) b) = bss_builder b"
  "dynsym_builder (setup_section (R_other i) (\<lambda>b. raw_objects b i) (upd_other i) b) = dynsym_builder b"
  "symtab_builder (setup_section (R_other i) (\<lambda>b. raw_objects b i) (upd_other i) b) = symtab_builder b"
  "hash_builder (setup_section (R_other i) (\<lambda>b. raw_objects b i) (upd_other i) b) = hash_builder b"
  "dynamic_builder (setup_section (R_other i) (\<lambda>b. raw_objects b i) (upd_other i) b) = dynamic_builder b"
  "shstrtab_builder (setup_section (R_other i) (\<lambda>b. raw_objects b i) (upd_other i) b) = shstrtab_builder b"
  "other_builders (setup_section (R_other i) (\<lambda>b. raw_objects b i) (upd_other i) b) = other_builders b"
  by (simp_all add: setup_section_def Let_def split_beta upd_dynstr_def upd_strtab_def upd_other_def)

lemma Init_sections_frame [simp]:
  "elf_file_path (Init_sections b) = elf_file_path b"
  "add_symbols (Init_sections b) = add_symbols b"
  "fatal_error (Init_sections b) = fatal_error b"
  "program_headers (Init_sections b) = program_headers b"
  "elf_header (Init_sections b) = elf_header b"
  "null_hdr (Init_sections b) = null_hdr b"
  "dynstr (Init_sections b) = dynstr b"
  "dynstr_soname_offset (Init_sections b) = dynstr_soname_offset b"
  "hash (Init_sections b) = hash b"
  "symtab_builder (Init_sections b) = symtab_builder b"
  "shstrtab_builder (Init_sections b) = shstrtab_builder b"
  "other_builders (Init_sections b) = other_builders b"
  "raw_objects (Init_sections b) = raw_objects b"
  by (simp_all add: Init_sections_def Let_def)

lemma Init_layout_dynsym_frame [simp]:
  "elf_file_path (Init_layout_dynsym T b) = elf_file_path b"
  "add_symbols (Init_layout_dynsym T b) = add_symbols b"
  "fatal_error (Init_layout_dynsym T b) = fatal_error b"
  "program_headers (Init_layout_dynsym T b) = program_headers b"
  "elf_header (Init_layout_dynsym T b) = elf_header b"
  "null_hdr (Init_layout_dynsym T b) = null_hdr b"
  "shstrtab (Init_layout_dynsym T b) = shstrtab b"
  "section_index (Init_layout_dynsym T b) = section_index b"
  "dynstr (Init_layout_dynsym T b) = dynstr b"
  "dynstr_soname_offset (Init_layout_dynsym T b) = dynstr_soname_offset b"
  "section_ptrs (Init_layout_dynsym T b) = section_ptrs b"
  "hash (Init_layout_dynsym T b) = hash b"
  "text_builder (Init_layout_dynsym T b) = text_builder b"
  "rodata_builder (Init_layout_dynsym T b) = rodata_builder b"
  "bss_builder (Init_layout_dynsym T b) = bss_builder b"
  "symtab_builder (Init_layout_dynsym T b) = symtab_builder b"
  "hash_builder (Init_layout_dynsym T b) = hash_builder b"
  "dynamic_builder (Init_layout_dynsym T b) = dynamic_builder b"
  "shstrtab_builder (Init_layout_dynsym T b) = shstrtab_builder b"
  "other_builders (Init_layout_dynsym T b) = other_builders b"
  "raw_objects (Init_layout_dynsym T b) = raw_objects b"
  by (simp_all add: Init_layout_dynsym_def Let_def)

lemma Init_layout_dynstr_frame [simp]:
  "elf_file_path (Init_layout_dynstr b) = elf_file_path b"
  "add_symbols (Init_layout_dynstr b) = add_symbols b"
  "fatal_error (Init_layout_dynstr b) = fatal_error b"
  "program_headers (Init_layout_dynstr b) = program_headers b"
  "elf_header (Init_layout_dynstr b) = elf_header b"
  "null_hdr (Init_layout_dynstr b) = null_hdr b"
  "shstrtab (Init_layout_dynstr b) = shstrtab b"
  "section_index (Init_layout_dynstr b) = section_index b"
  "dynstr (Init_layout_dynstr b) = dynstr b"
  "dynstr_soname_offset (Init_layout_dynstr b) = dynstr_soname_offset b"
  "section_ptrs (Init_layout_dynstr b) = section_ptrs b"
  "hash (Init_layout_dynstr b) = hash b"
  "text_builder (Init_layout_dynstr b) = text_builder b"
  "rodata_builder (Init_layout_dynstr b) = rodata_builder b"
  "bss_builder (Init_layout_dynstr b) = bss_builder b"
  "symtab_builder (Init_layout_dynstr b) = symtab_builder b"
  "hash_builder (Init_layout_dynstr b) = hash_builder b"
  "dynamic_builder (Init_layout_dynstr b) = dynamic_builder b"
  "shstrtab_builder (Init_layout_dynstr b) = shstrtab_builder b"
  "other_builders (Init_layout_dynstr b) = other_builders b"
  "raw_objects (Init_layout_dynstr b) = raw_objects b"
  by (simp_all add: Init_layout_dynstr_def Let_def upd_dynstr_def)

lemma Init_layout_hash_frame [simp]:
  "elf_file_path (Init_layout_hash T b) = elf_file_path b"
  "add_symbols (Init_layout_hash T b) = add_symbols b"
  "fatal_error (Init_layout_hash T b) = fatal_error b"
  "program_headers (Init_layout_hash T b) = program_headers b"
  "elf_header (Init_layout_hash T b) = elf_header b"
  "null_hdr (Init_layout_hash T b) = null_hdr b"
  "shstrtab (Init_layout_hash T b) = shstrtab b"
  "section_index (Init_layout_hash T b) = section_index b"
  "dynstr (Init_layout_hash T b) = dynstr b"
  "dynstr_soname_offset (Init_layout_hash T b) = dynstr_soname_offset b"
  "section_ptrs (Init_layout_hash T b) = section_ptrs b"
  "hash (Init_layout_hash T b) = hash b"
  "text_builder (Init_layout_hash T b) = text_builder b"
  "rodata_builder (Init_layout_hash T b) = rodata_builder b"
  "bss_builder (Init_layout_hash T b) = bss_builder b"
  "dynsym_builder (Init_layout_hash T b) = dynsym_builder b"
  "symtab_builder (Init_layout_hash T b) = symtab_builder b"
  "dynamic_builder (Init_layout_hash T b) = dynamic_builder b"
  "shstrtab_builder (Init_layout_hash T b) = shstrtab_builder b"
  "other_builders (Init_layout_hash T b) = other_builders b"
  "raw_objects (Init_layout_hash T b) = raw_objects b"
  by (simp_all add: Init_layout_hash_def Let_def)

lemma layout_raw_alloc_frame [simp]:
  "elf_file_path (fst (layout_raw_alloc prev ps b)) = elf_file_path b"
  "add_symbols (fst (layout_raw_alloc prev ps b)) = add_symbols b"
  "fatal_error (fst (layout_raw_alloc prev ps b)) = fatal_error b"
  "program_headers (fst (layout_raw_alloc prev ps b)) = program_headers b"
  "elf_header (fst (layout_raw_alloc prev ps b)) = elf_header b"
  "null_hdr (fst (layout_raw_alloc prev ps b)) = null_hdr b"
  "shstrtab (fst (layout_raw_alloc prev ps b)) = shstrtab b"
  "section_index (fst (layout_raw_alloc prev ps b)) = section_index b"
  "dynstr (fst (layout_raw_alloc prev ps b)) = dynstr b"
  "dynstr_soname_offset (fst (layout_raw_alloc prev ps b)) = dynstr_soname_offset b"
  "section_ptrs (fst (layout_raw_alloc prev ps b)) = section_ptrs b"
  "hash (fst (layout_raw_alloc prev ps b)) = hash b"
  "text_builder (fst (layout_raw_alloc prev ps b)) = text_builder b"
  "rodata_builder (fst (layout_raw_alloc prev ps b)) = rodata_builder b"
  "bss_builder (fst (layout_raw_alloc prev ps b)) = bss_builder b"
  "dynsym_builder (fst (layout_raw_alloc prev ps b)) = dynsym_builder b"
  "symtab_builder (fst (layout_raw_alloc prev ps b)) = symtab_builder b"
  "hash_builder (fst (layout_raw_alloc prev ps b)) = hash_builder b"
  "dynamic_builder (fst (layout_raw_alloc prev ps b)) = dynamic_builder b"
  "shstrtab_builder (fst (layout_raw_alloc prev ps b)) = shstrtab_builder b"
  "other_builders (fst (layout_raw_alloc prev ps b)) = other_builders b"
  by (induction ps arbitrary: prev b; simp add: Let_def upd_other_def)+

lemma Init_layout_others_frame [simp]:
  "elf_file_path (fst (Init_layout_others b)) = elf_file_path b"
  "add_symbols (fst (Init_layout_others b)) = add_symbols b"
  "fatal_error (fst (Init_layout_others b)) = fatal_error b"
  "program_headers (fst (Init_layout_others b)) = program_headers b"
  "elf_header (fst (Init_layout_others b)) = elf_header b"
  "null_hdr (fst (Init_layout_others b)) = null_hdr b"
  "shstrtab (fst (Init_layout_others b)) = shstrtab b"
  "section_index (fst (Init_layout_others b)) = section_index b"
  "dynstr (fst (Init_layout_others b)) = dynstr b"
  "dynstr_soname_offset (fst (Init_layout_others b)) = dynstr_soname_offset b"
  "section_ptrs (fst (Init_layout_others b)) = section_ptrs b"
  "hash (fst (Init_layout_others b)) = hash b"
  "text_builder (fst (Init_layout_others b)) = text_builder b"
  "rodata_builder (fst (Init_layout_others b)) = rodata_builder b"
  "bss_builder (fst (Init_layout_others b)) = bss_builder b"
  "dynsym_builder (fst (Init_layout_others b)) = dynsym_builder b"
  "symtab_builder (fst (Init_layout_others b)) = symtab_builder b"
  "hash_builder (fst (Init_layout_others b)) = hash_builder b"
  "dynamic_builder (fst (Init_layout_others b)) = dynamic_builder b"
  "shstrtab_builder (fst (Init_layout_others b)) = shstrtab_builder b"
  "other_builders (fst (Init_layout_others b)) = other_builders b"
  by (simp_all add: Init_layout_others_def)

lemma Init_layout_rodata_frame [simp]:
  "elf_file_path (Init_layout_rodata prev b) = elf_file_path b"
  "add_symbols (Init_layout_rodata prev b) = add_symbols b"
  "fatal_error (Init_layout_rodata prev b) = fatal_error b"
  "program_headers (Init_layout_rodata prev b) = program_headers b"
  "elf_header (Init_layout_rodata prev b) = elf_header b"
  "null_hdr (Init_layout_rodata prev b) = null_hdr b"
  "shstrtab (Init_layout_rodata prev b) = shstrtab b"
  "section_index (Init_layout_rodata prev b) = section_index b"
  "dynstr (Init_layout_rodata prev b) = dynstr b"
  "dynstr_soname_offset (Init_layout_rodata prev b) = dynstr_soname_offset b"
  "section_ptrs (Init_layout_rodata prev b) = section_ptrs b"
  "hash (Init_layout_rodata prev b) = hash b"
  "text_builder (Init_layout_rodata prev b) = text_builder b"
  "bss_builder (Init_layout_rodata prev b) = bss_builder b"
  "dynsym_builder (Init_layout_rodata prev b) = dynsym_builder b"
  "symtab_builder (Init_layout_rodata prev b) = symtab_builder b"
  "hash_builder (Init_layout_rodata prev b) = hash_builder b"
  "dynamic_builder (Init_layout_rodata prev b) = dynamic_builder b"
  "shstrtab_builder (Init_layout_rodata prev b) = shstrtab_builder b"
  "other_builders (Init_layout_rodata prev b) = other_builders b"
  "raw_objects (Init_layout_rodata prev b) = raw_objects b"
  by (simp_all add: Init_layout_rodata_def Let_def)

lemma Init_layout_text_frame [simp]:
  "elf_file_path (Init_layout_text b) = elf_file_path b"
  "add_symbols (Init_layout_text b) = add_symbols b"
  "fatal_error (Init_layout_text b) = fatal_error b"
  "program_headers (Init_layout_text b) = program_headers b"
  "elf_header (Init_layout_text b) = elf_header b"
  "null_hdr (Init_layout_text b) = null_hdr b"
  "shstrtab (Init_layout_text b) = shstrtab b"
  "section_index (Init_layout_text b) = section_index b"
  "dynstr (Init_layout_text b) = dynstr b"
  "dynstr_soname_offset (Init_layout_text b) = dynstr_soname_offset b"
  "section_ptrs (Init_layout_text b) = section_ptrs b"
  "hash (Init_layout_text b) = hash b"
  "rodata_builder (Init_layout_text b) = rodata_builder b"
  "bss_builder (Init_layout_text b) = bss_builder b"
  "dynsym_builder (Init_layout_text b) = dynsym_builder b"
  "symtab_builder (Init_layout_text b) = symtab_builder b"
  "hash_builder (Init_layout_text b) = hash_builder b"
  "dynamic_builder (Init_layout_text b) = dynamic_builder b"
  "shstrtab_builder (Init_layout_text b) = shstrtab_builder b"
  "other_builders (Init_layout_text b) = other_builders b"
  "raw_objects (Init_layout_text b) = raw_objects b"
  by (simp_all add: Init_layout_text_def Let_def)

lemma Init_layout_bss_frame [simp]:
  "elf_file_path (Init_layout_bss b) = elf_file_path b"
  "add_symbols (Init_layout_bss b) = add_symbols b"
  "fatal_error (Init_layout_bss b) = fatal_error b"
  "program_headers (Init_layout_bss b) = program_headers b"
  "elf_header (Init_layout_bss b) = elf_header b"
  "null_hdr (Init_layout_bss b) = null_hdr b"
  "shstrtab (Init_layout_bss b) = shstrtab b"
  "section_index (Init_layout_bss b) = section_index b"
  "dynstr (Init_layout_bss b) = dynstr b"
  "dynstr_soname_offset (Init_layout_bss b) = dynstr_soname_offset b"
  "section_ptrs (Init_layout_bss b) = section_ptrs b"
  "hash (Init_layout_bss b) = hash b"
  "text_builder (Init_layout_bss b) = text_builder b"
  "rodata_builder (Init_layout_bss b) = rodata_builder b"
  "dynsym_builder (Init_layout_bss b) = dynsym_builder b"
  "symtab_builder (Init_layout_bss b) = symtab_builder b"
  "hash_builder (Init_layout_bss b) = hash_builder b"
  "dynamic_builder (Init_layout_bss b) = dynamic_builder b"
  "shstrtab_builder (Init_layout_bss b) = shstrtab_builder b"
  "other_builders (Init_layout_bss b) = other_builders b"
  "raw_objects (Init_layout_bss b) = raw_objects b"
  by (simp_all add: Init_layout_bss_def Let_def)

lemma Init_layout_dynamic_frame [simp]:
  "elf_file_path (Init_layout_dynamic T b) = elf_file_path b"
  "add_symbols (Init_layout_dynamic T b) = add_symbols b"
  "fatal_error (Init_layout_dynamic T b) = fatal_error b"
  "program_headers (Init_layout_dynamic T b) = program_headers b"
  "elf_header (Init_layout_dynamic T b) = elf_header b"
  "null_hdr (Init_layout_dynamic T b) = null_hdr b"
  "shstrtab (Init_layout_dynamic T b) = shstrtab b"
  "section_index (Init_layout_dynamic T b) = section_index b"
  "dynstr (Init_layout_dynamic T b) = dynstr b"
  "dynstr_soname_offset (Init_layout_dynamic T b) = dynstr_soname_offset b"
  "section_ptrs (Init_layout_dynamic T b) = section_ptrs b"
  "hash (Init_layout_dynamic T b) = hash b"
  "text_builder (Init_layout_dynamic T b) = text_builder b"
  "rodata_builder (Init_layout_dynamic T b) = rodata_builder b"
  "bss_builder (Init_layout_dynamic T b) = bss_builder b"
  "dynsym_builder (Init_layout_dynamic T b) = dynsym_builder b"
  "symtab_builder (Init_layout_dynamic T b) = symtab_builder b"
  "hash_builder (Init_layout_dynamic T b) = hash_builder b"
  "shstrtab_builder (Init_layout_dynamic T b) = shstrtab_builder b"
  "other_builders (Init_layout_dynamic T b) = other_builders b"
  "raw_objects (Init_layout_dynamic T b) = raw_objects b"
  by (simp_all add: Init_layout_dynamic_def Let_def)

lemma Write_debug_sections_frame [simp]:
  "elf_file_path (fst (Write_debug_sections b)) = elf_file_path b"
  "add_symbols (fst (Write_debug_sections b)) = add_symbols b"
  "fatal_error (fst (Write_debug_sections b)) = fatal_error b"
  "program_headers (fst (Write_debug_sections b)) = program_headers b"
  "elf_header (fst (Write_debug_sections b)) = elf_header b"
  "null_hdr (fst (Write_debug_sections b)) = null_hdr b"
  "dynstr (fst (Write_debug_sections b)) = dynstr b"
  "dynstr_soname_offset (fst (Write_debug_sections b)) = dynstr_soname_offset b"
  "hash (fst (Write_debug_sections b)) = hash b"
  "text_builder (fst (Write_debug_sections b)) = text_builder b"
  "rodata_builder (fst (Write_debug_sections b)) = rodata_builder b"
  "bss_builder (fst (Write_debug_sections b)) = bss_builder b"
  "dynsym_builder (fst (Write_debug_sections b)) = dynsym_builder b"
  "hash_builder (fst (Write_debug_sections b)) = hash_builder b"
  "dynamic_builder (fst (Write_debug_sections b)) = dynamic_builder b"
  "shstrtab_builder (fst (Write_debug_sections b)) = shstrtab_builder b"
  "other_builders (fst (Write_debug_sections b)) = other_builders b"
  "raw_objects (fst (Write_debug_sections b)) = raw_objects b"
  by (simp_all add: Write_debug_sections_def Let_def split_beta)

lemma Write_other_sections_frame [simp]:
  "elf_file_path (Write_other_sections idxs b) = elf_file_path b"
  "add_symbols (Write_other_sections idxs b) = add_symbols b"
  "fatal_error (Write_other_sections idxs b) = fatal_error b"
  "program_headers (Write_other_sections idxs b) = program_headers b"
  "elf_header (Write_other_sections idxs b) = elf_header b"
  "null_hdr (Write_other_sections idxs b) = null_hdr b"
  "dynstr (Write_other_sections idxs b) = dynstr b"
  "dynstr_soname_offset (Write_other_sections idxs b) = dynstr_soname_offset b"
  "hash (Write_other_sections idxs b) = hash b"
  "text_builder (Write_other_sections idxs b) = text_builder b"
  "rodata_builder (Write_other_sections idxs b) = rodata_builder b"
  "bss_builder (Write_other_sections idxs b) = bss_builder b"
  "dynsym_builder (Write_other_sections idxs b) = dynsym_builder b"
  "symtab_builder (Write_other_sections idxs b) = symtab_builder b"
  "hash_builder (Write_other_sections idxs b) = hash_builder b"
  "dynamic_builder (Write_other_sections idxs b) = dynamic_builder b"
  "shstrtab_builder (Write_other_sections idxs b) = shstrtab_builder b"
  "other_builders (Write_other_sections idxs b) = other_builders b"
  by (induction idxs arbitrary: b; simp)+

lemma layout_raw_nonalloc_frame [simp]:
  "elf_file_path (fst (layout_raw_nonalloc prev ps b)) = elf_file_path b"
  "add_symbols (fst (layout_raw_nonalloc prev ps b)) = add_symbols b"
  "fatal_error (fst (layout_raw_nonalloc prev ps b)) = fatal_error b"
  "program_headers (fst (layout_raw_nonalloc prev ps b)) = program_headers b"
  "elf_header (fst (layout_raw_nonalloc prev ps b)) = elf_header b"
  "null_hdr (fst (layout_raw_nonalloc prev ps b)) = null_hdr b"
  "shstrtab (fst (layout_raw_nonalloc prev ps b)) = shstrtab b"
  "section_index (fst (layout_raw_nonalloc prev ps b)) = section_index b"
  "dynstr (fst (layout_raw_nonalloc prev ps b)) = dynstr b"
  "dynstr_soname_offset (fst (layout_raw_nonalloc prev ps b)) = dynstr_soname_offset b"
  "section_ptrs (fst (layout_raw_nonalloc prev ps b)) = section_ptrs b"
  "hash (fst (layout_raw_nonalloc prev ps b)) = hash b"
  "text_builder (fst (layout_raw_nonalloc prev ps b)) = text_builder b"
  "rodata_builder (fst (layout_raw_nonalloc prev ps b)) = rodata_builder b"
  "bss_builder (fst (layout_raw_nonalloc prev ps b)) = bss_builder b"
  "dynsym_builder (fst (layout_raw_nonalloc prev ps b)) = dynsym_builder b"
  "symtab_builder (fst (layout_raw_nonalloc prev ps b)) = symtab_builder b"
  "hash_builder (fst (layout_raw_nonalloc prev ps b)) = hash_builder b"
  "dynamic_builder (fst (layout_raw_nonalloc prev ps b)) = dynamic_builder b"
  "shstrtab_builder (fst (layout_raw_nonalloc prev ps b)) = shstrtab_builder b"
  "other_builders (fst (layout_raw_nonalloc prev ps b)) = other_builders b"
  by (induction ps arbitrary: prev b; simp add: Let_def upd_other_def)+

lemma Write_layout_symtab_frame [simp]:
  "elf_file_path (Write_layout_symtab T strtb b) = elf_file_path b"
  "add_symbols (Write_layout_symtab T strtb b) = add_symbols b"
  "fatal_error (Write_layout_symtab T strtb b) = fatal_error b"
  "program_headers (Write_layout_symtab T strtb b) = program_headers b"
  "elf_header (Write_layout_symtab T strtb b) = elf_header b"
  "null_hdr (Write_layout_symtab T strtb b) = null_hdr b"
  "shstrtab (Write_layout_symtab T strtb b) = shstrtab b"
  "section_index (Write_layout_symtab T strtb b) = section_index b"
  "dynstr (Write_layout_symtab T strtb b) = dynstr b"
  "dynstr_soname_offset (Write_layout_symtab T strtb b) = dynstr_soname_offset b"
  "section_ptrs (Write_layout_symtab T strtb b) = section_ptrs b"
  "hash (Write_layout_symtab T strtb b) = hash b"
  "text_builder (Write_layout_symtab T strtb b) = text_builder b"
  "rodata_builder (Write_layout_symtab T strtb b) = rodata_builder b"
  "bss_builder (Write_layout_symtab T strtb b) = bss_builder b"
  "dynsym_builder (Write_layout_symtab T strtb b) = dynsym_builder b"
  "hash_builder (Write_layout_symtab T strtb b) = hash_builder b"
  "dynamic_builder (Write_layout_symtab T strtb b) = dynamic_builder b"
  "shstrtab_builder (Write_layout_symtab T strtb b) = shstrtab_builder b"
  "other_builders (Write_layout_symtab T strtb b) = other_builders b"
  "raw_objects (Write_layout_symtab T strtb b) = raw_objects b"
  by (simp_all add: Write_layout_symtab_def Let_def)

lemma Write_layout_shstrtab_frame [simp]:
  "elf_file_path (Write_layout_shstrtab prev b) = elf_file_path b"
  "add_symbols (Write_layout_shstrtab prev b) = add_symbols b"
  "fatal_error (Write_layout_shstrtab prev b) = fatal_error b"
  "program_headers (Write_layout_shstrtab prev b) = program_headers b"
  "elf_header (Write_layout_shstrtab prev b) = elf_header b"
  "null_hdr (Write_layout_shstrtab prev b) = null_hdr b"
  "shstrtab (Write_layout_shstrtab prev b) = shstrtab b"
  "section_index (Write_layout_shstrtab prev b) = section_index b"
  "dynstr (Write_layout_shstrtab prev b) = dynstr b"
  "dynstr_soname_offset (Write_layout_shstrtab prev b) = dynstr_soname_offset b"
  "section_ptrs (Write_layout_shstrtab prev b) = section_ptrs b"
  "hash (Write_layout_shstrtab prev b) = hash b"
  "text_builder (Write_layout_shstrtab prev b) = text_builder b"
  "rodata_builder (Write_layout_shstrtab prev b) = rodata_builder b"
  "bss_builder (Write_layout_shstrtab prev b) = bss_builder b"
  "dynsym_builder (Write_layout_shstrtab prev b) = dynsym_builder b"
  "symtab_builder (Write_layout_shstrtab prev b) = symtab_builder b"
  "hash_builder (Write_layout_shstrtab prev b) = hash_builder b"
  "dynamic_builder (Write_layout_shstrtab prev b) = dynamic_builder b"
  "other_builders (Write_layout_shstrtab prev b) = other_builders b"
  "raw_objects (Write_layout_shstrtab prev b) = raw_objects b"
  by (simp_all add: Write_layout_shstrtab_def Let_def)

lemma Write_layout_frame [simp]:
  "elf_file_path (fst (Write_layout T b)) = elf_file_path b"
  "add_symbols (fst (Write_layout T b)) = add_symbols b"
  "fatal_error (fst (Write_layout T b)) = fatal_error b"
  "program_headers (fst (Write_layout T b)) = program_headers b"
  "elf_header (fst (Write_layout T b)) = elf_header b"
  "null_hdr (fst (Write_layout T b)) = null_hdr b"
  "dynstr (fst (Write_layout T b)) = dynstr b"
  "dynstr_soname_offset (fst (Write_layout T b)) = dynstr_soname_offset b"
  "hash (fst (Write_layout T b)) = hash b"
  "text_builder (fst (Write_layout T b)) = text_builder b"
  "rodata_builder (fst (Write_layout T b)) = rodata_builder b"
  "bss_builder (fst (Write_layout T b)) = bss_builder b"
  "dynsym_builder (fst (Write_layout T b)) = dynsym_builder b"
  "hash_builder (fst (Write_layout T b)) = hash_builder b"
  "dynamic_builder (fst (Write_layout T b)) = dynamic_builder b"
  "other_builders (fst (Write_layout T b)) = other_builders b"
  by (simp_all add: Write_layout_def Let_def split_beta)

lemma upd_phdr_frame [simp]:
  "elf_file_path (upd_phdr i f b) = elf_file_path b"
  "add_symbols (upd_phdr i f b) = add_symbols b"
  "fatal_error (upd_phdr i f b) = fatal_error b"
  "elf_header (upd_phdr i f b) = elf_header b"
  "null_hdr (upd_phdr i f b) = null_hdr b"
  "shstrtab (upd_phdr i f b) = shstrtab b"
  "section_index (upd_phdr i f b) = section_index b"
  "dynstr (upd_phdr i f b) = dynstr b"
  "dynstr_soname_offset (upd_phdr i f b) = dynstr_soname_offset b"
  "section_ptrs (upd_phdr i f b) = section_ptrs b"
  "hash (upd_phdr i f b) = hash b"
  "text_builder (upd_phdr i f b) = text_builder b"
  "rodata_builder (upd_phdr i f b) = rodata_builder b"
  "bss_builder (upd_phdr i f b) = bss_builder b"
  "dynsym_builder (upd_phdr i f b) = dynsym_builder b"
  "symtab_builder (upd_phdr i f b) = symtab_builder b"
  "hash_builder (upd_phdr i f b) = hash_builder b"
  "dynamic_builder (upd_phdr i f b) = dynamic_builder b"
  "shstrtab_builder (upd_phdr i f b) = shstrtab_builder b"
  "other_builders (upd_phdr i f b) = other_builders b"
  "raw_objects (upd_phdr i f b) = raw_objects b"
  by (simp_all add: upd_phdr_def)

lemma Write_program_headers_frame [simp]:
  "elf_file_path (Write_program_headers b) = elf_file_path b"
  "add_symbols (Write_program_headers b) = add_symbols b"
  "fatal_error (Write_program_headers b) = fatal_error b"
  "elf_header (Write_program_headers b) = elf_header b"
  "null_hdr (Write_program_headers b) = null_hdr b"
  "shstrtab (Write_program_headers b) = shstrtab b"
  "section_index (Write_program_headers b) = section_index b"
  "dynstr (Write_program_headers b) = dynstr b"
  "dynstr_soname_offset (Write_program_headers b) = dynstr_soname_offset b"
  "section_ptrs (Write_program_headers b) = section_ptrs b"
  "hash (Write_program_headers b) = hash b"
  "text_builder (Write_program_headers b) = text_builder b"
  "rodata_builder (Write_program_headers b) = rodata_builder b"
  "bss_builder (Write_program_headers b) = bss_builder b"
  "dynsym_builder (Write_program_headers b) = dynsym_builder b"
  "symtab_builder (Write_program_headers b) = symtab_builder b"
  "hash_builder (Write_program_headers b) = hash_builder b"
  "dynamic_builder (Write_program_headers b) = dynamic_builder b"
  "shstrtab_builder (Write_program_headers b) = shstrtab_builder b"
  "other_builders (Write_program_headers b) = other_builders b"
  "raw_objects (Write_program_headers b) = raw_objects b"
  by (simp_all add: Write_program_headers_def Let_def)

lemma Write_ehdr_frame [simp]:
  "elf_file_path (Write_ehdr T so b) = elf_file_path b"
  "add_symbols (Write_ehdr T so b) = add_symbols b"
  "fatal_error (Write_ehdr T so b) = fatal_error b"
  "program_headers (Write_ehdr T so b) = program_headers b"
  "null_hdr (Write_ehdr T so b) = null_hdr b"
  "shstrtab (Write_ehdr T so b) = shstrtab b"
  "section_index (Write_ehdr T so b) = section_index b"
  "dynstr (Write_ehdr T so b) = dynstr b"
  "dynstr_soname_offset (Write_ehdr T so b) = dynstr_soname_offset b"
  "section_ptrs (Write_ehdr T so b) = section_ptrs b"
  "hash (Write_ehdr T so b) = hash b"
  "text_builder (Write_ehdr T so b) = text_builder b"
  "rodata_builder (Write_ehdr T so b) = rodata_builder b"
  "bss_builder (Write_ehdr T so b) = bss_builder b"
  "dynsym_builder (Write_ehdr T so b) = dynsym_builder b"
  "symtab_builder (Write_ehdr T so b) = symtab_builder b"
  "hash_builder (Write_ehdr T so b) = hash_builder b"
  "dynamic_builder (Write_ehdr T so b) = dynamic_builder b"
  "shstrtab_builder (Write_ehdr T so b) = shstrtab_builder b"
  "other_builders (Write_ehdr T so b) = other_builders b"
  "raw_objects (Write_ehdr T so b) = raw_objects b"
  by (simp_all add: Write_ehdr_def)

section \<open>The symbol table\<close>

lemma and_15_eq_take_bit: "(t :: 8 word) AND 0xf = take_bit 4 t"
  by (simp add: take_bit_eq_mask mask_eq_exp_minus_1)

lemma MakeStInfo_or: "MakeStInfo binding type = push_bit 4 binding OR (type AND 0xf)"
  unfolding MakeStInfo_def and_15_eq_take_bit
  by (rule disjunctive_add_eq_or) (simp add: bit_eq_iff bit_simps; auto)

lemma symbols_AddSymbols: "symbols (AddSymbols calls b) = symbols b @ map symbol_state calls"
proof (induction calls arbitrary: b)
  case Nil
  then show ?case by (simp add: AddSymbols_def)
next
  case (Cons a calls)
  have "AddSymbols (a # calls) b = AddSymbols calls (AddSymbol_call a b)"
    by (simp add: AddSymbols_def)
  then show ?case
    using Cons.IH [of "AddSymbol_call a b"]
    by (simp add: AddSymbol_call_def AddSymbol_def symbol_state_def)
qed

lemma strtab_loop_states:
  "map (sym_name_idx_update (\<lambda>_. 0)) (fst (strtab_loop syms tab)) =
   map (sym_name_idx_update (\<lambda>_. 0)) syms"
  by (induction syms arbitrary: tab) (simp_all add: Let_def split_beta)

lemma GenerateStrtab_states:
  "map (sym_name_idx_update (\<lambda>_. 0)) (symbols (snd (GenerateStrtab b))) =
   map (sym_name_idx_update (\<lambda>_. 0)) (symbols b)"
  by (simp add: GenerateStrtab_def Let_def split_beta strtab_loop_states)

lemma symbol_state_idx: "sym_name_idx_update (\<lambda>_. 0) (symbol_state a) = symbol_state a"
  by (simp add: symbol_state_def)

lemma make_sym_entry:
  assumes "sym_name_idx_update (\<lambda>_. 0) it = symbol_state a"
  shows "make_sym d it = symbol_entry d a (sym_name_idx it)"
proof -
  have "sym_name it = sym_name (sym_name_idx_update (\<lambda>_. 0) it)"
    "sym_section it = sym_section (sym_name_idx_update (\<lambda>_. 0) it)"
    "sym_addr it = sym_addr (sym_name_idx_update (\<lambda>_. 0) it)"
    "sym_size it = sym_size (sym_name_idx_update (\<lambda>_. 0) it)"
    "sym_is_relative it = sym_is_relative (sym_name_idx_update (\<lambda>_. 0) it)"
    "sym_info it = sym_info (sym_name_idx_update (\<lambda>_. 0) it)"
    "sym_other it = sym_other (sym_name_idx_update (\<lambda>_. 0) it)"
    by simp_all
  then show ?thesis
    unfolding assms
    by (simp add: make_sym_def symbol_entry_def symbol_state_def zero_Sym_def MakeStInfo_or)
qed

lemma map_make_sym:
  "map (sym_name_idx_update (\<lambda>_. 0)) S = map symbol_state calls \<Longrightarrow>
     map (make_sym d) S = map2 (symbol_entry d) calls (map sym_name_idx S)"
proof (induction S arbitrary: calls)
  case Nil
  then show ?case by simp
next
  case (Cons it S)
  then obtain a rest where c: "calls = a # rest" by (cases calls) auto
  with Cons.prems have "sym_name_idx_update (\<lambda>_. 0) it = symbol_state a"
    and "map (sym_name_idx_update (\<lambda>_. 0)) S = map symbol_state rest" by auto
  with Cons.IH [of rest] c show ?case by (simp add: make_sym_entry)
qed

lemma symbols_ctor: "symbols (ElfSymtabBuilder_ctor T nm ty snm sty alloc r) = []"
  by (simp add: ElfSymtabBuilder_ctor_def ElfSectionBuilder.extend_def ElfSymtabBuilder.fields_def)

text \<open>
  Claim C4.  For every list of \<^verbatim>\<open>AddSymbol\<close> calls on a fresh symbol table builder,
  \<^verbatim>\<open>GenerateSymtab\<close> returns a vector whose first element is the zeroed null symbol, with
  \<open>st_shndx = SHN_UNDEF\<close>, followed, in insertion order, by one entry for each call, with
  \<open>st_value\<close> the address plus the \<open>sh_offset\<close> of the owning section when the symbol is
  relative and the address itself otherwise, \<open>st_shndx\<close> the index of the owning section,
  and \<open>st_info = (binding << 4) | (type & 0xF)\<close>.  This holds before the string table is
  generated (the name indexes are then 0) and after it.
\<close>

theorem GenerateSymtab_correct:
  fixes calls :: "'w::len AddSymbol_args list"
  shows "let b0 = AddSymbols calls (ElfSymtabBuilder_ctor T nm ty snm sty alloc r);
             b = snd (GenerateStrtab b0);
             null = \<lparr>st_name = 0, st_value = 0, st_size = 0, st_info = 0, st_other = 0,
                     st_shndx = SHN_UNDEF\<rparr>
         in GenerateSymtab d b0 = null # map (\<lambda>a. symbol_entry d a 0) calls \<and>
            GenerateSymtab d b = null # map2 (symbol_entry d) calls (map sym_name_idx (symbols b))"
proof -
  let ?b0 = "AddSymbols calls (ElfSymtabBuilder_ctor T nm ty snm sty alloc r)"
  have s0: "symbols ?b0 = map symbol_state calls"
    by (simp add: symbols_AddSymbols symbols_ctor)
  have i0: "map (sym_name_idx_update (\<lambda>_. 0)) (symbols ?b0) = map symbol_state calls"
    unfolding s0 by (simp add: symbol_state_idx)
  have "map sym_name_idx (map symbol_state calls) = map (\<lambda>_. 0) calls"
    by (simp add: symbol_state_def)
  then have z: "map2 (symbol_entry d) calls (map sym_name_idx (symbols ?b0)) =
      map (\<lambda>a. symbol_entry d a 0) calls"
    unfolding s0 by (simp add: map2_map_map [where f = id, simplified] zip_map2 map_zip_map2 zip_same_conv_map)
  have i1: "map (sym_name_idx_update (\<lambda>_. 0)) (symbols (snd (GenerateStrtab ?b0))) =
      map symbol_state calls"
    using i0 by (simp add: GenerateStrtab_states)
  show ?thesis
    using map_make_sym [OF i0, of d] map_make_sym [OF i1, of d] z
    by (simp add: Let_def GenerateSymtab_def undef_sym_def zero_Sym_def)
qed


section \<open>The dynamic section\<close>

lemma word_numeral_neq_0:
  "32 \<le> LENGTH('w::len) \<Longrightarrow> (4 :: 'w word) \<noteq> 0 \<and> (5 :: 'w word) \<noteq> 0 \<and> (6 :: 'w word) \<noteq> 0 \<and> (11 :: 'w word) \<noteq> 0"
proof -
  assume l: "32 \<le> LENGTH('w)"
  have p: "(2::nat) ^ 32 \<le> 2 ^ LENGTH('w)" using l by (rule power_increasing) simp
  have "\<And>k::nat. 0 < k \<Longrightarrow> k < 2 ^ 32 \<Longrightarrow> (of_nat k :: 'w word) \<noteq> 0"
    using p by (intro of_nat_neq_0) auto
  from this [of 4] this [of 5] this [of 6] this [of 11] show ?thesis by simp
qed

lemma DT_neq_NULL:
  assumes "32 \<le> LENGTH('w::len)"
  shows "(DT_HASH :: 'w word) \<noteq> DT_NULL" "(DT_STRTAB :: 'w word) \<noteq> DT_NULL"
    "(DT_SYMTAB :: 'w word) \<noteq> DT_NULL" "(DT_SYMENT :: 'w word) \<noteq> DT_NULL"
  using word_numeral_neq_0 [OF assms]
  by (simp_all add: DT_HASH_def DT_STRTAB_def DT_SYMTAB_def DT_SYMENT_def DT_NULL_def)

lemma dynamics_AddDynamicTags:
  "dynamics (AddDynamicTags calls b) =
     dynamics b @ map dyn_state (filter (\<lambda>a. t_tag a \<noteq> DT_NULL) calls)"
proof (induction calls arbitrary: b)
  case Nil
  then show ?case by (simp add: AddDynamicTags_def)
next
  case (Cons a calls)
  have "AddDynamicTags (a # calls) b = AddDynamicTags calls (AddDynamicTag_call a b)"
    by (simp add: AddDynamicTags_def)
  then show ?case
    using Cons.IH [of "AddDynamicTag_call a b"]
    by (simp add: AddDynamicTag_call_def AddDynamicTag_def AddDynamicTag_section_def dyn_state_def
          split: option.split)
qed

lemma dynamics_SetupDynamic:
  assumes "32 \<le> LENGTH('w::len)"
  shows "dynamics (dynamic_builder (SetupDynamic T (b :: 'w ElfBuilder))) =
     dynamics (dynamic_builder b) @
     [\<lparr>dyn_section = Some R_hash, dyn_tag = DT_HASH, dyn_off = 0\<rparr>,
      \<lparr>dyn_section = Some R_dynstr, dyn_tag = DT_STRTAB, dyn_off = 0\<rparr>,
      \<lparr>dyn_section = Some R_dynsym, dyn_tag = DT_SYMTAB, dyn_off = 0\<rparr>,
      \<lparr>dyn_section = None, dyn_tag = DT_SYMENT, dyn_off = of_nat (sizeof_Sym T)\<rparr>]"
  using DT_neq_NULL [OF assms]
  by (simp add: SetupDynamic_def Let_def AddDynamicTag_def AddDynamicTag_section_def)


section \<open>What the steps assign\<close>

text \<open>Selecting from and updating the symbol table builder, whose member \<open>strtab\<close> is a
  section builder itself.\<close>

lemma strtab_select [simp]:
  fixes x :: "'w::len ElfSymtabBuilder"
  shows "sb_section (strtab_update f x) = sb_section x"
    "sb_section_index (strtab_update f x) = sb_section_index x"
    "sb_name (strtab_update f x) = sb_name x"
    "sb_link (strtab_update f x) = sb_link x"
    "strtab (sb_section_update g x) = strtab x"
    "strtab (sb_section_index_update h x) = strtab x"
    "strtab (sb_name_update k x) = strtab x"
    "strtab (sb_link_update l x) = strtab x"
  by (cases x; simp)+

lemma strtab_update_commute [simp]:
  fixes x :: "'w::len ElfSymtabBuilder"
  shows "strtab_update f (sb_section_update g x) = sb_section_update g (strtab_update f x)"
    "strtab_update f (sb_section_index_update h x) = sb_section_index_update h (strtab_update f x)"
  by (cases x; simp)+

lemma setup_dynsym_effect:
  "dynsym_builder (setup_section R_dynsym dynsym_builder dynsym_builder_update b) =
     (map_section (\<lambda>s. s\<lparr>sh_name := of_nat (length (shstrtab b))\<rparr>) (dynsym_builder b))
       \<lparr>sb_section_index := ucast (section_index b)\<rparr>"
  by (simp add: setup_section_def Let_def split_beta AssignSectionStr_def)

lemma setup_hash_effect:
  "hash_builder (setup_section R_hash hash_builder hash_builder_update b) =
     (map_section (\<lambda>s. s\<lparr>sh_name := of_nat (length (shstrtab b))\<rparr>) (hash_builder b))
       \<lparr>sb_section_index := ucast (section_index b)\<rparr>"
  by (simp add: setup_section_def Let_def split_beta AssignSectionStr_def)

lemma setup_rodata_effect:
  "rodata_builder (setup_section R_rodata rodata_builder rodata_builder_update b) =
     (map_section (\<lambda>s. s\<lparr>sh_name := of_nat (length (shstrtab b))\<rparr>) (rodata_builder b))
       \<lparr>sb_section_index := ucast (section_index b)\<rparr>"
  by (simp add: setup_section_def Let_def split_beta AssignSectionStr_def)

lemma setup_text_effect:
  "text_builder (setup_section R_text text_builder text_builder_update b) =
     (map_section (\<lambda>s. s\<lparr>sh_name := of_nat (length (shstrtab b))\<rparr>) (text_builder b))
       \<lparr>sb_section_index := ucast (section_index b)\<rparr>"
  by (simp add: setup_section_def Let_def split_beta AssignSectionStr_def)

lemma setup_bss_effect:
  "bss_builder (setup_section R_bss bss_builder bss_builder_update b) =
     (map_section (\<lambda>s. s\<lparr>sh_name := of_nat (length (shstrtab b))\<rparr>) (bss_builder b))
       \<lparr>sb_section_index := ucast (section_index b)\<rparr>"
  by (simp add: setup_section_def Let_def split_beta AssignSectionStr_def)

lemma setup_dynamic_effect:
  "dynamic_builder (setup_section R_dynamic dynamic_builder dynamic_builder_update b) =
     (map_section (\<lambda>s. s\<lparr>sh_name := of_nat (length (shstrtab b))\<rparr>) (dynamic_builder b))
       \<lparr>sb_section_index := ucast (section_index b)\<rparr>"
  by (simp add: setup_section_def Let_def split_beta AssignSectionStr_def)

lemma setup_symtab_effect:
  "symtab_builder (setup_section R_symtab symtab_builder symtab_builder_update b) =
     (map_section (\<lambda>s. s\<lparr>sh_name := of_nat (length (shstrtab b))\<rparr>) (symtab_builder b))
       \<lparr>sb_section_index := ucast (section_index b)\<rparr>"
  by (simp add: setup_section_def Let_def split_beta AssignSectionStr_def)

lemma setup_shstrtab_effect:
  "shstrtab_builder (setup_section R_shstrtab shstrtab_builder shstrtab_builder_update b) =
     (map_section (\<lambda>s. s\<lparr>sh_name := of_nat (length (shstrtab b))\<rparr>) (shstrtab_builder b))
       \<lparr>sb_section_index := ucast (section_index b)\<rparr>"
  by (simp add: setup_section_def Let_def split_beta AssignSectionStr_def)

lemma setup_dynstr_effect:
  "dynsym_builder (setup_section R_dynstr (\<lambda>b. strtab (dynsym_builder b)) upd_dynstr b) =
     (dynsym_builder b)\<lparr>strtab :=
        (map_section (\<lambda>s. s\<lparr>sh_name := of_nat (length (shstrtab b))\<rparr>) (strtab (dynsym_builder b)))
          \<lparr>sb_section_index := ucast (section_index b)\<rparr>\<rparr>"
  by (simp add: setup_section_def Let_def split_beta AssignSectionStr_def upd_dynstr_def)

lemma setup_strtab_effect:
  "symtab_builder (setup_section R_strtab (\<lambda>b. strtab (symtab_builder b)) upd_strtab b) =
     (symtab_builder b)\<lparr>strtab :=
        (map_section (\<lambda>s. s\<lparr>sh_name := of_nat (length (shstrtab b))\<rparr>) (strtab (symtab_builder b)))
          \<lparr>sb_section_index := ucast (section_index b)\<rparr>\<rparr>"
  by (simp add: setup_section_def Let_def split_beta AssignSectionStr_def upd_strtab_def)

lemma setup_other_effect:
  "raw_objects (setup_section (R_other i) (\<lambda>b. raw_objects b i) (upd_other i) b) =
     (raw_objects b)(i :=
        (map_section (\<lambda>s. s\<lparr>sh_name := of_nat (length (shstrtab b))\<rparr>) (raw_objects b i))
          \<lparr>sb_section_index := ucast (section_index b)\<rparr>)"
  by (simp add: setup_section_def Let_def split_beta AssignSectionStr_def upd_other_def)

lemmas setup_effects = setup_dynsym_effect setup_dynstr_effect setup_hash_effect setup_rodata_effect
  setup_text_effect setup_bss_effect setup_dynamic_effect setup_symtab_effect setup_strtab_effect
  setup_shstrtab_effect setup_other_effect

lemma Init_sections_keeps [simp]:
  "sh_type (sb_section (dynsym_builder (Init_sections b))) = sh_type (sb_section (dynsym_builder b))"
  "sh_flags (sb_section (dynsym_builder (Init_sections b))) = sh_flags (sb_section (dynsym_builder b))"
  "sh_addr (sb_section (dynsym_builder (Init_sections b))) = sh_addr (sb_section (dynsym_builder b))"
  "sh_offset (sb_section (dynsym_builder (Init_sections b))) = sh_offset (sb_section (dynsym_builder b))"
  "sh_size (sb_section (dynsym_builder (Init_sections b))) = sh_size (sb_section (dynsym_builder b))"
  "sh_link (sb_section (dynsym_builder (Init_sections b))) = sh_link (sb_section (dynsym_builder b))"
  "sh_info (sb_section (dynsym_builder (Init_sections b))) = sh_info (sb_section (dynsym_builder b))"
  "sh_addralign (sb_section (dynsym_builder (Init_sections b))) = sh_addralign (sb_section (dynsym_builder b))"
  "sh_entsize (sb_section (dynsym_builder (Init_sections b))) = sh_entsize (sb_section (dynsym_builder b))"
  "sb_name (dynsym_builder (Init_sections b)) = sb_name (dynsym_builder b)"
  "sb_link (dynsym_builder (Init_sections b)) = sb_link (dynsym_builder b)"
  "symbols (dynsym_builder (Init_sections b)) = symbols (dynsym_builder b)"
  "str_name (dynsym_builder (Init_sections b)) = str_name (dynsym_builder b)"
  "str_type (dynsym_builder (Init_sections b)) = str_type (dynsym_builder b)"
  "sh_type (sb_section (strtab (dynsym_builder (Init_sections b)))) = sh_type (sb_section (strtab (dynsym_builder b)))"
  "sh_flags (sb_section (strtab (dynsym_builder (Init_sections b)))) = sh_flags (sb_section (strtab (dynsym_builder b)))"
  "sh_addr (sb_section (strtab (dynsym_builder (Init_sections b)))) = sh_addr (sb_section (strtab (dynsym_builder b)))"
  "sh_offset (sb_section (strtab (dynsym_builder (Init_sections b)))) = sh_offset (sb_section (strtab (dynsym_builder b)))"
  "sh_size (sb_section (strtab (dynsym_builder (Init_sections b)))) = sh_size (sb_section (strtab (dynsym_builder b)))"
  "sh_link (sb_section (strtab (dynsym_builder (Init_sections b)))) = sh_link (sb_section (strtab (dynsym_builder b)))"
  "sh_info (sb_section (strtab (dynsym_builder (Init_sections b)))) = sh_info (sb_section (strtab (dynsym_builder b)))"
  "sh_addralign (sb_section (strtab (dynsym_builder (Init_sections b)))) = sh_addralign (sb_section (strtab (dynsym_builder b)))"
  "sh_entsize (sb_section (strtab (dynsym_builder (Init_sections b)))) = sh_entsize (sb_section (strtab (dynsym_builder b)))"
  "sb_name (strtab (dynsym_builder (Init_sections b))) = sb_name (strtab (dynsym_builder b))"
  "sb_link (strtab (dynsym_builder (Init_sections b))) = sb_link (strtab (dynsym_builder b))"
  "sh_type (sb_section (hash_builder (Init_sections b))) = sh_type (sb_section (hash_builder b))"
  "sh_flags (sb_section (hash_builder (Init_sections b))) = sh_flags (sb_section (hash_builder b))"
  "sh_addr (sb_section (hash_builder (Init_sections b))) = sh_addr (sb_section (hash_builder b))"
  "sh_offset (sb_section (hash_builder (Init_sections b))) = sh_offset (sb_section (hash_builder b))"
  "sh_size (sb_section (hash_builder (Init_sections b))) = sh_size (sb_section (hash_builder b))"
  "sh_link (sb_section (hash_builder (Init_sections b))) = sh_link (sb_section (hash_builder b))"
  "sh_info (sb_section (hash_builder (Init_sections b))) = sh_info (sb_section (hash_builder b))"
  "sh_addralign (sb_section (hash_builder (Init_sections b))) = sh_addralign (sb_section (hash_builder b))"
  "sh_entsize (sb_section (hash_builder (Init_sections b))) = sh_entsize (sb_section (hash_builder b))"
  "sb_name (hash_builder (Init_sections b)) = sb_name (hash_builder b)"
  "sb_link (hash_builder (Init_sections b)) = sb_link (hash_builder b)"
  "sh_type (sb_section (rodata_builder (Init_sections b))) = sh_type (sb_section (rodata_builder b))"
  "sh_flags (sb_section (rodata_builder (Init_sections b))) = sh_flags (sb_section (rodata_builder b))"
  "sh_addr (sb_section (rodata_builder (Init_sections b))) = sh_addr (sb_section (rodata_builder b))"
  "sh_offset (sb_section (rodata_builder (Init_sections b))) = sh_offset (sb_section (rodata_builder b))"
  "sh_size (sb_section (rodata_builder (Init_sections b))) = sh_size (sb_section (rodata_builder b))"
  "sh_link (sb_section (rodata_builder (Init_sections b))) = sh_link (sb_section (rodata_builder b))"
  "sh_info (sb_section (rodata_builder (Init_sections b))) = sh_info (sb_section (rodata_builder b))"
  "sh_addralign (sb_section (rodata_builder (Init_sections b))) = sh_addralign (sb_section (rodata_builder b))"
  "sh_entsize (sb_section (rodata_builder (Init_sections b))) = sh_entsize (sb_section (rodata_builder b))"
  "sb_name (rodata_builder (Init_sections b)) = sb_name (rodata_builder b)"
  "sb_link (rodata_builder (Init_sections b)) = sb_link (rodata_builder b)"
  "oat_size (rodata_builder (Init_sections b)) = oat_size (rodata_builder b)"
  "oat_offset (rodata_builder (Init_sections b)) = oat_offset (rodata_builder b)"
  "sh_type (sb_section (text_builder (Init_sections b))) = sh_type (sb_section (text_builder b))"
  "sh_flags (sb_section (text_builder (Init_sections b))) = sh_flags (sb_section (text_builder b))"
  "sh_addr (sb_section (text_builder (Init_sections b))) = sh_addr (sb_section (text_builder b))"
  "sh_offset (sb_section (text_builder (Init_sections b))) = sh_offset (sb_section (text_builder b))"
  "sh_size (sb_section (text_builder (Init_sections b))) = sh_size (sb_section (text_builder b))"
  "sh_link (sb_section (text_builder (Init_sections b))) = sh_link (sb_section (text_builder b))"
  "sh_info (sb_section (text_builder (Init_sections b))) = sh_info (sb_section (text_builder b))"
  "sh_addralign (sb_section (text_builder (Init_sections b))) = sh_addralign (sb_section (text_builder b))"
  "sh_entsize (sb_section (text_builder (Init_sections b))) = sh_entsize (sb_section (text_builder b))"
  "sb_name (text_builder (Init_sections b)) = sb_name (text_builder b)"
  "sb_link (text_builder (Init_sections b)) = sb_link (text_builder b)"
  "oat_size (text_builder (Init_sections b)) = oat_size (text_builder b)"
  "oat_offset (text_builder (Init_sections b)) = oat_offset (text_builder b)"
  "sh_type (sb_section (bss_builder (Init_sections b))) = sh_type (sb_section (bss_builder b))"
  "sh_flags (sb_section (bss_builder (Init_sections b))) = sh_flags (sb_section (bss_builder b))"
  "sh_addr (sb_section (bss_builder (Init_sections b))) = sh_addr (sb_section (bss_builder b))"
  "sh_offset (sb_section (bss_builder (Init_sections b))) = sh_offset (sb_section (bss_builder b))"
  "sh_size (sb_section (bss_builder (Init_sections b))) = sh_size (sb_section (bss_builder b))"
  "sh_link (sb_section (bss_builder (Init_sections b))) = sh_link (sb_section (bss_builder b))"
  "sh_info (sb_section (bss_builder (Init_sections b))) = sh_info (sb_section (bss_builder b))"
  "sh_addralign (sb_section (bss_builder (Init_sections b))) = sh_addralign (sb_section (bss_builder b))"
  "sh_entsize (sb_section (bss_builder (Init_sections b))) = sh_entsize (sb_section (bss_builder b))"
  "sb_name (bss_builder (Init_sections b)) = sb_name (bss_builder b)"
  "sb_link (bss_builder (Init_sections b)) = sb_link (bss_builder b)"
  "oat_size (bss_builder (Init_sections b)) = oat_size (bss_builder b)"
  "oat_offset (bss_builder (Init_sections b)) = oat_offset (bss_builder b)"
  "sh_type (sb_section (dynamic_builder (Init_sections b))) = sh_type (sb_section (dynamic_builder b))"
  "sh_flags (sb_section (dynamic_builder (Init_sections b))) = sh_flags (sb_section (dynamic_builder b))"
  "sh_addr (sb_section (dynamic_builder (Init_sections b))) = sh_addr (sb_section (dynamic_builder b))"
  "sh_offset (sb_section (dynamic_builder (Init_sections b))) = sh_offset (sb_section (dynamic_builder b))"
  "sh_size (sb_section (dynamic_builder (Init_sections b))) = sh_size (sb_section (dynamic_builder b))"
  "sh_link (sb_section (dynamic_builder (Init_sections b))) = sh_link (sb_section (dynamic_builder b))"
  "sh_info (sb_section (dynamic_builder (Init_sections b))) = sh_info (sb_section (dynamic_builder b))"
  "sh_addralign (sb_section (dynamic_builder (Init_sections b))) = sh_addralign (sb_section (dynamic_builder b))"
  "sh_entsize (sb_section (dynamic_builder (Init_sections b))) = sh_entsize (sb_section (dynamic_builder b))"
  "sb_name (dynamic_builder (Init_sections b)) = sb_name (dynamic_builder b)"
  "sb_link (dynamic_builder (Init_sections b)) = sb_link (dynamic_builder b)"
  "dynamics (dynamic_builder (Init_sections b)) = dynamics (dynamic_builder b)"
  by (simp_all add: Init_sections_def Let_def setup_effects map_section_def)

text \<open>The layout steps, and a successful \<^verbatim>\<open>Init\<close> as the sequence of its steps.\<close>

lemma GetLink_map_section [simp]: "GetLink d (map_section f sb) = GetLink d sb"
  by (simp add: GetLink_def map_section_def)

lemma SymtabGetSize_map_section [simp]: "SymtabGetSize (map_section f sb) = SymtabGetSize sb"
  by (simp add: SymtabGetSize_def map_section_def)

lemma DynamicGetSize_map_section [simp]: "DynamicGetSize (map_section f sb) = DynamicGetSize sb"
  by (simp add: DynamicGetSize_def map_section_def)

lemma oat_size_map_section [simp]: "oat_size (map_section f sb) = oat_size sb"
  by (simp add: map_section_def)

lemma sb_section_map_section [simp]: "sb_section (map_section f sb) = f (sb_section sb)"
  by (simp add: map_section_def)

lemma symbols_map_section [simp]:
  fixes sb :: "'w::len ElfSymtabBuilder"
  shows "symbols (map_section f sb) = symbols sb"
    and "strtab (map_section f sb) = strtab sb"
  by (simp_all add: map_section_def)

lemma dynamics_map_section [simp]: "dynamics (map_section f db) = dynamics db"
  by (simp add: map_section_def)

lemma buf_map_section [simp]: "buf (map_section f rb) = buf rb"
  by (simp add: map_section_def)

lemma base_map_section [simp]:
  "sb_link (map_section f sb) = sb_link sb"
  "sb_name (map_section f sb) = sb_name sb"
  "sb_section_index (map_section f sb) = sb_section_index sb"
  by (simp_all add: map_section_def)

lemma map_section_map_section [simp]:
  "map_section f (map_section g sb) = map_section (\<lambda>s. f (g s)) sb"
  by (simp add: map_section_def)

lemma Init_layout_dynsym_effect:
  "dynsym_builder (Init_layout_dynsym T b) =
     map_section
       (\<lambda>s. s\<lparr>sh_offset := RoundUp (of_nat (sizeof_Ehdr T + PHDR_SIZE T)) (sh_addralign s),
               sh_addr := RoundUp (of_nat (sizeof_Ehdr T + PHDR_SIZE T)) (sh_addralign s),
               sh_size := of_nat (SymtabGetSize (dynsym_builder b) * sizeof_Sym T),
               sh_link := GetLink (deref b) (dynsym_builder b)\<rparr>)
       (dynsym_builder b)"
  by (simp add: Init_layout_dynsym_def Let_def)

lemma Init_layout_dynstr_effect:
  "dynsym_builder (Init_layout_dynstr b) =
     (dynsym_builder b)\<lparr>strtab :=
        map_section
          (\<lambda>s. s\<lparr>sh_offset := NextOffset s (sb_section (dynsym_builder b)),
                  sh_addr := NextOffset s (sb_section (dynsym_builder b)),
                  sh_size := of_nat (length (dynstr b)),
                  sh_link := GetLink (deref b) (strtab (dynsym_builder b))\<rparr>)
          (strtab (dynsym_builder b))\<rparr>"
  by (simp add: Init_layout_dynstr_def Let_def upd_dynstr_def NextOffset_def)

lemma Init_layout_hash_effect:
  "hash_builder (Init_layout_hash T b) =
     map_section
       (\<lambda>s. s\<lparr>sh_offset := NextOffset s (sb_section (strtab (dynsym_builder b))),
               sh_addr := NextOffset s (sb_section (strtab (dynsym_builder b))),
               sh_size := of_nat (length (hash b) * sizeof_Word T),
               sh_link := GetLink (deref b) (hash_builder b)\<rparr>)
       (hash_builder b)"
  by (simp add: Init_layout_hash_def Let_def NextOffset_def)

lemma Init_layout_rodata_effect:
  "rodata_builder (Init_layout_rodata prev b) =
     map_section
       (\<lambda>s. s\<lparr>sh_offset := NextOffset s prev, sh_addr := NextOffset s prev,
               sh_size := oat_size (rodata_builder b),
               sh_link := GetLink (deref b) (rodata_builder b)\<rparr>)
       (rodata_builder b)"
  by (simp add: Init_layout_rodata_def Let_def NextOffset_def)

lemma Init_layout_text_effect:
  "text_builder (Init_layout_text b) =
     map_section
       (\<lambda>s. s\<lparr>sh_offset := NextOffset s (sb_section (rodata_builder b)),
               sh_addr := NextOffset s (sb_section (rodata_builder b)),
               sh_size := oat_size (text_builder b),
               sh_link := GetLink (deref b) (text_builder b)\<rparr>)
       (text_builder b)"
  by (simp add: Init_layout_text_def Let_def NextOffset_def)

lemma Init_layout_bss_effect:
  "bss_builder (Init_layout_bss b) =
     map_section
       (\<lambda>s. s\<lparr>sh_offset := NextOffset s (sb_section (text_builder b)),
               sh_addr := NextOffset s (sb_section (text_builder b)),
               sh_size := oat_size (bss_builder b),
               sh_link := GetLink (deref b) (bss_builder b)\<rparr>)
       (bss_builder b)"
  by (simp add: Init_layout_bss_def Let_def NextOffset_def)

lemma Init_layout_dynamic_effect:
  "dynamic_builder (Init_layout_dynamic T b) =
     map_section
       (\<lambda>s. s\<lparr>sh_offset := sh_offset (sb_section (bss_builder b)),
               sh_addr := NextOffset s (sb_section (bss_builder b)),
               sh_size := of_nat (DynamicGetSize (dynamic_builder b) * sizeof_Dyn T),
               sh_link := GetLink (deref b) (dynamic_builder b)\<rparr>)
       (dynamic_builder b)"
  by (simp add: Init_layout_dynamic_def Let_def NextOffset_def)

lemmas Init_layout_effects = Init_layout_dynsym_effect Init_layout_dynstr_effect
  Init_layout_hash_effect Init_layout_rodata_effect Init_layout_text_effect Init_layout_bss_effect
  Init_layout_dynamic_effect

lemma Init_Inr:
  assumes "Init T b = Some (Inr b1)"
  shows "\<not> fatal_error b"
    and "\<exists>h. GenerateHashContents (dynsym_builder (Init_setup T b)) = Some (Inr h) \<and>
             Init_layout T ((Init_setup T b)\<lparr>hash := h\<rparr>) = Inr b1"
  using assms
  by (auto simp: Init_def Init_setup_def Let_def split: if_splits option.splits sum.splits)

lemma Init_layout_Inr:
  assumes "Init_layout T b = Inr b1"
  shows "\<exists>bo prev. Init_layout_others (Init_layout_hash T (Init_layout_dynstr (Init_layout_dynsym T b))) = (bo, prev) \<and>
           b1 = Init_layout_dynamic T (Init_layout_bss (Init_layout_text (Init_layout_rodata prev bo))) \<and>
           IsAlignedParam (sh_offset (sb_section (rodata_builder (Init_layout_text (Init_layout_rodata prev bo)))) +
                 sh_size (sb_section (rodata_builder (Init_layout_text (Init_layout_rodata prev bo))))) kPageSize \<and>
           IsAlignedParam (sh_offset (sb_section (bss_builder (Init_layout_bss (Init_layout_text (Init_layout_rodata prev bo))))))
             (sh_addralign (sb_section (dynamic_builder (Init_layout_bss (Init_layout_text (Init_layout_rodata prev bo))))))"
  using assms
  by (auto simp: Init_layout_def Let_def split: if_splits prod.splits)


lemma strtab_loop_fields:
  "map sym_name (fst (strtab_loop syms tab)) = map sym_name syms"
  "length (fst (strtab_loop syms tab)) = length syms"
  by (induction syms arbitrary: tab) (simp_all add: Let_def split_beta)

lemma GenerateStrtab_effect [simp]:
  "sb_section (snd (GenerateStrtab sb)) = sb_section sb"
  "sb_link (snd (GenerateStrtab sb)) = sb_link sb"
  "sb_name (snd (GenerateStrtab sb)) = sb_name sb"
  "sb_section_index (snd (GenerateStrtab sb)) = sb_section_index sb"
  "map sym_name (symbols (snd (GenerateStrtab sb))) = map sym_name (symbols sb)"
  "length (symbols (snd (GenerateStrtab sb))) = length (symbols sb)"
  "sh_addralign (sb_section (strtab (snd (GenerateStrtab sb)))) = sh_addralign (sb_section (strtab sb))"
  "sh_flags (sb_section (strtab (snd (GenerateStrtab sb)))) = sh_flags (sb_section (strtab sb))"
  "sh_type (sb_section (strtab (snd (GenerateStrtab sb)))) = sh_type (sb_section (strtab sb))"
  "sb_link (strtab (snd (GenerateStrtab sb))) = sb_link (strtab sb)"
  "sb_name (strtab (snd (GenerateStrtab sb))) = sb_name (strtab sb)"
  by (simp_all add: GenerateStrtab_def Let_def split_beta strtab_loop_fields)

lemma GenerateHashContents_names:
  "map sym_name (symbols x) = map sym_name (symbols y) \<Longrightarrow>
     GenerateHashContents x = GenerateHashContents y"
  by (simp add: GenerateHashContents_def SymtabGetSize_def Let_def) (metis length_map)

lemma SymtabGetSize_GenerateStrtab [simp]:
  "SymtabGetSize (snd (GenerateStrtab sb)) = SymtabGetSize sb"
  by (simp add: SymtabGetSize_def)

lemma Init_dynstr_effect:
  "dynsym_builder (Init_dynstr b) = snd (GenerateStrtab (dynsym_builder b))"
  "dynstr (Init_dynstr b) =
     fst (GenerateStrtab (dynsym_builder b)) @
     basename_src (elf_file_path b) @ [NUL]"
  "dynstr_soname_offset (Init_dynstr b) = of_nat (length (fst (GenerateStrtab (dynsym_builder b))))"
  by (simp_all add: Init_dynstr_def Let_def split_beta basename_src_def split: option.split)

lemma Init_setup_frame [simp]:
  "elf_file_path (Init_setup T b) = elf_file_path b"
  "add_symbols (Init_setup T b) = add_symbols b"
  "fatal_error (Init_setup T b) = fatal_error b"
  "elf_header (Init_setup T b) = elf_header b"
  "symtab_builder (Init_setup T b) = symtab_builder b"
  "shstrtab_builder (Init_setup T b) = shstrtab_builder b"
  "other_builders (Init_setup T b) = other_builders b"
  "raw_objects (Init_setup T b) = raw_objects b"
  "hash (Init_setup T b) = hash b"
  "dynstr (Init_setup T b) =
     fst (GenerateStrtab (dynsym_builder b)) @
     basename_src (elf_file_path b) @ [NUL]"
  "dynstr_soname_offset (Init_setup T b) = of_nat (length (fst (GenerateStrtab (dynsym_builder b))))"
  "program_headers (Init_setup T b) = program_headers (Init_program_headers T b)"
  by (simp_all add: Init_setup_def Init_dynstr_effect)

lemma Init_setup_keeps [simp]:
  "sh_addralign (sb_section (dynsym_builder (Init_setup T b))) = sh_addralign (sb_section (dynsym_builder b))"
  "sh_flags (sb_section (dynsym_builder (Init_setup T b))) = sh_flags (sb_section (dynsym_builder b))"
  "map sym_name (symbols (dynsym_builder (Init_setup T b))) = map sym_name (symbols (dynsym_builder b))"
  "length (symbols (dynsym_builder (Init_setup T b))) = length (symbols (dynsym_builder b))"
  "sh_addralign (sb_section (strtab (dynsym_builder (Init_setup T b)))) = sh_addralign (sb_section (strtab (dynsym_builder b)))"
  "sh_flags (sb_section (strtab (dynsym_builder (Init_setup T b)))) = sh_flags (sb_section (strtab (dynsym_builder b)))"
  "sh_addralign (sb_section (hash_builder (Init_setup T b))) = sh_addralign (sb_section (hash_builder b))"
  "sh_flags (sb_section (hash_builder (Init_setup T b))) = sh_flags (sb_section (hash_builder b))"
  "sh_addralign (sb_section (rodata_builder (Init_setup T b))) = sh_addralign (sb_section (rodata_builder b))"
  "sh_flags (sb_section (rodata_builder (Init_setup T b))) = sh_flags (sb_section (rodata_builder b))"
  "oat_size (rodata_builder (Init_setup T b)) = oat_size (rodata_builder b)"
  "sh_addralign (sb_section (text_builder (Init_setup T b))) = sh_addralign (sb_section (text_builder b))"
  "sh_flags (sb_section (text_builder (Init_setup T b))) = sh_flags (sb_section (text_builder b))"
  "oat_size (text_builder (Init_setup T b)) = oat_size (text_builder b)"
  "sh_addralign (sb_section (bss_builder (Init_setup T b))) = sh_addralign (sb_section (bss_builder b))"
  "sh_flags (sb_section (bss_builder (Init_setup T b))) = sh_flags (sb_section (bss_builder b))"
  "oat_size (bss_builder (Init_setup T b)) = oat_size (bss_builder b)"
  "sh_addralign (sb_section (dynamic_builder (Init_setup T b))) = sh_addralign (sb_section (dynamic_builder b))"
  "sh_flags (sb_section (dynamic_builder (Init_setup T b))) = sh_flags (sb_section (dynamic_builder b))"
  "dynamics (dynamic_builder (Init_setup T b)) = dynamics (dynamic_builder b)"
  by (simp_all add: Init_setup_def Init_dynstr_effect)

lemma SymtabGetSize_Init_setup [simp]:
  "SymtabGetSize (dynsym_builder (Init_setup T b)) = SymtabGetSize (dynsym_builder b)"
  by (simp add: SymtabGetSize_def)

lemma DynamicGetSize_Init_setup [simp]:
  "DynamicGetSize (dynamic_builder (Init_setup T b)) = DynamicGetSize (dynamic_builder b)"
  by (simp add: DynamicGetSize_def)

lemma GenerateHashContents_Init_setup [simp]:
  "GenerateHashContents (dynsym_builder (Init_setup T b)) = GenerateHashContents (dynsym_builder b)"
  by (rule GenerateHashContents_names) simp

text \<open>The section headers after a successful \<^verbatim>\<open>Init\<close>.\<close>

lemma Init_result_frame:
  assumes "Init T b = Some (Inr b1)"
  shows "elf_file_path b1 = elf_file_path b" "add_symbols b1 = add_symbols b"
    "fatal_error b1 = False" "elf_header b1 = elf_header b"
    "symtab_builder b1 = symtab_builder b" "shstrtab_builder b1 = shstrtab_builder b"
    "GenerateHashContents (dynsym_builder b) = Some (Inr (hash b1))"
    "dynstr b1 =
       fst (GenerateStrtab (dynsym_builder b)) @
       basename_src (elf_file_path b) @ [NUL]"
    "dynstr_soname_offset b1 = of_nat (length (fst (GenerateStrtab (dynsym_builder b))))"
    "program_headers b1 = program_headers (Init_program_headers T b)"
    "oat_size (bss_builder b1) = oat_size (bss_builder b)"
    "oat_size (text_builder b1) = oat_size (text_builder b)"
    "oat_size (rodata_builder b1) = oat_size (rodata_builder b)"
    "length (symbols (dynsym_builder b1)) = length (symbols (dynsym_builder b))"
    "map sym_name (symbols (dynsym_builder b1)) = map sym_name (symbols (dynsym_builder b))"
    "dynamics (dynamic_builder b1) = dynamics (dynamic_builder b)"
proof -
  from Init_Inr [OF assms] obtain h where nf: "\<not> fatal_error b"
    and h: "GenerateHashContents (dynsym_builder (Init_setup T b)) = Some (Inr h)"
    and l: "Init_layout T ((Init_setup T b)\<lparr>hash := h\<rparr>) = Inr b1" by blast
  from Init_layout_Inr [OF l] obtain bo prev where
    o: "Init_layout_others (Init_layout_hash T (Init_layout_dynstr
          (Init_layout_dynsym T ((Init_setup T b)\<lparr>hash := h\<rparr>)))) = (bo, prev)"
    and b1: "b1 = Init_layout_dynamic T (Init_layout_bss (Init_layout_text
          (Init_layout_rodata prev bo)))" by blast
  from o have bo: "bo = fst (Init_layout_others (Init_layout_hash T (Init_layout_dynstr
          (Init_layout_dynsym T ((Init_setup T b)\<lparr>hash := h\<rparr>)))))" by simp
  show "elf_file_path b1 = elf_file_path b" "add_symbols b1 = add_symbols b"
    "fatal_error b1 = False" "elf_header b1 = elf_header b"
    "symtab_builder b1 = symtab_builder b" "shstrtab_builder b1 = shstrtab_builder b"
    "GenerateHashContents (dynsym_builder b) = Some (Inr (hash b1))"
    "dynstr b1 =
       fst (GenerateStrtab (dynsym_builder b)) @
       basename_src (elf_file_path b) @ [NUL]"
    "dynstr_soname_offset b1 = of_nat (length (fst (GenerateStrtab (dynsym_builder b))))"
    "program_headers b1 = program_headers (Init_program_headers T b)"
    "oat_size (bss_builder b1) = oat_size (bss_builder b)"
    "oat_size (text_builder b1) = oat_size (text_builder b)"
    "oat_size (rodata_builder b1) = oat_size (rodata_builder b)"
    "length (symbols (dynsym_builder b1)) = length (symbols (dynsym_builder b))"
    "map sym_name (symbols (dynsym_builder b1)) = map sym_name (symbols (dynsym_builder b))"
    "dynamics (dynamic_builder b1) = dynamics (dynamic_builder b)"
    using nf h unfolding b1 bo
    by (simp_all add: Init_layout_effects)
qed



lemma layout_raw_alloc_flags [simp]:
  "sh_flags (sb_section (raw_objects (fst (layout_raw_alloc prev ps b)) q)) =
     sh_flags (sb_section (raw_objects b q))"
  by (induction ps arbitrary: prev b) (simp_all add: Let_def upd_other_def)

lemma layout_raw_alloc_keeps:
  "allocatable (raw_objects b q) \<longrightarrow> addr_is_offset (raw_objects b q) \<Longrightarrow>
   allocatable (raw_objects (fst (layout_raw_alloc prev ps b)) q) \<longrightarrow>
     addr_is_offset (raw_objects (fst (layout_raw_alloc prev ps b)) q)"
proof (induction ps arbitrary: prev b)
  case Nil
  then show ?case by simp
next
  case (Cons p ps)
  show ?case
  proof (cases "sh_flags (sb_section (raw_objects b p)) AND SHF_ALLOC \<noteq> 0")
    case True
    then show ?thesis
      using Cons.prems
      by (simp add: Let_def) (rule Cons.IH, simp add: upd_other_def allocatable_def addr_is_offset_def)
  next
    case False
    then show ?thesis using Cons.prems by (simp add: Cons.IH)
  qed
qed

lemma layout_raw_alloc_addr:
  "p \<in> set ps \<Longrightarrow> allocatable (raw_objects (fst (layout_raw_alloc prev ps b)) p) \<Longrightarrow>
     addr_is_offset (raw_objects (fst (layout_raw_alloc prev ps b)) p)"
proof (induction ps arbitrary: prev b)
  case Nil
  then show ?case by simp
next
  case (Cons q ps)
  show ?case
  proof (cases "sh_flags (sb_section (raw_objects b q)) AND SHF_ALLOC \<noteq> 0")
    case True
    let ?b = "upd_other q (\<lambda>sb. map_section (\<lambda>s. s\<lparr>sh_link := GetLink (deref
        (upd_other q (\<lambda>sb. map_section (\<lambda>s. s\<lparr>sh_size := of_nat (length (buf sb))\<rparr>) sb)
          (upd_other q (map_section (\<lambda>s. s\<lparr>sh_addr := sh_offset s\<rparr>))
            (upd_other q (map_section (\<lambda>s. s\<lparr>sh_offset := NextOffset s prev\<rparr>)) b)))) sb\<rparr>) sb)
        (upd_other q (\<lambda>sb. map_section (\<lambda>s. s\<lparr>sh_size := of_nat (length (buf sb))\<rparr>) sb)
          (upd_other q (map_section (\<lambda>s. s\<lparr>sh_addr := sh_offset s\<rparr>))
            (upd_other q (map_section (\<lambda>s. s\<lparr>sh_offset := NextOffset s prev\<rparr>)) b)))"
    have step: "fst (layout_raw_alloc prev (q # ps) b) =
        fst (layout_raw_alloc (sb_section (raw_objects ?b q)) ps ?b)"
      using True by (simp add: Let_def)
    have q: "allocatable (raw_objects ?b q) \<longrightarrow> addr_is_offset (raw_objects ?b q)"
      by (simp add: upd_other_def allocatable_def addr_is_offset_def)
    show ?thesis
    proof (cases "p = q")
      case True
      with layout_raw_alloc_keeps [OF q, of "sb_section (raw_objects ?b q)" ps] Cons.prems(2)
      show ?thesis unfolding step by simp
    next
      case False
      with Cons.prems have "p \<in> set ps" by simp
      from Cons.IH [OF this, of "sb_section (raw_objects ?b q)" ?b] Cons.prems(2)
      show ?thesis unfolding step by simp
    qed
  next
    case False
    with Cons.prems(2) have np: "p \<noteq> q \<or> \<not> allocatable (raw_objects (fst (layout_raw_alloc prev ps b)) p)"
      by (auto simp: allocatable_def)
    from False have step: "fst (layout_raw_alloc prev (q # ps) b) = fst (layout_raw_alloc prev ps b)"
      by simp
    from np Cons.prems have "p \<in> set ps"
      unfolding step by auto
    from Cons.IH [OF this, of prev b] Cons.prems(2) show ?thesis unfolding step by simp
  qed
qed

lemma layout_raw_alloc_none:
  "\<forall>p\<in>set ps. sh_flags (sb_section (raw_objects b p)) AND SHF_ALLOC = 0 \<Longrightarrow>
     layout_raw_alloc prev ps b = (b, prev)"
  by (induction ps arbitrary: prev b) simp_all

lemma Init_result_layout:
  assumes "Init T b = Some (Inr b1)"
  shows "sh_offset (sb_section (dynsym_builder b1)) =
           RoundUp (of_nat (sizeof_Ehdr T + PHDR_SIZE T)) (sh_addralign (sb_section (dynsym_builder b)))"
    "sh_size (sb_section (dynsym_builder b1)) =
           of_nat (SymtabGetSize (dynsym_builder b) * sizeof_Sym T)"
    "sh_offset (sb_section (strtab (dynsym_builder b1))) =
           RoundUp (sh_size (sb_section (dynsym_builder b1)) + sh_offset (sb_section (dynsym_builder b1)))
             (sh_addralign (sb_section (strtab (dynsym_builder b))))"
    "sh_size (sb_section (strtab (dynsym_builder b1))) = of_nat (length (dynstr b1))"
    "sh_offset (sb_section (hash_builder b1)) =
           RoundUp (sh_size (sb_section (strtab (dynsym_builder b1))) +
                    sh_offset (sb_section (strtab (dynsym_builder b1))))
             (sh_addralign (sb_section (hash_builder b)))"
    "sh_size (sb_section (hash_builder b1)) = of_nat (length (hash b1) * sizeof_Word T)"
    "\<forall>p\<in>set (other_builders b). sh_flags (sb_section (raw_objects b p)) AND SHF_ALLOC = 0 \<Longrightarrow>
       sh_offset (sb_section (rodata_builder b1)) =
           RoundUp (sh_size (sb_section (hash_builder b1)) + sh_offset (sb_section (hash_builder b1)))
             (sh_addralign (sb_section (rodata_builder b)))"
    "sh_size (sb_section (rodata_builder b1)) = oat_size (rodata_builder b)"
    "sh_offset (sb_section (text_builder b1)) =
           RoundUp (sh_size (sb_section (rodata_builder b1)) + sh_offset (sb_section (rodata_builder b1)))
             (sh_addralign (sb_section (text_builder b)))"
    "sh_size (sb_section (text_builder b1)) = oat_size (text_builder b)"
    "sh_offset (sb_section (bss_builder b1)) =
           RoundUp (sh_size (sb_section (text_builder b1)) + sh_offset (sb_section (text_builder b1)))
             (sh_addralign (sb_section (bss_builder b)))"
    "sh_size (sb_section (bss_builder b1)) = oat_size (bss_builder b)"
    "sh_offset (sb_section (dynamic_builder b1)) = sh_offset (sb_section (bss_builder b1))"
    "sh_addr (sb_section (dynamic_builder b1)) =
           RoundUp (sh_size (sb_section (bss_builder b1)) + sh_offset (sb_section (bss_builder b1)))
             (sh_addralign (sb_section (dynamic_builder b)))"
    "sh_size (sb_section (dynamic_builder b1)) =
           of_nat (DynamicGetSize (dynamic_builder b) * sizeof_Dyn T)"
    "sh_addr (sb_section (dynsym_builder b1)) = sh_offset (sb_section (dynsym_builder b1))"
    "sh_addr (sb_section (strtab (dynsym_builder b1))) = sh_offset (sb_section (strtab (dynsym_builder b1)))"
    "sh_addr (sb_section (hash_builder b1)) = sh_offset (sb_section (hash_builder b1))"
    "sh_addr (sb_section (rodata_builder b1)) = sh_offset (sb_section (rodata_builder b1))"
    "sh_addr (sb_section (text_builder b1)) = sh_offset (sb_section (text_builder b1))"
    "sh_addr (sb_section (bss_builder b1)) = sh_offset (sb_section (bss_builder b1))"
    "sh_flags (sb_section (dynsym_builder b1)) = sh_flags (sb_section (dynsym_builder b))"
    "sh_flags (sb_section (strtab (dynsym_builder b1))) = sh_flags (sb_section (strtab (dynsym_builder b)))"
    "sh_flags (sb_section (hash_builder b1)) = sh_flags (sb_section (hash_builder b))"
    "sh_flags (sb_section (rodata_builder b1)) = sh_flags (sb_section (rodata_builder b))"
    "sh_flags (sb_section (text_builder b1)) = sh_flags (sb_section (text_builder b))"
    "sh_flags (sb_section (bss_builder b1)) = sh_flags (sb_section (bss_builder b))"
    "sh_flags (sb_section (dynamic_builder b1)) = sh_flags (sb_section (dynamic_builder b))"
    "sh_addralign (sb_section (dynamic_builder b1)) = sh_addralign (sb_section (dynamic_builder b))"
    "\<exists>prev b'. raw_objects b' = raw_objects b \<and>
       raw_objects b1 = raw_objects (fst (layout_raw_alloc prev (other_builders b) b'))"
    "IsAlignedParam (sh_offset (sb_section (rodata_builder b1)) + sh_size (sb_section (rodata_builder b1))) kPageSize"
    "IsAlignedParam (sh_offset (sb_section (bss_builder b1))) (sh_addralign (sb_section (dynamic_builder b)))"
    "other_builders b1 = other_builders b"
proof -
  from Init_Inr [OF assms] obtain h where nf: "\<not> fatal_error b"
    and h: "GenerateHashContents (dynsym_builder (Init_setup T b)) = Some (Inr h)"
    and l: "Init_layout T ((Init_setup T b)\<lparr>hash := h\<rparr>) = Inr b1" by blast
  let ?bh = "Init_layout_hash T (Init_layout_dynstr
          (Init_layout_dynsym T ((Init_setup T b)\<lparr>hash := h\<rparr>)))"
  from Init_layout_Inr [OF l] obtain bo prev where
    o: "Init_layout_others ?bh = (bo, prev)"
    and b1: "b1 = Init_layout_dynamic T (Init_layout_bss (Init_layout_text
          (Init_layout_rodata prev bo)))"
    and a1: "IsAlignedParam (sh_offset (sb_section (rodata_builder (Init_layout_text (Init_layout_rodata prev bo)))) +
                 sh_size (sb_section (rodata_builder (Init_layout_text (Init_layout_rodata prev bo))))) kPageSize"
    and a2: "IsAlignedParam (sh_offset (sb_section (bss_builder (Init_layout_bss (Init_layout_text (Init_layout_rodata prev bo))))))
             (sh_addralign (sb_section (dynamic_builder (Init_layout_bss (Init_layout_text (Init_layout_rodata prev bo))))))"
    by blast
  from o have bo: "bo = fst (Init_layout_others ?bh)" and prev: "prev = snd (Init_layout_others ?bh)"
    by simp_all
  have obh: "other_builders ?bh = other_builders b" "raw_objects ?bh = raw_objects b" by simp_all
  have ob: "raw_objects bo =
      raw_objects (fst (layout_raw_alloc (sb_section (hash_builder ?bh)) (other_builders b) ?bh))"
    unfolding bo by (simp add: Init_layout_others_def)
  have pv: "prev = sb_section (hash_builder ?bh)"
    if "\<forall>p\<in>set (other_builders b). sh_flags (sb_section (raw_objects b p)) AND SHF_ALLOC = 0"
    unfolding prev Init_layout_others_def using that
    by (subst layout_raw_alloc_none) simp_all
  note defs = b1 bo Init_layout_effects NextOffset_def
  show "sh_offset (sb_section (dynsym_builder b1)) =
           RoundUp (of_nat (sizeof_Ehdr T + PHDR_SIZE T)) (sh_addralign (sb_section (dynsym_builder b)))"
    "sh_size (sb_section (dynsym_builder b1)) =
           of_nat (SymtabGetSize (dynsym_builder b) * sizeof_Sym T)"
    "sh_offset (sb_section (strtab (dynsym_builder b1))) =
           RoundUp (sh_size (sb_section (dynsym_builder b1)) + sh_offset (sb_section (dynsym_builder b1)))
             (sh_addralign (sb_section (strtab (dynsym_builder b))))"
    "sh_size (sb_section (strtab (dynsym_builder b1))) = of_nat (length (dynstr b1))"
    "sh_offset (sb_section (hash_builder b1)) =
           RoundUp (sh_size (sb_section (strtab (dynsym_builder b1))) +
                    sh_offset (sb_section (strtab (dynsym_builder b1))))
             (sh_addralign (sb_section (hash_builder b)))"
    "sh_size (sb_section (hash_builder b1)) = of_nat (length (hash b1) * sizeof_Word T)"
    "sh_size (sb_section (rodata_builder b1)) = oat_size (rodata_builder b)"
    "sh_offset (sb_section (text_builder b1)) =
           RoundUp (sh_size (sb_section (rodata_builder b1)) + sh_offset (sb_section (rodata_builder b1)))
             (sh_addralign (sb_section (text_builder b)))"
    "sh_size (sb_section (text_builder b1)) = oat_size (text_builder b)"
    "sh_offset (sb_section (bss_builder b1)) =
           RoundUp (sh_size (sb_section (text_builder b1)) + sh_offset (sb_section (text_builder b1)))
             (sh_addralign (sb_section (bss_builder b)))"
    "sh_size (sb_section (bss_builder b1)) = oat_size (bss_builder b)"
    "sh_offset (sb_section (dynamic_builder b1)) = sh_offset (sb_section (bss_builder b1))"
    "sh_addr (sb_section (dynamic_builder b1)) =
           RoundUp (sh_size (sb_section (bss_builder b1)) + sh_offset (sb_section (bss_builder b1)))
             (sh_addralign (sb_section (dynamic_builder b)))"
    "sh_size (sb_section (dynamic_builder b1)) =
           of_nat (DynamicGetSize (dynamic_builder b) * sizeof_Dyn T)"
    "sh_addr (sb_section (dynsym_builder b1)) = sh_offset (sb_section (dynsym_builder b1))"
    "sh_addr (sb_section (strtab (dynsym_builder b1))) = sh_offset (sb_section (strtab (dynsym_builder b1)))"
    "sh_addr (sb_section (hash_builder b1)) = sh_offset (sb_section (hash_builder b1))"
    "sh_addr (sb_section (rodata_builder b1)) = sh_offset (sb_section (rodata_builder b1))"
    "sh_addr (sb_section (text_builder b1)) = sh_offset (sb_section (text_builder b1))"
    "sh_addr (sb_section (bss_builder b1)) = sh_offset (sb_section (bss_builder b1))"
    "sh_flags (sb_section (dynsym_builder b1)) = sh_flags (sb_section (dynsym_builder b))"
    "sh_flags (sb_section (strtab (dynsym_builder b1))) = sh_flags (sb_section (strtab (dynsym_builder b)))"
    "sh_flags (sb_section (hash_builder b1)) = sh_flags (sb_section (hash_builder b))"
    "sh_flags (sb_section (rodata_builder b1)) = sh_flags (sb_section (rodata_builder b))"
    "sh_flags (sb_section (text_builder b1)) = sh_flags (sb_section (text_builder b))"
    "sh_flags (sb_section (bss_builder b1)) = sh_flags (sb_section (bss_builder b))"
    "sh_flags (sb_section (dynamic_builder b1)) = sh_flags (sb_section (dynamic_builder b))"
    "sh_addralign (sb_section (dynamic_builder b1)) = sh_addralign (sb_section (dynamic_builder b))"
    by (simp_all add: defs)
  show "sh_offset (sb_section (rodata_builder b1)) =
           RoundUp (sh_size (sb_section (hash_builder b1)) + sh_offset (sb_section (hash_builder b1)))
             (sh_addralign (sb_section (rodata_builder b)))"
    if "\<forall>p\<in>set (other_builders b). sh_flags (sb_section (raw_objects b p)) AND SHF_ALLOC = 0"
    using pv [OF that] by (simp add: defs)
  have "raw_objects b1 = raw_objects bo" unfolding b1 by simp
  with ob obh(2)
  show "\<exists>prev b'. raw_objects b' = raw_objects b \<and>
       raw_objects b1 = raw_objects (fst (layout_raw_alloc prev (other_builders b) b'))"
    by metis
  show "IsAlignedParam (sh_offset (sb_section (rodata_builder b1)) + sh_size (sb_section (rodata_builder b1))) kPageSize"
    using a1 unfolding b1 by simp
  show "IsAlignedParam (sh_offset (sb_section (bss_builder b1))) (sh_addralign (sb_section (dynamic_builder b)))"
    using a2 unfolding b1 bo by (simp add: Init_layout_effects)
  show "other_builders b1 = other_builders b"
    unfolding b1 bo by simp
qed


section \<open>The steps of \<^verbatim>\<open>Write\<close>\<close>

lemma p_flags_upd_phdr:
  assumes "\<And>h. p_flags (f h) = p_flags h"
  shows "p_flags (program_headers (upd_phdr i f b) ! j) = p_flags (program_headers b ! j)"
proof (cases "i < length (program_headers b)")
  case True
  then show ?thesis using assms by (auto simp: upd_phdr_def nth_list_update)
next
  case False
  then have "(program_headers b)[i := f (program_headers b ! i)] = program_headers b"
    by (intro list_update_beyond) simp
  then show ?thesis by (simp add: upd_phdr_def)
qed

lemma length_upd_phdr [simp]:
  "length (program_headers (upd_phdr i f b)) = length (program_headers b)"
  by (simp add: upd_phdr_def)

lemma Write_eh_frame_hdr_Inr:
  assumes "Write_eh_frame_hdr b = Inr bx"
  shows "\<exists>f. bx = upd_phdr PH_EH_FRAME_HDR f b"
  using assms
  by (auto simp: Write_eh_frame_hdr_def upd_phdr_def Let_def split: option.splits if_splits
      intro: exI [of _ "\<lambda>x. x"])

lemma Write_prepare_Inr:
  assumes "Write_prepare T b = Inr (b2, loc)"
  shows "\<exists>f. b2 = Write_ehdr T (snd (snd (Write_layout T b)))
                  (upd_phdr PH_EH_FRAME_HDR f (Write_program_headers (fst (Write_layout T b))))"
    and "w_dynsym loc = GenerateSymtab (deref (fst (Write_layout T b))) (dynsym_builder b)"
    and "w_dynamic loc = GetDynamics (deref (fst (Write_layout T b))) (of_nat (length (dynstr b)))
           (ucast (dynstr_soname_offset b)) (dynamic_builder b)"
    and "w_sections_offset loc = snd (snd (Write_layout T b))"
    and "\<exists>phdr_pieces. program_header_pieces T b2 = Inr phdr_pieces \<and>
           w_pieces loc = Write_pieces T b2 (w_strtab loc) (w_dynsym loc) (w_symtab loc)
             (w_sections_offset loc) phdr_pieces"
    and "length (w_dynsym loc) * sizeof_Sym T = unat (sh_size (sb_section (dynsym_builder b)))"
    and "length (w_dynamic loc) * sizeof_Dyn T = unat (sh_size (sb_section (dynamic_builder b)))"
proof -
  obtain bl strtb so where wl: "Write_layout T b = (bl, strtb, so)"
    by (cases "Write_layout T b") auto
  have fr: "dynsym_builder bl = dynsym_builder b" "dynamic_builder bl = dynamic_builder b"
    "dynstr bl = dynstr b" "dynstr_soname_offset bl = dynstr_soname_offset b"
    using Write_layout_frame [of T b] wl by simp_all
  from assms wl obtain bx where
    c1: "length (GenerateSymtab (deref bl) (dynsym_builder bl)) * sizeof_Sym T =
           unat (sh_size (sb_section (dynsym_builder bl)))"
    and c3: "length (GetDynamics (deref bl) (of_nat (length (dynstr bl)))
               (ucast (dynstr_soname_offset bl)) (dynamic_builder bl)) * sizeof_Dyn T =
           unat (sh_size (sb_section (dynamic_builder bl)))"
    and eh: "Write_eh_frame_hdr (Write_program_headers bl) = Inr bx"
    and b2: "b2 = Write_ehdr T so bx"
    and loc: "\<exists>phdr_pieces. program_header_pieces T b2 = Inr phdr_pieces \<and>
        loc = \<lparr>w_strtab = strtb,
               w_dynsym = GenerateSymtab (deref bl) (dynsym_builder bl),
               w_symtab = (if IncludingDebugSymbols bl
                           then GenerateSymtab (deref bl) (symtab_builder bl) else []),
               w_dynamic = GetDynamics (deref bl) (of_nat (length (dynstr bl)))
                             (ucast (dynstr_soname_offset bl)) (dynamic_builder bl),
               w_sections_offset = so,
               w_pieces = Write_pieces T b2 strtb (GenerateSymtab (deref bl) (dynsym_builder bl))
                            (if IncludingDebugSymbols bl
                             then GenerateSymtab (deref bl) (symtab_builder bl) else [])
                            so phdr_pieces\<rparr>"
    by (auto simp: Write_prepare_def Let_def split: if_splits sum.splits)
  from Write_eh_frame_hdr_Inr [OF eh] obtain f where
    bx: "bx = upd_phdr PH_EH_FRAME_HDR f (Write_program_headers bl)" by blast
  show "\<exists>f. b2 = Write_ehdr T (snd (snd (Write_layout T b)))
                  (upd_phdr PH_EH_FRAME_HDR f (Write_program_headers (fst (Write_layout T b))))"
    using b2 bx wl by auto
  show "w_dynsym loc = GenerateSymtab (deref (fst (Write_layout T b))) (dynsym_builder b)"
    using loc wl fr by auto
  show "w_dynamic loc = GetDynamics (deref (fst (Write_layout T b))) (of_nat (length (dynstr b)))
           (ucast (dynstr_soname_offset b)) (dynamic_builder b)"
    using loc wl fr by auto
  show "w_sections_offset loc = snd (snd (Write_layout T b))"
    using loc wl by auto
  show "\<exists>phdr_pieces. program_header_pieces T b2 = Inr phdr_pieces \<and>
           w_pieces loc = Write_pieces T b2 (w_strtab loc) (w_dynsym loc) (w_symtab loc)
             (w_sections_offset loc) phdr_pieces"
    using loc by auto
  show "length (w_dynsym loc) * sizeof_Sym T = unat (sh_size (sb_section (dynsym_builder b)))"
    using loc c1 fr by auto
  show "length (w_dynamic loc) * sizeof_Dyn T = unat (sh_size (sb_section (dynamic_builder b)))"
    using loc c3 fr by auto
qed

lemma Write_prepare_frame:
  assumes "Write_prepare T b = Inr (b2, loc)"
  shows "dynsym_builder b2 = dynsym_builder b" "hash_builder b2 = hash_builder b"
    "rodata_builder b2 = rodata_builder b" "text_builder b2 = text_builder b"
    "bss_builder b2 = bss_builder b" "dynamic_builder b2 = dynamic_builder b"
    "dynstr b2 = dynstr b" "dynstr_soname_offset b2 = dynstr_soname_offset b"
    "hash b2 = hash b" "fatal_error b2 = fatal_error b" "add_symbols b2 = add_symbols b"
    "elf_file_path b2 = elf_file_path b" "null_hdr b2 = null_hdr b"
    "e_phnum (elf_header b2) =
       (if sh_size (sb_section (bss_builder b)) \<noteq> 0 then of_nat PH_NUM else of_nat (PH_NUM - 1))"
    "p_flags (program_headers b2 ! PH_LOAD_RW_DYNAMIC) = p_flags (program_headers b ! PH_LOAD_RW_DYNAMIC)"
    "length (program_headers b2) = length (program_headers b)"
proof -
  from Write_prepare_Inr(1) [OF assms] obtain f where
    b2: "b2 = Write_ehdr T (snd (snd (Write_layout T b)))
                  (upd_phdr PH_EH_FRAME_HDR f (Write_program_headers (fst (Write_layout T b))))"
    by blast
  show "dynsym_builder b2 = dynsym_builder b" "hash_builder b2 = hash_builder b"
    "rodata_builder b2 = rodata_builder b" "text_builder b2 = text_builder b"
    "bss_builder b2 = bss_builder b" "dynamic_builder b2 = dynamic_builder b"
    "dynstr b2 = dynstr b" "dynstr_soname_offset b2 = dynstr_soname_offset b"
    "hash b2 = hash b" "fatal_error b2 = fatal_error b" "add_symbols b2 = add_symbols b"
    "elf_file_path b2 = elf_file_path b" "null_hdr b2 = null_hdr b"
    unfolding b2 by simp_all
  show "e_phnum (elf_header b2) =
       (if sh_size (sb_section (bss_builder b)) \<noteq> 0 then of_nat PH_NUM else of_nat (PH_NUM - 1))"
    unfolding b2 by (simp add: Write_ehdr_def)
  have ph: "p_flags (program_headers (Write_program_headers x) ! j) = p_flags (program_headers x ! j)"
    for x :: "'a ElfBuilder" and j
    by (simp add: Write_program_headers_def Let_def p_flags_upd_phdr)
  have len: "length (program_headers (Write_program_headers x)) = length (program_headers x)"
    for x :: "'a ElfBuilder"
    by (simp add: Write_program_headers_def Let_def)
  show "length (program_headers b2) = length (program_headers b)"
    unfolding b2 by (simp add: len)
  show "p_flags (program_headers b2 ! PH_LOAD_RW_DYNAMIC) = p_flags (program_headers b ! PH_LOAD_RW_DYNAMIC)"
    unfolding b2
    by (simp add: upd_phdr_def PH_EH_FRAME_HDR_def PH_LOAD_RW_DYNAMIC_def ph)
qed


section \<open>The constructor and the configuration\<close>

lemma SetISA_Inr:
  assumes "SetISA isa b = Inr b'"
  shows "isa \<noteq> kNone" and "\<exists>h. b' = b\<lparr>elf_header := h\<rparr>"
  using assms by (auto simp: SetISA_def split: InstructionSet.splits)


lemma SetISA_supported: "isa \<noteq> kNone \<Longrightarrow> \<exists>b'. SetISA isa b = Inr b'"
  by (cases isa) (simp_all add: SetISA_def)

lemma AddSymbols_Cons: "AddSymbols (a # calls) b = AddSymbols calls (AddSymbol_call a b)"
  by (simp add: AddSymbols_def)

lemma AddSymbols_Nil: "AddSymbols [] b = b"
  by (simp add: AddSymbols_def)

lemma SetupRequiredSymbols_effect:
  "dynsym_builder (SetupRequiredSymbols b) =
     AddSymbols (required_symbols (oat_size (rodata_builder b)) (oat_size (text_builder b))
                   (oat_size (bss_builder b)))
       (dynsym_builder b)"
  by (simp add: SetupRequiredSymbols_def Let_def required_symbols_def AddSymbols_Cons
        AddSymbols_Nil AddSymbol_call_def)

lemma SetupDynamic_section [simp]:
  "sb_section (dynamic_builder (SetupDynamic T b)) = sb_section (dynamic_builder b)"
  "sb_link (dynamic_builder (SetupDynamic T b)) = sb_link (dynamic_builder b)"
  "sb_name (dynamic_builder (SetupDynamic T b)) = sb_name (dynamic_builder b)"
  by (simp_all add: SetupDynamic_def Let_def AddDynamicTag_def AddDynamicTag_section_def)

lemma oat_ctor_fields [simp]:
  "oat_size (ElfOatSectionBuilder_ctor nm sz off ty fl) = sz"
  "sh_flags (sb_section (ElfOatSectionBuilder_ctor nm sz off ty fl)) = fl"
  "sh_addralign (sb_section (ElfOatSectionBuilder_ctor nm sz off ty fl)) = kPageSize"
  "sb_name (ElfOatSectionBuilder_ctor nm sz off ty fl) = nm"
  by (simp_all add: ElfOatSectionBuilder_ctor_def ElfSectionBuilder_ctor_def
        ElfSectionBuilder.extend_def ElfOatSectionBuilder.fields_def zero_Shdr_def)

lemma dynamic_ctor_fields [simp]:
  "sh_flags (sb_section (ElfDynamicBuilder_ctor T nm link)) = SHF_ALLOC"
  "sh_addralign (sb_section (ElfDynamicBuilder_ctor T nm link)) = kPageSize"
  "dynamics (ElfDynamicBuilder_ctor T nm link) = []"
  by (simp_all add: ElfDynamicBuilder_ctor_def ElfSectionBuilder_ctor_def
        ElfSectionBuilder.extend_def ElfDynamicBuilder.fields_def zero_Shdr_def)

lemma symtab_ctor_fields [simp]:
  "symbols (ElfSymtabBuilder_ctor T nm ty snm sty alloc r) = []"
  "sh_flags (sb_section (ElfSymtabBuilder_ctor T nm ty snm sty alloc r)) = (if alloc then SHF_ALLOC else 0)"
  "sh_addralign (sb_section (ElfSymtabBuilder_ctor T nm ty snm sty alloc r)) = of_nat (sizeof_Word T)"
  "sh_flags (sb_section (strtab (ElfSymtabBuilder_ctor T nm ty snm sty alloc r))) = (if alloc then SHF_ALLOC else 0)"
  "sh_addralign (sb_section (strtab (ElfSymtabBuilder_ctor T nm ty snm sty alloc r))) = 1"
  by (simp_all add: ElfSymtabBuilder_ctor_def ElfSectionBuilder_ctor_def
        ElfSectionBuilder.extend_def ElfSymtabBuilder.fields_def zero_Shdr_def)

lemma section_ctor_fields [simp]:
  "sh_flags (sb_section (ElfSectionBuilder_ctor nm ty fl link info align entsize)) = fl"
  "sh_addralign (sb_section (ElfSectionBuilder_ctor nm ty fl link info align entsize)) = align"
  "sb_name (ElfSectionBuilder_ctor nm ty fl link info align entsize) = nm"
  by (simp_all add: ElfSectionBuilder_ctor_def zero_Shdr_def)

lemma AddSymbols_section [simp]:
  "sb_section (AddSymbols calls sb) = sb_section sb"
  "strtab (AddSymbols calls sb) = strtab sb"
  by (induction calls arbitrary: sb)
    (simp_all add: AddSymbols_Nil AddSymbols_Cons AddSymbol_call_def AddSymbol_def)

lemma ctor_Inr:
  fixes bss_sz :: "'w::len word"
  assumes "ElfBuilder_ctor T path isa ro_off ro_sz tx_off tx_sz bss_off bss_sz add = Inr b"
  shows "isa \<noteq> kNone"
    and "\<exists>h. b = (SetupRequiredSymbols (SetupDynamic T (SetupEhdr T
        \<lparr>elf_file_path = path, add_symbols = add, fatal_error = False,
          program_headers = replicate PH_NUM zero_Phdr, elf_header = zero_Ehdr,
          null_hdr = zero_Shdr, shstrtab = [], section_index = 0, dynstr = [],
          dynstr_soname_offset = 0, section_ptrs = [], hash = [],
          text_builder = ElfOatSectionBuilder_ctor ''.text'' tx_sz tx_off
             SHT_PROGBITS (SHF_ALLOC OR SHF_EXECINSTR),
          rodata_builder = ElfOatSectionBuilder_ctor ''.rodata'' ro_sz
             ro_off SHT_PROGBITS SHF_ALLOC,
          bss_builder = ElfOatSectionBuilder_ctor ''.bss'' bss_sz bss_off
             SHT_NOBITS SHF_ALLOC,
          dynsym_builder = ElfSymtabBuilder_ctor T ''.dynsym'' SHT_DYNSYM ''.dynstr''
             SHT_STRTAB True R_dynstr,
          symtab_builder = ElfSymtabBuilder_ctor T ''.symtab'' SHT_SYMTAB ''.strtab''
             SHT_STRTAB False R_strtab,
          hash_builder = ElfSectionBuilder_ctor ''.hash'' SHT_HASH SHF_ALLOC (Some R_dynsym)
             0 (of_nat (sizeof_Word T)) (of_nat (sizeof_Word T)),
          dynamic_builder = ElfDynamicBuilder_ctor T ''.dynamic'' (Some R_dynsym),
          shstrtab_builder = ElfSectionBuilder_ctor ''.shstrtab'' SHT_STRTAB 0 None 0 1 1,
          other_builders = [],
          raw_objects = (\<lambda>_. ElfRawSectionBuilder_ctor [] 0 0 None 0 0 0)\<rparr>)))\<lparr>elf_header := h\<rparr>"
proof -
  let ?b0 = "SetupRequiredSymbols (SetupDynamic T (SetupEhdr T
        \<lparr>elf_file_path = path, add_symbols = add, fatal_error = False,
          program_headers = replicate PH_NUM zero_Phdr, elf_header = zero_Ehdr,
          null_hdr = zero_Shdr, shstrtab = [], section_index = 0, dynstr = [],
          dynstr_soname_offset = 0, section_ptrs = [], hash = [],
          text_builder = ElfOatSectionBuilder_ctor ''.text'' tx_sz tx_off
             SHT_PROGBITS (SHF_ALLOC OR SHF_EXECINSTR),
          rodata_builder = ElfOatSectionBuilder_ctor ''.rodata'' ro_sz
             ro_off SHT_PROGBITS SHF_ALLOC,
          bss_builder = ElfOatSectionBuilder_ctor ''.bss'' bss_sz bss_off
             SHT_NOBITS SHF_ALLOC,
          dynsym_builder = ElfSymtabBuilder_ctor T ''.dynsym'' SHT_DYNSYM ''.dynstr''
             SHT_STRTAB True R_dynstr,
          symtab_builder = ElfSymtabBuilder_ctor T ''.symtab'' SHT_SYMTAB ''.strtab''
             SHT_STRTAB False R_strtab,
          hash_builder = ElfSectionBuilder_ctor ''.hash'' SHT_HASH SHF_ALLOC (Some R_dynsym)
             0 (of_nat (sizeof_Word T)) (of_nat (sizeof_Word T)),
          dynamic_builder = ElfDynamicBuilder_ctor T ''.dynamic'' (Some R_dynsym),
          shstrtab_builder = ElfSectionBuilder_ctor ''.shstrtab'' SHT_STRTAB 0 None 0 1 1,
          other_builders = [],
          raw_objects = (\<lambda>_. ElfRawSectionBuilder_ctor [] 0 0 None 0 0 0)\<rparr>))"
  from assms have s: "SetISA isa ?b0 = Inr b"
    by (simp add: ElfBuilder_ctor_def Let_def)
  from SetISA_Inr [OF s] show "isa \<noteq> kNone"
    and "\<exists>h. b = ?b0\<lparr>elf_header := h\<rparr>" by blast+
qed


lemma ctor_supported:
  fixes bss_sz :: "'w::len word"
  assumes "isa \<noteq> kNone"
  shows "\<exists>b. ElfBuilder_ctor T path isa ro_off ro_sz tx_off tx_sz bss_off bss_sz add = Inr b"
  using SetISA_supported [OF assms] by (simp add: ElfBuilder_ctor_def Let_def)

lemma ctor_fields:
  fixes bss_sz :: "'w::len word"
  assumes "ElfBuilder_ctor T path isa ro_off ro_sz tx_off tx_sz bss_off bss_sz add = Inr b"
  shows "elf_file_path b = path"
  "add_symbols b = add"
  "\<not> fatal_error b"
  "other_builders b = []"
  "text_builder b =
     ElfOatSectionBuilder_ctor ''.text'' tx_sz tx_off SHT_PROGBITS (SHF_ALLOC OR SHF_EXECINSTR)"
  "rodata_builder b =
     ElfOatSectionBuilder_ctor ''.rodata'' ro_sz ro_off SHT_PROGBITS SHF_ALLOC"
  "bss_builder b =
     ElfOatSectionBuilder_ctor ''.bss'' bss_sz bss_off SHT_NOBITS SHF_ALLOC"
  "hash_builder b =
     ElfSectionBuilder_ctor ''.hash'' SHT_HASH SHF_ALLOC (Some R_dynsym) 0 (of_nat (sizeof_Word T))
       (of_nat (sizeof_Word T))"
  "symtab_builder b =
     ElfSymtabBuilder_ctor T ''.symtab'' SHT_SYMTAB ''.strtab'' SHT_STRTAB False R_strtab"
  "shstrtab_builder b =
     ElfSectionBuilder_ctor ''.shstrtab'' SHT_STRTAB 0 None 0 1 1"
  "dynsym_builder b =
     AddSymbols (required_symbols ro_sz tx_sz bss_sz)
       (ElfSymtabBuilder_ctor T ''.dynsym'' SHT_DYNSYM ''.dynstr'' SHT_STRTAB True R_dynstr)"
  "sb_section (dynamic_builder b) =
     sb_section (ElfDynamicBuilder_ctor T ''.dynamic'' (Some R_dynsym) :: 'w::len ElfDynamicBuilder)"
  "section_ptrs b = []"
  "shstrtab b = []"
proof -
  from ctor_Inr(2) [OF assms] obtain h where b: "b = (SetupRequiredSymbols (SetupDynamic T (SetupEhdr T
        \<lparr>elf_file_path = path, add_symbols = add, fatal_error = False,
          program_headers = replicate PH_NUM zero_Phdr, elf_header = zero_Ehdr,
          null_hdr = zero_Shdr, shstrtab = [], section_index = 0, dynstr = [],
          dynstr_soname_offset = 0, section_ptrs = [], hash = [],
          text_builder = ElfOatSectionBuilder_ctor ''.text'' tx_sz tx_off
             SHT_PROGBITS (SHF_ALLOC OR SHF_EXECINSTR),
          rodata_builder = ElfOatSectionBuilder_ctor ''.rodata'' ro_sz
             ro_off SHT_PROGBITS SHF_ALLOC,
          bss_builder = ElfOatSectionBuilder_ctor ''.bss'' bss_sz bss_off
             SHT_NOBITS SHF_ALLOC,
          dynsym_builder = ElfSymtabBuilder_ctor T ''.dynsym'' SHT_DYNSYM ''.dynstr''
             SHT_STRTAB True R_dynstr,
          symtab_builder = ElfSymtabBuilder_ctor T ''.symtab'' SHT_SYMTAB ''.strtab''
             SHT_STRTAB False R_strtab,
          hash_builder = ElfSectionBuilder_ctor ''.hash'' SHT_HASH SHF_ALLOC (Some R_dynsym)
             0 (of_nat (sizeof_Word T)) (of_nat (sizeof_Word T)),
          dynamic_builder = ElfDynamicBuilder_ctor T ''.dynamic'' (Some R_dynsym),
          shstrtab_builder = ElfSectionBuilder_ctor ''.shstrtab'' SHT_STRTAB 0 None 0 1 1,
          other_builders = [],
          raw_objects = (\<lambda>_. ElfRawSectionBuilder_ctor [] 0 0 None 0 0 0)\<rparr>)))\<lparr>elf_header := h\<rparr>" by blast
  show "elf_file_path b = path"
  "add_symbols b = add"
  "\<not> fatal_error b"
  "other_builders b = []"
  "text_builder b =
     ElfOatSectionBuilder_ctor ''.text'' tx_sz tx_off SHT_PROGBITS (SHF_ALLOC OR SHF_EXECINSTR)"
  "rodata_builder b =
     ElfOatSectionBuilder_ctor ''.rodata'' ro_sz ro_off SHT_PROGBITS SHF_ALLOC"
  "bss_builder b =
     ElfOatSectionBuilder_ctor ''.bss'' bss_sz bss_off SHT_NOBITS SHF_ALLOC"
  "hash_builder b =
     ElfSectionBuilder_ctor ''.hash'' SHT_HASH SHF_ALLOC (Some R_dynsym) 0 (of_nat (sizeof_Word T))
       (of_nat (sizeof_Word T))"
  "symtab_builder b =
     ElfSymtabBuilder_ctor T ''.symtab'' SHT_SYMTAB ''.strtab'' SHT_STRTAB False R_strtab"
  "shstrtab_builder b =
     ElfSectionBuilder_ctor ''.shstrtab'' SHT_STRTAB 0 None 0 1 1"
  "dynsym_builder b =
     AddSymbols (required_symbols ro_sz tx_sz bss_sz)
       (ElfSymtabBuilder_ctor T ''.dynsym'' SHT_DYNSYM ''.dynstr'' SHT_STRTAB True R_dynstr)"
  "sb_section (dynamic_builder b) =
     sb_section (ElfDynamicBuilder_ctor T ''.dynamic'' (Some R_dynsym) :: 'w::len ElfDynamicBuilder)"
  "section_ptrs b = []"
  "shstrtab b = []"
    unfolding b by (simp_all add: SetupRequiredSymbols_effect)
qed

lemma dynamics_ctor:
  fixes bss_sz :: "'w::len word"
  assumes "32 \<le> LENGTH('w)"
    and "ElfBuilder_ctor T path isa ro_off ro_sz tx_off tx_sz bss_off bss_sz add = Inr b"
  shows "dynamics (dynamic_builder b) =
     [\<lparr>dyn_section = Some R_hash, dyn_tag = DT_HASH, dyn_off = 0\<rparr>,
      \<lparr>dyn_section = Some R_dynstr, dyn_tag = DT_STRTAB, dyn_off = 0\<rparr>,
      \<lparr>dyn_section = Some R_dynsym, dyn_tag = DT_SYMTAB, dyn_off = 0\<rparr>,
      \<lparr>dyn_section = None, dyn_tag = DT_SYMENT, dyn_off = of_nat (sizeof_Sym T)\<rparr>]"
proof -
  from ctor_Inr(2) [OF assms(2)] obtain h where b: "b = (SetupRequiredSymbols (SetupDynamic T (SetupEhdr T
        \<lparr>elf_file_path = path, add_symbols = add, fatal_error = False,
          program_headers = replicate PH_NUM zero_Phdr, elf_header = zero_Ehdr,
          null_hdr = zero_Shdr, shstrtab = [], section_index = 0, dynstr = [],
          dynstr_soname_offset = 0, section_ptrs = [], hash = [],
          text_builder = ElfOatSectionBuilder_ctor ''.text'' tx_sz tx_off
             SHT_PROGBITS (SHF_ALLOC OR SHF_EXECINSTR),
          rodata_builder = ElfOatSectionBuilder_ctor ''.rodata'' ro_sz
             ro_off SHT_PROGBITS SHF_ALLOC,
          bss_builder = ElfOatSectionBuilder_ctor ''.bss'' bss_sz bss_off
             SHT_NOBITS SHF_ALLOC,
          dynsym_builder = ElfSymtabBuilder_ctor T ''.dynsym'' SHT_DYNSYM ''.dynstr''
             SHT_STRTAB True R_dynstr,
          symtab_builder = ElfSymtabBuilder_ctor T ''.symtab'' SHT_SYMTAB ''.strtab''
             SHT_STRTAB False R_strtab,
          hash_builder = ElfSectionBuilder_ctor ''.hash'' SHT_HASH SHF_ALLOC (Some R_dynsym)
             0 (of_nat (sizeof_Word T)) (of_nat (sizeof_Word T)),
          dynamic_builder = ElfDynamicBuilder_ctor T ''.dynamic'' (Some R_dynsym),
          shstrtab_builder = ElfSectionBuilder_ctor ''.shstrtab'' SHT_STRTAB 0 None 0 1 1,
          other_builders = [],
          raw_objects = (\<lambda>_. ElfRawSectionBuilder_ctor [] 0 0 None 0 0 0)\<rparr>)))\<lparr>elf_header := h\<rparr>" by blast
  show ?thesis
    unfolding b
    by (simp add: dynamics_SetupDynamic [OF assms(1)]
          ElfDynamicBuilder_ctor_def ElfSectionBuilder.extend_def ElfDynamicBuilder.fields_def)
qed

lemma configure_Nil: "configure [] b = b"
  by (simp add: configure_def)

lemma apply_op_frame [simp]:
  "elf_file_path (apply_op op b) = elf_file_path b"
  "add_symbols (apply_op op b) = add_symbols b"
  "fatal_error (apply_op op b) = fatal_error b"
  "text_builder (apply_op op b) = text_builder b"
  "rodata_builder (apply_op op b) = rodata_builder b"
  "bss_builder (apply_op op b) = bss_builder b"
  "hash_builder (apply_op op b) = hash_builder b"
  "dynsym_builder (apply_op op b) = dynsym_builder b"
  "dynamic_builder (apply_op op b) = dynamic_builder b"
  "shstrtab_builder (apply_op op b) = shstrtab_builder b"
  "section_ptrs (apply_op op b) = section_ptrs b"
  "shstrtab (apply_op op b) = shstrtab b"
  "program_headers (apply_op op b) = program_headers b"
  "elf_header (apply_op op b) = elf_header b"
  by (cases op; simp)+

lemma configure_frame [simp]:
  "elf_file_path (configure ops b) = elf_file_path b"
  "add_symbols (configure ops b) = add_symbols b"
  "fatal_error (configure ops b) = fatal_error b"
  "text_builder (configure ops b) = text_builder b"
  "rodata_builder (configure ops b) = rodata_builder b"
  "bss_builder (configure ops b) = bss_builder b"
  "hash_builder (configure ops b) = hash_builder b"
  "dynsym_builder (configure ops b) = dynsym_builder b"
  "dynamic_builder (configure ops b) = dynamic_builder b"
  "shstrtab_builder (configure ops b) = shstrtab_builder b"
  "section_ptrs (configure ops b) = section_ptrs b"
  "shstrtab (configure ops b) = shstrtab b"
  "program_headers (configure ops b) = program_headers b"
  "elf_header (configure ops b) = elf_header b"
  unfolding configure_def
  by (induction ops arbitrary: b; simp)+

section \<open>Alignment\<close>

lemma unat_kPageSize: "13 \<le> LENGTH('w::len) \<Longrightarrow> unat (kPageSize :: 'w word) = 4096"
proof -
  assume l: "13 \<le> LENGTH('w)"
  have "(2::nat) ^ 13 \<le> 2 ^ LENGTH('w)" using l by (rule power_increasing) simp
  then have "(4096::nat) < 2 ^ LENGTH('w)" by simp
  then have m: "(4096::nat) mod 2 ^ LENGTH('w) = 4096" by (rule mod_less)
  have e: "(kPageSize :: 'w word) = word_of_nat 4096" by (simp add: kPageSize_def)
  show ?thesis unfolding e unat_of_nat by (rule m)
qed

lemma page_dvd: "13 \<le> LENGTH('w::len) \<Longrightarrow> (4096::nat) dvd 2 ^ LENGTH('w)"
proof -
  assume "13 \<le> LENGTH('w)"
  then have "(2::nat) ^ 12 dvd 2 ^ LENGTH('w)" by (intro le_imp_power_dvd) simp
  then show ?thesis by simp
qed

lemma IsAlignedParam_RoundUp:
  assumes "13 \<le> LENGTH('w::len)"
  shows "IsAlignedParam (RoundUp (x :: 'w word) kPageSize) kPageSize"
proof -
  have h: "unat (of_nat (k * 4096) :: 'w word) mod 4096 = 0" for k :: nat
  proof -
    have "unat (of_nat (k * 4096) :: 'w word) mod 4096 = (k * 4096) mod 2 ^ LENGTH('w) mod 4096"
      by (simp only: unat_of_nat)
    also have "\<dots> = (k * 4096) mod 4096"
      using page_dvd [OF assms] by (rule mod_mod_cancel)
    finally show ?thesis by simp
  qed
  show ?thesis
    unfolding IsAlignedParam_def RoundUp_def RoundUp_nat_def unat_kPageSize [OF assms]
    by (rule h)
qed

lemma IsAlignedParam_add:
  assumes "13 \<le> LENGTH('w::len)"
    and "IsAlignedParam (a :: 'w word) kPageSize" and "IsAlignedParam s kPageSize"
  shows "IsAlignedParam (a + s) kPageSize"
proof -
  have "unat (a + s) mod 4096 = (unat a + unat s) mod 4096"
    using page_dvd [OF assms(1)] by (simp add: unat_word_ariths mod_mod_cancel)
  also have "\<dots> = 0"
    using assms(2,3) by (simp add: IsAlignedParam_def unat_kPageSize [OF assms(1)] mod_add_eq [symmetric] dvd_eq_mod_eq_0 [symmetric])
  finally show ?thesis
    by (simp add: IsAlignedParam_def unat_kPageSize [OF assms(1)])
qed

lemma RoundUp_aligned:
  assumes "IsAlignedParam x n"
  shows "RoundUp x n = x"
proof (cases "unat n = 0")
  case True
  with assms have "unat x = 0" by (simp add: IsAlignedParam_def)
  then show ?thesis using True by (simp add: RoundUp_def RoundUp_nat_def unat_eq_zero)
next
  case False
  from assms obtain k where k: "unat x = unat n * k"
    by (auto simp: IsAlignedParam_def)
  define m where "m = unat n"
  have mpos: "0 < m" using False by (simp add: m_def)
  have "(m * k + m - 1) div m = k"
  proof -
    have "m * k + m - 1 = m * k + (m - 1)" using mpos by simp
    moreover have "(m * k + (m - 1)) div m = k + (m - 1) div m"
      using mpos by (simp only: div_mult_self4)
    moreover have "(m - 1) div m = 0" using mpos by simp
    ultimately show ?thesis by simp
  qed
  then have "(unat n * k + unat n - 1) div unat n = k" by (simp add: m_def)
  then have "RoundUp_nat (unat x) (unat n) = unat x"
    by (simp add: RoundUp_nat_def k)
  then show ?thesis by (simp add: RoundUp_def)
qed



section \<open>When \<^verbatim>\<open>Init\<close> and \<^verbatim>\<open>Write\<close> succeed\<close>

lemma GenerateHashContents_succeeds:
  "\<exists>h. GenerateHashContents b = Some (Inr h) \<and>
       length h = 2 + select_nbuckets (length (symbols b)) + (length (symbols b) + 1)"
proof -
  let ?names = "map sym_name (symbols b)"
  let ?nb = "select_nbuckets (length (symbols b))"
  let ?cs = "length ?names + 1"
  have nb: "0 < ?nb" by (rule select_nbuckets_pos)
  have "hash_ok ?nb ?cs ?names 0 ([?nb, ?cs] @ replicate (?nb + ?cs) 0)"
    by (rule hash_ok_init) simp
  from hash_loop_ok [OF this refl nb]
  obtain h where h: "hash_loop ?nb ?cs 0 ?names ([?nb, ?cs] @ replicate (?nb + ?cs) 0) = Some (Inr h)"
      "hash_ok ?nb ?cs ?names (length ?names) h"
    by auto
  have "GenerateHashContents b = Some (Inr h)"
    using h(1) by (simp add: GenerateHashContents_def SymtabGetSize_def Let_def)
  moreover have "length h = 2 + ?nb + ?cs"
    using h(2) unfolding hash_ok_def hash_inv_def by simp
  ultimately show ?thesis by simp
qed

lemma Init_succeeds:
  fixes b :: "'w::len ElfBuilder"
  assumes l: "13 \<le> LENGTH('w)"
    and nf: "\<not> fatal_error b"
    and ar: "sh_addralign (sb_section (rodata_builder b)) = kPageSize"
    and ab: "sh_addralign (sb_section (bss_builder b)) = kPageSize"
    and ad: "sh_addralign (sb_section (dynamic_builder b)) = kPageSize"
    and sz: "IsAlignedParam (oat_size (rodata_builder b)) kPageSize"
  shows "\<exists>b1. Init T b = Some (Inr b1)"
proof -
  from GenerateHashContents_succeeds [of "dynsym_builder b"]
  obtain h where h: "GenerateHashContents (dynsym_builder b) = Some (Inr h)" by blast
  let ?bs = "(Init_setup T b)\<lparr>hash := h\<rparr>"
  let ?bh = "Init_layout_hash T (Init_layout_dynstr (Init_layout_dynsym T ?bs))"
  let ?bo = "fst (Init_layout_others ?bh)"
  let ?prev = "snd (Init_layout_others ?bh)"
  let ?bt = "Init_layout_text (Init_layout_rodata ?prev ?bo)"
  have c1: "IsAlignedParam (sh_offset (sb_section (rodata_builder ?bt)) +
                            sh_size (sb_section (rodata_builder ?bt))) kPageSize"
    using sz by (simp add: Init_layout_effects NextOffset_def ar IsAlignedParam_add [OF l]
        IsAlignedParam_RoundUp [OF l])
  have c2: "IsAlignedParam (sh_offset (sb_section (bss_builder (Init_layout_bss ?bt))))
              (sh_addralign (sb_section (dynamic_builder (Init_layout_bss ?bt))))"
    by (simp add: Init_layout_effects NextOffset_def ab ad IsAlignedParam_RoundUp [OF l])
  have "Init_layout T ?bs = Inr (Init_layout_dynamic T (Init_layout_bss ?bt))"
    using c1 c2 by (simp add: Init_layout_def Let_def split_beta)
  then have "Init T b = Some (Inr (Init_layout_dynamic T (Init_layout_bss ?bt)))"
    using nf h by (simp add: Init_def Let_def Init_setup_def [symmetric])
  then show ?thesis by blast
qed


lemma program_header_pieces_cases:
  fixes b :: "'w::len ElfBuilder"
  assumes "e_phnum (elf_header b) =
       (if sh_size (sb_section (bss_builder b)) \<noteq> 0 then of_nat PH_NUM else of_nat (PH_NUM - 1))"
  shows "program_header_pieces T b =
     Inr (if sh_size (sb_section (bss_builder b)) \<noteq> 0
          then [ElfFileMemoryPiece ''Program headers'' (of_nat (PHDR_OFFSET T))
                  (M_program_headers 0) (of_nat (7 * sizeof_Phdr T))]
          else [ElfFileMemoryPiece ''Program headers'' (of_nat (PHDR_OFFSET T))
                  (M_program_headers 0) (of_nat (3 * sizeof_Phdr T)),
                ElfFileMemoryPiece ''Program headers part 2''
                  (of_nat (PHDR_OFFSET T) + of_nat (3 * sizeof_Phdr T))
                  (M_program_headers 4) (of_nat (3 * sizeof_Phdr T))])"
proof -
  have u: "unat (7 :: 16 word) = 7" "unat (6 :: 16 word) = 6" by simp_all
  have "(of_nat (3 * sizeof_Phdr T) :: 'w word) + of_nat (3 * sizeof_Phdr T) =
        of_nat (6 * sizeof_Phdr T)"
    by (simp only: of_nat_add [symmetric]) simp
  then show ?thesis
    using assms u
    by (simp add: program_header_pieces_def PH_NUM_def PH_LOAD_RW_BSS_def Let_def)
qed

lemma upd_other_keeps [simp]:
  assumes "\<And>sb. sb_name (f sb) = sb_name sb" and "\<And>sb. buf (f sb) = buf sb"
  shows "sb_name (raw_objects (upd_other p f b) q) = sb_name (raw_objects b q)"
    and "buf (raw_objects (upd_other p f b) q) = buf (raw_objects b q)"
  using assms by (simp_all add: upd_other_def)

lemma layout_raw_alloc_keeps_names [simp]:
  "sb_name (raw_objects (fst (layout_raw_alloc prev ps b)) q) = sb_name (raw_objects b q)"
  "buf (raw_objects (fst (layout_raw_alloc prev ps b)) q) = buf (raw_objects b q)"
  by (induction ps arbitrary: prev b; simp add: Let_def upd_other_def)+

lemma layout_raw_nonalloc_keeps [simp]:
  "sb_name (raw_objects (fst (layout_raw_nonalloc prev ps b)) q) = sb_name (raw_objects b q)"
  "buf (raw_objects (fst (layout_raw_nonalloc prev ps b)) q) = buf (raw_objects b q)"
  "sh_flags (sb_section (raw_objects (fst (layout_raw_nonalloc prev ps b)) q)) =
     sh_flags (sb_section (raw_objects b q))"
  by (induction ps arbitrary: prev b; simp add: Let_def upd_other_def)+

lemma Write_other_sections_keeps [simp]:
  "sb_name (raw_objects (Write_other_sections ps b) q) = sb_name (raw_objects b q)"
  "buf (raw_objects (Write_other_sections ps b) q) = buf (raw_objects b q)"
  "sh_flags (sb_section (raw_objects (Write_other_sections ps b) q)) =
     sh_flags (sb_section (raw_objects b q))"
  "sh_addr (sb_section (raw_objects (Write_other_sections ps b) q)) =
     sh_addr (sb_section (raw_objects b q))"
  "sh_offset (sb_section (raw_objects (Write_other_sections ps b) q)) =
     sh_offset (sb_section (raw_objects b q))"
  by (induction ps arbitrary: b; simp add: setup_other_effect)+

lemma Write_layout_raw_keeps [simp]:
  "sb_name (raw_objects (fst (Write_layout T b)) q) = sb_name (raw_objects b q)"
  "buf (raw_objects (fst (Write_layout T b)) q) = buf (raw_objects b q)"
  "sh_flags (sb_section (raw_objects (fst (Write_layout T b)) q)) =
     sh_flags (sb_section (raw_objects b q))"
  by (simp_all add: Write_layout_def Let_def split_beta)

lemma FindRawSection_Write_layout:
  "FindRawSection (Write_program_headers (fst (Write_layout T b))) nm = FindRawSection b nm"
  by (simp add: FindRawSection_def)

lemma Write_ehdr_phnum:
  "e_phnum (elf_header (Write_ehdr T so b)) =
     (if sh_size (sb_section (bss_builder b)) \<noteq> 0 then of_nat PH_NUM else of_nat (PH_NUM - 1))"
  by (simp add: Write_ehdr_def)

lemma Write_prepare_succeeds:
  fixes b :: "'w::len ElfBuilder"
  assumes c1: "SymtabGetSize (dynsym_builder b) * sizeof_Sym T =
                 unat (sh_size (sb_section (dynsym_builder b)))"
    and c3: "DynamicGetSize (dynamic_builder b) * sizeof_Dyn T =
                 unat (sh_size (sb_section (dynamic_builder b)))"
    and ns: "\<not> add_symbols b" and no: "FindRawSection b ''.eh_frame_hdr'' = None"
  shows "\<exists>b2 loc. Write_prepare T b = Inr (b2, loc)"
proof -
  let ?bl = "fst (Write_layout T b)"
  let ?bp = "Write_program_headers ?bl"
  let ?b2 = "Write_ehdr T (snd (snd (Write_layout T b))) ?bp"
  have d: "\<not> IncludingDebugSymbols ?bl" using ns by (simp add: IncludingDebugSymbols_def)
  have e: "Write_eh_frame_hdr ?bp = Inr ?bp"
    using no by (simp add: Write_eh_frame_hdr_def FindRawSection_Write_layout)
  have p: "\<exists>pp. program_header_pieces T ?b2 = Inr pp"
    using program_header_pieces_cases [of ?b2 T] by (simp add: Write_ehdr_phnum)
  then obtain pp where pp: "program_header_pieces T ?b2 = Inr pp" by blast
  have l1: "length (GenerateSymtab (deref ?bl) (dynsym_builder b)) = SymtabGetSize (dynsym_builder b)"
    by (simp add: GenerateSymtab_def SymtabGetSize_def)
  have l3: "length (GetDynamics (deref ?bl) x y (dynamic_builder b)) = DynamicGetSize (dynamic_builder b)"
    for x y by (simp add: GetDynamics_def DynamicGetSize_def)
  show ?thesis
    using d e pp c1 c3 l1 l3
    by (simp add: Write_prepare_def Let_def split_beta)
qed


section \<open>Emissions\<close>

lemma Write_Inr:
  assumes "Write T b f = Inr (ok, b2, f')"
  shows "\<exists>loc. Write_prepare T b = Inr (b2, loc) \<and> WriteOutFile (w_pieces loc) f = (ok, f')"
  using assms by (auto simp: Write_def split: sum.splits prod.splits)

lemma emit_Some:
  assumes "emit T b f = Some (ok, b2, f')"
  shows "\<exists>b1 loc. Init T b = Some (Inr b1) \<and> Write_prepare T b1 = Inr (b2, loc) \<and>
           WriteOutFile (w_pieces loc) f = (ok, f')"
proof -
  from assms obtain b1 where "Init T b = Some (Inr b1)" "Write T b1 f = Inr (ok, b2, f')"
    by (auto simp: emit_def split: option.splits sum.splits)
  with Write_Inr show ?thesis by blast
qed

lemma emitI:
  assumes "Init T b = Some (Inr b1)" and "Write_prepare T b1 = Inr (b2, loc)"
    and "WriteOutFile (w_pieces loc) f = (ok, f')"
  shows "emit T b f = Some (ok, b2, f')"
  using assms by (simp add: emit_def Write_def)

lemma WriteOutFile_serve: "WriteOutFile ps f = serve (concat (map piece_events ps)) f"
proof (induction ps arbitrary: f)
  case Nil
  then show ?case by simp
next
  case (Cons p ps)
  show ?case
    by (cases p) (auto simp: piece_Write_def Cons.IH split: prod.splits bool.splits)
qed

lemma request_True: "request ev f = (True, f') \<Longrightarrow> f' = f\<lparr>events := events f @ [ev]\<rparr> \<and> accepts f (events f) ev"
  by (auto simp: request_def split: if_splits)

lemma request_False: "request ev f = (False, f') \<Longrightarrow> f' = f \<and> \<not> accepts f (events f) ev"
  by (auto simp: request_def split: if_splits)

lemma serve_True:
  "serve evs f = (True, f') \<Longrightarrow> events f' = events f @ evs \<and> accepts f' = accepts f"
proof (induction evs arbitrary: f)
  case Nil
  then show ?case by simp
next
  case (Cons ev evs)
  from Cons.prems obtain f1 where r: "request ev f = (True, f1)" and s: "serve evs f1 = (True, f')"
    by (auto split: prod.splits bool.splits)
  from request_True [OF r] Cons.IH [OF s] show ?case by simp
qed

lemma serve_False:
  "serve evs f = (False, f') \<Longrightarrow>
     \<exists>pre ev post. evs = pre @ ev # post \<and> events f' = events f @ pre \<and>
        accepts f' = accepts f \<and> \<not> accepts f (events f @ pre) ev"
proof (induction evs arbitrary: f)
  case Nil
  then show ?case by simp
next
  case (Cons ev evs)
  show ?case
  proof (cases "request ev f")
    case (Pair ok f1)
    show ?thesis
    proof (cases ok)
      case True
      with Pair Cons.prems have s: "serve evs f1 = (False, f')" by simp
      from Pair True have "request ev f = (True, f1)" by simp
      from request_True [OF this] have f1: "f1 = f\<lparr>events := events f @ [ev]\<rparr>" by simp
      from Cons.IH [OF s] obtain pre e post where
        "evs = pre @ e # post" "events f' = events f1 @ pre" "accepts f' = accepts f1"
        "\<not> accepts f1 (events f1 @ pre) e" by blast
      then have "ev # evs = (ev # pre) @ e # post \<and> events f' = events f @ (ev # pre) \<and>
          accepts f' = accepts f \<and> \<not> accepts f (events f @ (ev # pre)) e"
        using f1 by simp
      then show ?thesis by blast
    next
      case False
      with Pair Cons.prems have "f' = f1" by simp
      moreover from Pair False have "request ev f = (False, f1)" by simp
      from request_False [OF this] have "f1 = f \<and> \<not> accepts f (events f) ev" .
      ultimately have "ev # evs = [] @ ev # evs \<and> events f' = events f @ [] \<and> accepts f' = accepts f \<and>
          \<not> accepts f (events f @ []) ev" by simp
      then show ?thesis by blast
    qed
  qed
qed

lemma serve_accepting:
  "accepts f = (\<lambda>_ _. True) \<Longrightarrow> fst (serve evs f) = True"
  by (induction evs arbitrary: f) (simp_all add: request_def)


section \<open>When an emission succeeds\<close>

lemma AddDynamicTags_section [simp]:
  "sb_section (AddDynamicTags calls db) = sb_section db"
proof (induction calls arbitrary: db)
  case Nil
  then show ?case by (simp add: AddDynamicTags_def)
next
  case (Cons a calls)
  have "AddDynamicTags (a # calls) db = AddDynamicTags calls (AddDynamicTag_call a db)"
    by (simp add: AddDynamicTags_def)
  then show ?case
    using Cons.IH [of "AddDynamicTag_call a db"]
    by (simp add: AddDynamicTag_call_def AddDynamicTag_def AddDynamicTag_section_def
          split: option.split)
qed

lemma Init_raw_names:
  assumes "Init T b = Some (Inr b1)"
  shows "sb_name (raw_objects b1 q) = sb_name (raw_objects b q)"
    and "buf (raw_objects b1 q) = buf (raw_objects b q)"
    and "sh_flags (sb_section (raw_objects b1 q)) = sh_flags (sb_section (raw_objects b q))"
    and "FindRawSection b1 nm = FindRawSection b nm"
proof -
  from Init_result_layout(30) [OF assms] obtain prev b' where
    b': "raw_objects b' = raw_objects b"
    and r: "raw_objects b1 = raw_objects (fst (layout_raw_alloc prev (other_builders b) b'))"
    by blast
  show n: "sb_name (raw_objects b1 q) = sb_name (raw_objects b q)" for q
    by (simp add: r b')
  show "buf (raw_objects b1 q) = buf (raw_objects b q)"
    by (simp add: r b')
  show "sh_flags (sb_section (raw_objects b1 q)) = sh_flags (sb_section (raw_objects b q))"
    by (simp add: r b')
  show "FindRawSection b1 nm = FindRawSection b nm"
    by (simp add: FindRawSection_def n Init_result_layout(33) [OF assms])
qed

lemma emit_succeeds:
  fixes b :: "'w::len ElfBuilder"
  assumes l: "13 \<le> LENGTH('w)"
    and nf: "\<not> fatal_error b"
    and ar: "sh_addralign (sb_section (rodata_builder b)) = kPageSize"
    and ab: "sh_addralign (sb_section (bss_builder b)) = kPageSize"
    and ad: "sh_addralign (sb_section (dynamic_builder b)) = kPageSize"
    and sz: "IsAlignedParam (oat_size (rodata_builder b)) kPageSize"
    and ns: "\<not> add_symbols b"
    and no: "FindRawSection b ''.eh_frame_hdr'' = None"
    and s1: "SymtabGetSize (dynsym_builder b) * sizeof_Sym T < 2 ^ LENGTH('w)"
    and s3: "DynamicGetSize (dynamic_builder b) * sizeof_Dyn T < 2 ^ LENGTH('w)"
    and af: "accepts f = (\<lambda>_ _. True)"
  shows "\<exists>b1 b2 loc f'. Init T b = Some (Inr b1) \<and>
     Write_prepare T b1 = Inr (b2, loc) \<and>
     WriteOutFile (w_pieces loc) f = (True, f') \<and>
     emit T b f = Some (True, b2, f') \<and>
     Write T b1 f = Inr (True, b2, f')"
proof -
  from Init_succeeds [OF l nf ar ab ad sz, of T] obtain b1 where
    i: "Init T b = Some (Inr b1)" by blast
  note fr = Init_result_frame [OF i] and la = Init_result_layout [OF i]
  have u: "unat (of_nat n :: 'w word) = n" if "n < 2 ^ LENGTH('w)" for n
    using that by (simp add: unat_of_nat)
  have g1: "SymtabGetSize (dynsym_builder b1) = SymtabGetSize (dynsym_builder b)"
    by (simp add: SymtabGetSize_def fr(14))
  have g3: "DynamicGetSize (dynamic_builder b1) = DynamicGetSize (dynamic_builder b)"
    by (simp add: DynamicGetSize_def fr(16))
  have c1: "SymtabGetSize (dynsym_builder b1) * sizeof_Sym T =
          unat (sh_size (sb_section (dynsym_builder b1)))"
    unfolding la(2) g1 by (simp only: u [OF s1])
  have c3: "DynamicGetSize (dynamic_builder b1) * sizeof_Dyn T =
          unat (sh_size (sb_section (dynamic_builder b1)))"
    unfolding la(15) g3 by (simp only: u [OF s3])
  have ns1: "\<not> add_symbols b1" using ns by (simp add: fr(2))
  have no1: "FindRawSection b1 ''.eh_frame_hdr'' = None"
    using no by (simp add: Init_raw_names(4) [OF i])
  from Write_prepare_succeeds [OF c1 c3 ns1 no1] obtain b2 loc where
    w: "Write_prepare T b1 = Inr (b2, loc)" by blast
  have "fst (WriteOutFile (w_pieces loc) f) = True"
    unfolding WriteOutFile_serve using af by (rule serve_accepting)
  then obtain f' where o: "WriteOutFile (w_pieces loc) f = (True, f')"
    by (cases "WriteOutFile (w_pieces loc) f") auto
  from emitI [OF i w o] have e: "emit T b f = Some (True, b2, f')" .
  have "Write T b1 f = Inr (True, b2, f')"
    using w o by (simp add: Write_def)
  with i w o e show ?thesis by (intro exI conjI)
qed

section \<open>The example configurations\<close>

lemma example_ctor:
  "ElfBuilder_ctor ElfTypes32 ''/tmp/foo/bar.oat'' kX86 0 4096 4096 4096 8192 4096 False =
     Inr example_builder"
proof -
  have "kX86 \<noteq> kNone" by simp
  from ctor_supported [OF this, of ElfTypes32 "''/tmp/foo/bar.oat''" 0 "4096 :: 32 word"
      4096 4096 8192 4096 False]
  obtain b where "ElfBuilder_ctor ElfTypes32 ''/tmp/foo/bar.oat'' kX86 0 4096 4096 4096 8192
      (4096 :: 32 word) False = Inr b" by blast
  then show ?thesis by (simp add: example_builder_def)
qed

lemma example_fields:
  "\<not> fatal_error example_builder" "\<not> add_symbols example_builder"
  "other_builders example_builder = []"
  "elf_file_path example_builder = ''/tmp/foo/bar.oat''"
  "sh_addralign (sb_section (rodata_builder example_builder)) = kPageSize"
  "sh_addralign (sb_section (text_builder example_builder)) = kPageSize"
  "sh_addralign (sb_section (bss_builder example_builder)) = kPageSize"
  "sh_addralign (sb_section (dynamic_builder example_builder)) = kPageSize"
  "sh_addralign (sb_section (dynsym_builder example_builder)) = 4"
  "sh_addralign (sb_section (strtab (dynsym_builder example_builder))) = 1"
  "sh_addralign (sb_section (hash_builder example_builder)) = 4"
  "oat_size (rodata_builder example_builder) = 4096"
  "oat_size (text_builder example_builder) = 4096"
  "oat_size (bss_builder example_builder) = 4096"
  "sh_flags (sb_section (dynamic_builder example_builder)) = SHF_ALLOC"
  "symbols (dynsym_builder example_builder) = map symbol_state (required_symbols 4096 4096 4096)"
  using ctor_fields [OF example_ctor]
  by (simp_all add: symbols_AddSymbols ElfTypes32_def)

lemma example_dynamics:
  "length (dynamics (dynamic_builder example_builder)) = 4"
  by (simp add: dynamics_ctor [OF _ example_ctor])

lemma example_sizes:
  "SymtabGetSize (dynsym_builder example_builder) = 6"
  "DynamicGetSize (dynamic_builder example_builder) = 7"
  "DynamicGetSize (dynamic_builder example_tags_builder) = 8"
  by (simp_all add: SymtabGetSize_def DynamicGetSize_def example_fields example_dynamics
        required_symbols_def example_tags_builder_def example_tags_def dynamics_AddDynamicTags
        DT_NULL_def)

lemma example_emit:
  "\<exists>b1 b2 loc f'. Init ElfTypes32 example_builder = Some (Inr b1) \<and>
     Write_prepare ElfTypes32 b1 = Inr (b2, loc) \<and>
     WriteOutFile (w_pieces loc) accepting_file = (True, f') \<and>
     emit ElfTypes32 example_builder accepting_file = Some (True, b2, f') \<and>
     Write ElfTypes32 b1 accepting_file = Inr (True, b2, f')"
  by (rule emit_succeeds)
    (simp_all add: example_fields example_sizes IsAlignedParam_def kPageSize_def
       FindRawSection_def ElfTypes32_def accepting_file_def)

lemma example_Init: "\<exists>b1. Init ElfTypes32 example_builder = Some (Inr b1)"
  using example_emit by blast

lemma example_Write_prepare:
  assumes "Init ElfTypes32 example_builder = Some (Inr b1)"
  shows "\<exists>b2 loc. Write_prepare ElfTypes32 b1 = Inr (b2, loc)"
  using example_emit assms by auto

lemma example_tags_emit:
  "\<exists>b1 b2 loc f'. Init ElfTypes32 example_tags_builder = Some (Inr b1) \<and>
     Write_prepare ElfTypes32 b1 = Inr (b2, loc) \<and>
     WriteOutFile (w_pieces loc) accepting_file = (True, f') \<and>
     emit ElfTypes32 example_tags_builder accepting_file = Some (True, b2, f') \<and>
     Write ElfTypes32 b1 accepting_file = Inr (True, b2, f')"
proof (rule emit_succeeds)
  show "SymtabGetSize (dynsym_builder example_tags_builder) * sizeof_Sym ElfTypes32 < 2 ^ LENGTH(32)"
    by (simp add: example_tags_builder_def example_sizes ElfTypes32_def)
  show "DynamicGetSize (dynamic_builder example_tags_builder) * sizeof_Dyn ElfTypes32 < 2 ^ LENGTH(32)"
    by (simp add: example_sizes ElfTypes32_def)
qed (simp_all add: example_tags_builder_def example_fields IsAlignedParam_def kPageSize_def
       FindRawSection_def accepting_file_def)

lemma example_raw_fields:
  "other_builders example_raw_builder = [0, 0]"
  "sb_name (raw_objects example_raw_builder 0) = ''.debug_info''"
  "buf (raw_objects example_raw_builder 0) = [1, 2, 3]"
  "sh_flags (sb_section (raw_objects example_raw_builder 0)) = 0"
  "sh_addralign (sb_section (raw_objects example_raw_builder 0)) = 1"
  by (simp_all add: example_raw_builder_def configure_def RegisterRawSection_def example_fields
        SetBuffer_def ElfRawSectionBuilder_ctor_def ElfSectionBuilder_ctor_def
        ElfSectionBuilder.extend_def ElfRawSectionBuilder.fields_def zero_Shdr_def)

lemma example_raw_emit:
  "\<exists>b1 b2 loc f'. Init ElfTypes32 example_raw_builder = Some (Inr b1) \<and>
     Write_prepare ElfTypes32 b1 = Inr (b2, loc) \<and>
     WriteOutFile (w_pieces loc) accepting_file = (True, f') \<and>
     emit ElfTypes32 example_raw_builder accepting_file = Some (True, b2, f') \<and>
     Write ElfTypes32 b1 accepting_file = Inr (True, b2, f')"
proof (rule emit_succeeds)
  show "FindRawSection example_raw_builder ''.eh_frame_hdr'' = None"
    by (simp add: FindRawSection_def example_raw_fields)
  show "SymtabGetSize (dynsym_builder example_raw_builder) * sizeof_Sym ElfTypes32 < 2 ^ LENGTH(32)"
    by (simp add: example_raw_builder_def example_sizes ElfTypes32_def)
  show "DynamicGetSize (dynamic_builder example_raw_builder) * sizeof_Dyn ElfTypes32 < 2 ^ LENGTH(32)"
    by (simp add: example_raw_builder_def example_sizes ElfTypes32_def)
qed (simp_all add: example_raw_builder_def example_fields IsAlignedParam_def kPageSize_def
       accepting_file_def)

lemma example_alloc_fields:
  "other_builders example_alloc_builder = [0, 0]"
  "sb_name (raw_objects example_alloc_builder 0) = ''.eh_frame''"
  "sh_flags (sb_section (raw_objects example_alloc_builder 0)) = SHF_ALLOC"
  by (simp_all add: example_alloc_builder_def configure_def RegisterRawSection_def example_fields
        SetBuffer_def ElfRawSectionBuilder_ctor_def ElfSectionBuilder_ctor_def
        ElfSectionBuilder.extend_def ElfRawSectionBuilder.fields_def zero_Shdr_def)

lemma example_alloc_emit:
  "\<exists>b1 b2 loc f'. Init ElfTypes32 example_alloc_builder = Some (Inr b1) \<and>
     Write_prepare ElfTypes32 b1 = Inr (b2, loc) \<and>
     WriteOutFile (w_pieces loc) accepting_file = (True, f') \<and>
     emit ElfTypes32 example_alloc_builder accepting_file = Some (True, b2, f') \<and>
     Write ElfTypes32 b1 accepting_file = Inr (True, b2, f')"
proof (rule emit_succeeds)
  show "FindRawSection example_alloc_builder ''.eh_frame_hdr'' = None"
    by (simp add: FindRawSection_def example_alloc_fields)
  show "SymtabGetSize (dynsym_builder example_alloc_builder) * sizeof_Sym ElfTypes32 < 2 ^ LENGTH(32)"
    by (simp add: example_alloc_builder_def example_sizes ElfTypes32_def)
  show "DynamicGetSize (dynamic_builder example_alloc_builder) * sizeof_Dyn ElfTypes32 < 2 ^ LENGTH(32)"
    by (simp add: example_alloc_builder_def example_sizes ElfTypes32_def)
qed (simp_all add: example_alloc_builder_def example_fields IsAlignedParam_def kPageSize_def
       accepting_file_def)


section \<open>The string table and the file name\<close>

lemma strtab_loop_tab:
  "snd (strtab_loop syms tab) = tab @ concat (map (\<lambda>s. sym_name s @ [NUL]) syms)"
  by (induction syms arbitrary: tab) (simp_all add: Let_def split_beta)

lemma GenerateStrtab_tab:
  "fst (GenerateStrtab sb) = NUL # concat (map (\<lambda>s. sym_name s @ [NUL]) (symbols sb))"
  by (simp add: GenerateStrtab_def Let_def split_beta strtab_loop_tab)

lemma rfind_below_snoc:
  "n \<le> length xs \<Longrightarrow> rfind_below (xs @ [x]) c n = rfind_below xs c n"
  by (induction n) (simp_all add: nth_append)

lemma rfind_snoc:
  "rfind (xs @ [x]) c = (if x = c then Some (length xs) else rfind xs c)"
  by (simp add: rfind_def rfind_below_snoc)

lemma rfind_below_less: "rfind_below xs c n = Some pos \<Longrightarrow> pos < n"
  by (induction n) (auto split: if_splits)

lemma rfind_less: "rfind xs c = Some pos \<Longrightarrow> pos < length xs"
  unfolding rfind_def by (rule rfind_below_less)

lemma basename_src_snoc:
  "basename_src (xs @ [x]) = (if x = CHR ''/'' then [] else basename_src xs @ [x])"
  by (auto simp: basename_src_def rfind_snoc substr_def dest: rfind_less split: option.splits)

lemma basename_src_spec: "basename_src path = basename_spec path"
proof (induction path rule: rev_induct)
  case Nil
  then show ?case by (simp add: basename_src_def basename_spec_def rfind_def)
next
  case (snoc x xs)
  then show ?case by (simp add: basename_src_snoc) (simp add: basename_spec_def)
qed

section \<open>The layout of the example\<close>

text \<open>A builder that shares with the example its path and its builders, and has no
  allocatable raw section, has the layout of the example.\<close>

lemma example_like_dynstr:
  assumes "Init ElfTypes32 b = Some (Inr b1)"
    and "dynsym_builder b = dynsym_builder example_builder"
    and "elf_file_path b = elf_file_path example_builder"
  shows "dynstr b1 = NUL # ''oatdata'' @ NUL # ''oatexec'' @ NUL # ''oatlastword'' @ NUL #
           ''oatbss'' @ NUL # ''oatbsslastword'' @ NUL # ''bar.oat'' @ [NUL]"
    and "dynstr_soname_offset b1 = 51"
  using Init_result_frame(8,9) [OF assms(1)]
  by (simp_all add: assms(2,3) GenerateStrtab_tab example_fields symbol_state_def
        required_symbols_def basename_src_spec basename_spec_def)

lemma example_dynstr:
  assumes "Init ElfTypes32 example_builder = Some (Inr b1)"
  shows "dynstr b1 = NUL # ''oatdata'' @ NUL # ''oatexec'' @ NUL # ''oatlastword'' @ NUL #
           ''oatbss'' @ NUL # ''oatbsslastword'' @ NUL # ''bar.oat'' @ [NUL]"
    and "dynstr_soname_offset b1 = 51"
  by (rule example_like_dynstr [OF assms refl refl])+

lemma RoundUp_numeral:
  "RoundUp (276 :: 32 word) 4 = 276" "RoundUp (372 :: 32 word) 1 = 372"
  "RoundUp (431 :: 32 word) 4 = 432" "RoundUp (472 :: 32 word) 4096 = 4096"
  "RoundUp (8192 :: 32 word) 4096 = 8192" "RoundUp (12288 :: 32 word) 4096 = 12288"
  "RoundUp (16384 :: 32 word) 4096 = 16384"
  by (simp_all add: RoundUp_def RoundUp_nat_def)

lemma example_like_layout:
  assumes "Init ElfTypes32 b = Some (Inr b1)"
    and same: "dynsym_builder b = dynsym_builder example_builder"
      "elf_file_path b = elf_file_path example_builder"
      "hash_builder b = hash_builder example_builder"
      "rodata_builder b = rodata_builder example_builder"
      "text_builder b = text_builder example_builder"
      "bss_builder b = bss_builder example_builder"
      "sb_section (dynamic_builder b) = sb_section (dynamic_builder example_builder)"
    and na: "\<forall>p\<in>set (other_builders b). sh_flags (sb_section (raw_objects b p)) AND SHF_ALLOC = 0"
    and nd: "length (dynamics (dynamic_builder b)) = n"
  shows "sh_offset (sb_section (dynsym_builder b1)) = 276"
    "sh_offset (sb_section (strtab (dynsym_builder b1))) = 372"
    "sh_offset (sb_section (hash_builder b1)) = 432"
    "sh_offset (sb_section (rodata_builder b1)) = 4096"
    "sh_offset (sb_section (text_builder b1)) = 8192"
    "sh_offset (sb_section (bss_builder b1)) = 12288"
    "sh_offset (sb_section (dynamic_builder b1)) = 12288"
    "sh_addr (sb_section (dynamic_builder b1)) = 16384"
    "sh_size (sb_section (dynamic_builder b1)) = of_nat ((n + 3) * 8)"
    "sh_flags (sb_section (dynamic_builder b1)) = SHF_ALLOC"
proof -
  note f = Init_result_frame [OF assms(1)] and l = Init_result_layout [OF assms(1)]
  have n: "length (required_symbols (4096 :: 32 word) 4096 4096) = 5"
    by (simp add: required_symbols_def)
  from GenerateHashContents_succeeds [of "dynsym_builder example_builder"] f(7)
  have h: "length (hash b1) = 10"
    by (auto simp: same example_fields n select_nbuckets_def)
  have ds: "length (dynstr b1) = 59"
    by (simp add: example_like_dynstr(1) [OF assms(1) same(1,2)])
  show o1: "sh_offset (sb_section (dynsym_builder b1)) = 276"
    by (simp add: l(1) same example_fields ElfTypes32_def PHDR_SIZE_def PH_NUM_def RoundUp_numeral)
  have s1: "sh_size (sb_section (dynsym_builder b1)) = 96"
    by (simp add: l(2) SymtabGetSize_def same example_fields n ElfTypes32_def)
  show o2: "sh_offset (sb_section (strtab (dynsym_builder b1))) = 372"
    by (simp add: l(3) o1 s1 same example_fields RoundUp_numeral)
  have s2: "sh_size (sb_section (strtab (dynsym_builder b1))) = 59"
    by (simp add: l(4) ds)
  show o3: "sh_offset (sb_section (hash_builder b1)) = 432"
    by (simp add: l(5) o2 s2 same example_fields RoundUp_numeral)
  have s3: "sh_size (sb_section (hash_builder b1)) = 40"
    by (simp add: l(6) h ElfTypes32_def)
  show o4: "sh_offset (sb_section (rodata_builder b1)) = 4096"
    by (simp add: l(7) [OF na] o3 s3 same example_fields RoundUp_numeral kPageSize_def)
  have s4: "sh_size (sb_section (rodata_builder b1)) = 4096"
    by (simp add: l(8) same example_fields)
  show o5: "sh_offset (sb_section (text_builder b1)) = 8192"
    by (simp add: l(9) o4 s4 same example_fields RoundUp_numeral kPageSize_def)
  have s5: "sh_size (sb_section (text_builder b1)) = 4096"
    by (simp add: l(10) same example_fields)
  show o6: "sh_offset (sb_section (bss_builder b1)) = 12288"
    by (simp add: l(11) o5 s5 same example_fields RoundUp_numeral kPageSize_def)
  have s6: "sh_size (sb_section (bss_builder b1)) = 4096"
    by (simp add: l(12) same example_fields)
  show "sh_offset (sb_section (dynamic_builder b1)) = 12288"
    by (simp add: l(13) o6)
  show "sh_addr (sb_section (dynamic_builder b1)) = 16384"
    by (simp add: l(14) o6 s6 same example_fields RoundUp_numeral kPageSize_def)
  show "sh_size (sb_section (dynamic_builder b1)) = of_nat ((n + 3) * 8)"
    by (simp add: l(15) DynamicGetSize_def nd ElfTypes32_def)
  show "sh_flags (sb_section (dynamic_builder b1)) = SHF_ALLOC"
    by (simp add: l(28) same example_fields)
qed

lemma example_layout:
  assumes "Init ElfTypes32 example_builder = Some (Inr b1)"
  shows "sh_offset (sb_section (dynsym_builder b1)) = 276"
    "sh_offset (sb_section (strtab (dynsym_builder b1))) = 372"
    "sh_offset (sb_section (hash_builder b1)) = 432"
    "sh_offset (sb_section (rodata_builder b1)) = 4096"
    "sh_offset (sb_section (text_builder b1)) = 8192"
    "sh_offset (sb_section (bss_builder b1)) = 12288"
    "sh_offset (sb_section (dynamic_builder b1)) = 12288"
    "sh_addr (sb_section (dynamic_builder b1)) = 16384"
    "sh_size (sb_section (dynamic_builder b1)) = 56"
    "sh_flags (sb_section (dynamic_builder b1)) = SHF_ALLOC"
proof -
  have na: "\<forall>p\<in>set (other_builders example_builder).
      sh_flags (sb_section (raw_objects example_builder p)) AND SHF_ALLOC = 0"
    by (simp add: example_fields)
  note l = example_like_layout [OF assms refl refl refl refl refl refl refl na example_dynamics]
  show "sh_offset (sb_section (dynsym_builder b1)) = 276"
    "sh_offset (sb_section (strtab (dynsym_builder b1))) = 372"
    "sh_offset (sb_section (hash_builder b1)) = 432"
    "sh_offset (sb_section (rodata_builder b1)) = 4096"
    "sh_offset (sb_section (text_builder b1)) = 8192"
    "sh_offset (sb_section (bss_builder b1)) = 12288"
    "sh_offset (sb_section (dynamic_builder b1)) = 12288"
    "sh_addr (sb_section (dynamic_builder b1)) = 16384"
    "sh_flags (sb_section (dynamic_builder b1)) = SHF_ALLOC"
    by (rule l)+
  show "sh_size (sb_section (dynamic_builder b1)) = 56"
    using l(9) by simp
qed

lemma example_tags_layout:
  assumes "Init ElfTypes32 example_tags_builder = Some (Inr b1)"
  shows "sh_offset (sb_section (dynamic_builder b1)) = 12288"
    "sh_addr (sb_section (dynamic_builder b1)) = 16384"
    "sh_size (sb_section (dynamic_builder b1)) = 64"
    "sh_addr (sb_section (hash_builder b1)) = 432"
    "sh_addr (sb_section (strtab (dynsym_builder b1))) = 372"
    "sh_addr (sb_section (dynsym_builder b1)) = 276"
proof -
  have na: "\<forall>p\<in>set (other_builders example_tags_builder).
      sh_flags (sb_section (raw_objects example_tags_builder p)) AND SHF_ALLOC = 0"
    by (simp add: example_tags_builder_def example_fields)
  have nd: "length (dynamics (dynamic_builder example_tags_builder)) = 5"
    using example_sizes(3) by (simp add: DynamicGetSize_def)
  have s: "dynsym_builder example_tags_builder = dynsym_builder example_builder"
    "elf_file_path example_tags_builder = elf_file_path example_builder"
    "hash_builder example_tags_builder = hash_builder example_builder"
    "rodata_builder example_tags_builder = rodata_builder example_builder"
    "text_builder example_tags_builder = text_builder example_builder"
    "bss_builder example_tags_builder = bss_builder example_builder"
    "sb_section (dynamic_builder example_tags_builder) =
       sb_section (dynamic_builder example_builder)"
    by (simp_all add: example_tags_builder_def)
  note l = example_like_layout [OF assms s na nd]
    and il = Init_result_layout [OF assms]
  show "sh_offset (sb_section (dynamic_builder b1)) = 12288"
    "sh_addr (sb_section (dynamic_builder b1)) = 16384"
    by (rule l)+
  show "sh_size (sb_section (dynamic_builder b1)) = 64" using l(9) by simp
  show "sh_addr (sb_section (hash_builder b1)) = 432"
    "sh_addr (sb_section (strtab (dynsym_builder b1))) = 372"
    "sh_addr (sb_section (dynsym_builder b1)) = 276"
    by (simp_all add: il(16-18) l)
qed

lemma example_raw_layout:
  assumes "Init ElfTypes32 example_raw_builder = Some (Inr b1)"
  shows "sh_offset (sb_section (dynamic_builder b1)) = 12288"
    "sh_size (sb_section (dynamic_builder b1)) = 56"
proof -
  have na: "\<forall>p\<in>set (other_builders example_raw_builder).
      sh_flags (sb_section (raw_objects example_raw_builder p)) AND SHF_ALLOC = 0"
    by (simp add: example_raw_fields)
  have nd: "length (dynamics (dynamic_builder example_raw_builder)) = 4"
    by (simp add: example_raw_builder_def example_dynamics)
  have s: "dynsym_builder example_raw_builder = dynsym_builder example_builder"
    "elf_file_path example_raw_builder = elf_file_path example_builder"
    "hash_builder example_raw_builder = hash_builder example_builder"
    "rodata_builder example_raw_builder = rodata_builder example_builder"
    "text_builder example_raw_builder = text_builder example_builder"
    "bss_builder example_raw_builder = bss_builder example_builder"
    "sb_section (dynamic_builder example_raw_builder) =
       sb_section (dynamic_builder example_builder)"
    by (simp_all add: example_raw_builder_def)
  note l = example_like_layout [OF assms s na nd]
  show "sh_offset (sb_section (dynamic_builder b1)) = 12288" by (rule l)
  show "sh_size (sb_section (dynamic_builder b1)) = 56" using l(9) by simp
qed

lemma RoundUp_1: "RoundUp x 1 = x"
  by (simp add: RoundUp_def RoundUp_nat_def)

lemma Write_prepare_raw:
  assumes "Write_prepare T b = Inr (b2, loc)"
  shows "raw_objects b2 = raw_objects (fst (Write_layout T b))"
    and "other_builders b2 = other_builders b"
    and "section_ptrs b2 = section_ptrs (fst (Write_layout T b))"
proof -
  from Write_prepare_Inr(1) [OF assms] obtain f where
    b2: "b2 = Write_ehdr T (snd (snd (Write_layout T b)))
                  (upd_phdr PH_EH_FRAME_HDR f (Write_program_headers (fst (Write_layout T b))))"
    by blast
  show "raw_objects b2 = raw_objects (fst (Write_layout T b))"
    "other_builders b2 = other_builders b"
    "section_ptrs b2 = section_ptrs (fst (Write_layout T b))"
    unfolding b2 by simp_all
qed

lemma Write_other_sections_addralign [simp]:
  "sh_addralign (sb_section (raw_objects (Write_other_sections ps b) q)) =
     sh_addralign (sb_section (raw_objects b q))"
  by (induction ps arbitrary: b) (simp_all add: setup_other_effect)

lemma Init_raw_addralign:
  assumes "Init T b = Some (Inr b1)"
  shows "sh_addralign (sb_section (raw_objects b1 q)) = sh_addralign (sb_section (raw_objects b q))"
proof -
  from Init_result_layout(30) [OF assms] obtain prev b' where
    b': "raw_objects b' = raw_objects b"
    and r: "raw_objects b1 = raw_objects (fst (layout_raw_alloc prev (other_builders b) b'))"
    by blast
  have "sh_addralign (sb_section (raw_objects (fst (layout_raw_alloc prev ps b')) q)) =
      sh_addralign (sb_section (raw_objects b' q))" for ps
    by (induction ps arbitrary: prev b') (simp_all add: Let_def upd_other_def)
  then show ?thesis by (simp add: r b')
qed

lemma example_raw_pieces:
  assumes i: "Init ElfTypes32 example_raw_builder = Some (Inr b1)"
    and w: "Write_prepare ElfTypes32 b1 = Inr (b2, loc)"
  shows "other_builders b2 = [0, 0]"
    and "sh_offset (sb_section (raw_objects b2 0)) = 12347"
    and "sb_name (raw_objects b2 0) = ''.debug_info''"
    and "buf (raw_objects b2 0) = [1, 2, 3]"
proof -
  note r = Write_prepare_raw [OF w] and n = Init_raw_names [OF i]
    and la = Init_result_layout [OF i] and fr = Init_result_frame [OF i]
    and l = example_raw_layout [OF i]
  have ob: "other_builders b1 = [0, 0]" by (simp add: la(33) example_raw_fields)
  show "other_builders b2 = [0, 0]" by (simp add: r(2) ob)
  show "sb_name (raw_objects b2 0) = ''.debug_info''"
    by (simp add: r(1) n example_raw_fields)
  show "buf (raw_objects b2 0) = [1, 2, 3]"
    by (simp add: r(1) n example_raw_fields)
  have na: "\<not> add_symbols b1"
    by (simp add: fr(2) example_raw_builder_def example_fields)
  have d: "Write_debug_sections b1 = (b1, [])"
    by (simp add: Write_debug_sections_def IncludingDebugSymbols_def na)
  have fl: "sh_flags (sb_section (raw_objects b1 0)) = 0"
    by (simp add: n example_raw_fields)
  have al: "sh_addralign (sb_section (raw_objects b1 0)) = 1"
    by (simp add: Init_raw_addralign [OF i] example_raw_fields)
  have bf: "buf (raw_objects b1 0) = [1, 2, 3]" by (simp add: n example_raw_fields)
  show "sh_offset (sb_section (raw_objects b2 0)) = 12347"
    unfolding r(1)
    by (simp add: Write_layout_def Let_def split_beta d ob na
          IncludingDebugSymbols_def fl al bf l upd_other_def NextOffset_def RoundUp_1
          setup_other_effect)
qed


section \<open>The emitted file\<close>

text \<open>
  Claim C3.  In every emitted file \<open>e_phnum\<close> is 7 if the configured size of \<^verbatim>\<open>.bss\<close> is not
  zero and 6 if it is; so it is 7 if and only if that size is not zero.  The pieces that
  \<^verbatim>\<open>Write\<close> commits start with the ELF header and the program headers: all seven in one
  piece in the first case; in the second the first three, and then, right behind them in
  the file, the three that follow the slot of the \<^verbatim>\<open>.bss\<close> segment.
\<close>

theorem e_phnum_correct:
  assumes "emit T b0 f = Some (ok, b2, f')"
  shows "e_phnum (elf_header b2) = (if oat_size (bss_builder b0) \<noteq> 0 then 7 else 6) \<and>
    (e_phnum (elf_header b2) = 7) = (oat_size (bss_builder b0) \<noteq> 0) \<and>
    (\<exists>b1 loc rest.
       Init T b0 = Some (Inr b1) \<and> Write_prepare T b1 = Inr (b2, loc) \<and>
       WriteOutFile (w_pieces loc) f = (ok, f') \<and>
       w_pieces loc =
         ElfFileMemoryPiece ''Elf Header'' 0 M_elf_header (of_nat (sizeof_Ehdr T)) #
         (if oat_size (bss_builder b0) \<noteq> 0
          then [ElfFileMemoryPiece ''Program headers'' (of_nat (PHDR_OFFSET T))
                  (M_program_headers 0) (of_nat (7 * sizeof_Phdr T))]
          else [ElfFileMemoryPiece ''Program headers'' (of_nat (PHDR_OFFSET T))
                  (M_program_headers 0) (of_nat (3 * sizeof_Phdr T)),
                ElfFileMemoryPiece ''Program headers part 2''
                  (of_nat (PHDR_OFFSET T) + of_nat (3 * sizeof_Phdr T))
                  (M_program_headers 4) (of_nat (3 * sizeof_Phdr T))]) @ rest)"
proof -
  from emit_Some [OF assms] obtain b1 loc where i: "Init T b0 = Some (Inr b1)"
    and w: "Write_prepare T b1 = Inr (b2, loc)"
    and o: "WriteOutFile (w_pieces loc) f = (ok, f')" by blast
  note fr = Write_prepare_frame [OF w]
  have bss: "sh_size (sb_section (bss_builder b1)) = oat_size (bss_builder b0)"
    by (rule Init_result_layout(12) [OF i])
  have ph: "e_phnum (elf_header b2) = (if oat_size (bss_builder b0) \<noteq> 0 then 7 else 6)"
    using fr(14) by (simp add: bss PH_NUM_def)
  have ph2: "e_phnum (elf_header b2) =
       (if sh_size (sb_section (bss_builder b2)) \<noteq> 0 then of_nat PH_NUM else of_nat (PH_NUM - 1))"
    using fr(14) by (simp add: fr(5))
  from Write_prepare_Inr(5) [OF w] obtain pp where
    pp: "program_header_pieces T b2 = Inr pp"
    and ps: "w_pieces loc = Write_pieces T b2 (w_strtab loc) (w_dynsym loc) (w_symtab loc)
               (w_sections_offset loc) pp" by blast
  from program_header_pieces_cases [OF ph2, of T] pp
  have ppv: "pp = (if oat_size (bss_builder b0) \<noteq> 0
          then [ElfFileMemoryPiece ''Program headers'' (of_nat (PHDR_OFFSET T))
                  (M_program_headers 0) (of_nat (7 * sizeof_Phdr T))]
          else [ElfFileMemoryPiece ''Program headers'' (of_nat (PHDR_OFFSET T))
                  (M_program_headers 0) (of_nat (3 * sizeof_Phdr T)),
                ElfFileMemoryPiece ''Program headers part 2''
                  (of_nat (PHDR_OFFSET T) + of_nat (3 * sizeof_Phdr T))
                  (M_program_headers 4) (of_nat (3 * sizeof_Phdr T))])"
    by (simp add: fr(5) bss)
  have "\<exists>rest. w_pieces loc =
      ElfFileMemoryPiece ''Elf Header'' 0 M_elf_header (of_nat (sizeof_Ehdr T)) # pp @ rest"
    unfolding ps Write_pieces_def by simp
  with i w o ph ppv show ?thesis by auto
qed

text \<open>The theorem at the example: three sections of 4096 bytes, seven program headers.\<close>

theorem e_phnum_correct_witness:
  "(case emit ElfTypes32 example_builder accepting_file of
      Some (ok, b2, f') \<Rightarrow> ok \<and> e_phnum (elf_header b2) = 7
    | None \<Rightarrow> False)"
proof -
  from example_emit obtain b2 f' where
    e: "emit ElfTypes32 example_builder accepting_file = Some (True, b2, f')" by blast
  from e_phnum_correct [OF e] have "e_phnum (elf_header b2) = 7"
    by (simp add: example_fields)
  with e show ?thesis by simp
qed


section \<open>The commit\<close>

lemma serve_fst:
  "fst (serve evs f) \<longleftrightarrow> (\<forall>n<length evs. accepts f (events f @ take n evs) (evs ! n))"
proof (induction evs arbitrary: f)
  case Nil
  then show ?case by simp
next
  case (Cons ev evs)
  show ?case
  proof (cases "accepts f (events f) ev")
    case True
    then have r: "request ev f = (True, f\<lparr>events := events f @ [ev]\<rparr>)"
      by (simp add: request_def)
    have "fst (serve (ev # evs) f) = fst (serve evs (f\<lparr>events := events f @ [ev]\<rparr>))"
      by (simp add: r)
    also have "\<dots> = (\<forall>n<length evs. accepts f (events f @ ev # take n evs) (evs ! n))"
      by (simp add: Cons.IH)
    also have "\<dots> = (\<forall>n<length (ev # evs). accepts f (events f @ take n (ev # evs)) ((ev # evs) ! n))"
      using True by (simp add: All_less_Suc2)
    finally show ?thesis .
  next
    case False
    then have "request ev f = (False, f)" by (simp add: request_def)
    then have "\<not> fst (serve (ev # evs) f)" by simp
    moreover have "\<not> (\<forall>n<length (ev # evs). accepts f (events f @ take n (ev # evs)) ((ev # evs) ! n))"
      using False by (auto intro: exI [of _ 0])
    ultimately show ?thesis by simp
  qed
qed

lemma serve_events:
  "\<exists>k\<le>length evs. events (snd (serve evs f)) = events f @ take k evs \<and>
       (if fst (serve evs f) then k = length evs
        else k < length evs \<and> \<not> accepts f (events f @ take k evs) (evs ! k))"
proof (cases "serve evs f")
  case (Pair ok f')
  show ?thesis
  proof (cases ok)
    case True
    with Pair have "serve evs f = (True, f')" by simp
    from serve_True [OF this] Pair True show ?thesis by (intro exI [of _ "length evs"]) simp
  next
    case False
    with Pair have "serve evs f = (False, f')" by simp
    from serve_False [OF this] obtain pre ev post where
      "evs = pre @ ev # post" "events f' = events f @ pre"
      "\<not> accepts f (events f @ pre) ev" by blast
    with Pair False show ?thesis by (intro exI [of _ "length pre"]) simp
  qed
qed

lemma Write_prepare_pieces:
  assumes "Write_prepare T b = Inr (b2, loc)"
  shows "\<exists>pp. program_header_pieces T b2 = Inr pp \<and>
           w_pieces loc = Write_pieces T b2 (w_strtab loc) (w_dynsym loc) (w_symtab loc)
             (w_sections_offset loc) pp \<and>
           pp = (if sh_size (sb_section (bss_builder b)) \<noteq> 0
                 then [ElfFileMemoryPiece ''Program headers'' (of_nat (PHDR_OFFSET T))
                         (M_program_headers 0) (of_nat (7 * sizeof_Phdr T))]
                 else [ElfFileMemoryPiece ''Program headers'' (of_nat (PHDR_OFFSET T))
                         (M_program_headers 0) (of_nat (3 * sizeof_Phdr T)),
                       ElfFileMemoryPiece ''Program headers part 2''
                         (of_nat (PHDR_OFFSET T) + of_nat (3 * sizeof_Phdr T))
                         (M_program_headers 4) (of_nat (3 * sizeof_Phdr T))])"
proof -
  note fr = Write_prepare_frame [OF assms]
  have ph2: "e_phnum (elf_header b2) =
       (if sh_size (sb_section (bss_builder b2)) \<noteq> 0 then of_nat PH_NUM else of_nat (PH_NUM - 1))"
    using fr(14) by (simp add: fr(5))
  from Write_prepare_Inr(5) [OF assms] obtain pp where
    pp: "program_header_pieces T b2 = Inr pp"
    and ps: "w_pieces loc = Write_pieces T b2 (w_strtab loc) (w_dynsym loc) (w_symtab loc)
               (w_sections_offset loc) pp" by blast
  from program_header_pieces_cases [OF ph2, of T] pp ps show ?thesis
    by (simp add: fr(5))
qed

lemma example_seeks:
  assumes i: "Init ElfTypes32 example_builder = Some (Inr b1)"
    and w: "Write_prepare ElfTypes32 b1 = Inr (b2, loc)"
  shows "take 4 (seek_offsets (concat (map piece_events (w_pieces loc)))) = [0, 52, 12288, 276]"
proof -
  note fr = Write_prepare_frame [OF w] and l = example_layout [OF i]
  have bss: "sh_size (sb_section (bss_builder b1)) = 4096"
    using Init_result_layout(12) [OF i] by (simp add: example_fields)
  from Write_prepare_pieces [OF w] obtain pp where
    ps: "w_pieces loc = Write_pieces ElfTypes32 b2 (w_strtab loc) (w_dynsym loc) (w_symtab loc)
               (w_sections_offset loc) pp"
    and pp: "pp = [ElfFileMemoryPiece ''Program headers'' (of_nat (PHDR_OFFSET ElfTypes32))
                         (M_program_headers 0) (of_nat (7 * sizeof_Phdr ElfTypes32))]"
    by (auto simp: bss)
  show ?thesis
    unfolding ps pp Write_pieces_def
    by (simp add: fr l PHDR_OFFSET_def ElfTypes32_def)
qed

text \<open>
  Claim C6, as the specification states it, at the example.  The pieces are not sorted:
  the file is positioned at 0 for the ELF header, at 52 for the program headers, then at
  12288 for \<^verbatim>\<open>.dynamic\<close> and only then at 276 for \<^verbatim>\<open>.dynsym\<close>.
\<close>

theorem emitted_seeks_not_ascending:
  "take 4 (emitted_seeks ElfTypes32 example_builder accepting_file) = [0, 52, 12288, 276] \<and>
   \<not> sorted (emitted_seeks ElfTypes32 example_builder accepting_file)"
proof -
  from example_emit obtain b1 b2 loc f' where i: "Init ElfTypes32 example_builder = Some (Inr b1)"
    and w: "Write_prepare ElfTypes32 b1 = Inr (b2, loc)"
    and o: "WriteOutFile (w_pieces loc) accepting_file = (True, f')"
    and e: "emit ElfTypes32 example_builder accepting_file = Some (True, b2, f')"
    and "Write ElfTypes32 b1 accepting_file = Inr (True, b2, f')"
    by (elim exE conjE)
  from o have "serve (concat (map piece_events (w_pieces loc))) accepting_file = (True, f')"
    by (simp add: WriteOutFile_serve)
  from serve_True [OF this]
  have ev: "events f' = concat (map piece_events (w_pieces loc))"
    by (simp add: accepting_file_def)
  have s: "emitted_seeks ElfTypes32 example_builder accepting_file =
      seek_offsets (concat (map piece_events (w_pieces loc)))"
    by (simp add: emitted_seeks_def e ev)
  have t: "take 4 (emitted_seeks ElfTypes32 example_builder accepting_file) = [0, 52, 12288, 276]"
    unfolding s by (rule example_seeks [OF i w])
  have "\<not> sorted (take 4 (emitted_seeks ElfTypes32 example_builder accepting_file))"
    unfolding t by simp
  moreover have "sorted (take 4 (emitted_seeks ElfTypes32 example_builder accepting_file))"
    if "sorted (emitted_seeks ElfTypes32 example_builder accepting_file)"
    using that by (rule sorted_wrt_take)
  ultimately have "\<not> sorted (emitted_seeks ElfTypes32 example_builder accepting_file)"
    by (rule contrapos_nn)
  with t show ?thesis by simp
qed

lemma piece_events_cases:
  "piece_events p =
     (case p of
        ElfFileMemoryPiece nm offset data sz \<Rightarrow> [Seek offset, WriteFully data sz]
      | ElfFileRodataPiece offset \<Rightarrow> [Seek offset, OatWrite offset]
      | ElfFileOatTextPiece offset \<Rightarrow> [Seek offset])"
  by (cases p) simp_all

lemma Write_prepare_piece_list:
  assumes w: "Write_prepare T b = Inr (b2, loc)"
  shows "w_pieces loc =
       [ElfFileMemoryPiece ''Elf Header'' 0 M_elf_header (of_nat (sizeof_Ehdr T))] @
       (if sh_size (sb_section (bss_builder b2)) \<noteq> 0
        then [ElfFileMemoryPiece ''Program headers'' (of_nat (PHDR_OFFSET T))
                (M_program_headers 0) (of_nat (7 * sizeof_Phdr T))]
        else [ElfFileMemoryPiece ''Program headers'' (of_nat (PHDR_OFFSET T))
                (M_program_headers 0) (of_nat (3 * sizeof_Phdr T)),
              ElfFileMemoryPiece ''Program headers part 2''
                (of_nat (PHDR_OFFSET T) + of_nat (3 * sizeof_Phdr T))
                (M_program_headers 4) (of_nat (3 * sizeof_Phdr T))]) @
       [ElfFileMemoryPiece ''.dynamic'' (sh_offset (sb_section (dynamic_builder b2))) M_dynamic
          (sh_size (sb_section (dynamic_builder b2))),
        ElfFileMemoryPiece ''.dynsym'' (sh_offset (sb_section (dynsym_builder b2))) M_dynsym
          (of_nat (length (w_dynsym loc) * sizeof_Sym T)),
        ElfFileMemoryPiece ''.dynstr'' (sh_offset (sb_section (strtab (dynsym_builder b2))))
          M_dynstr (of_nat (length (dynstr b2))),
        ElfFileMemoryPiece ''.hash'' (sh_offset (sb_section (hash_builder b2))) M_hash
          (of_nat (length (hash b2) * sizeof_Word T)),
        ElfFileRodataPiece (sh_offset (sb_section (rodata_builder b2))),
        ElfFileOatTextPiece (sh_offset (sb_section (text_builder b2)))] @
       (if IncludingDebugSymbols b2
        then [ElfFileMemoryPiece ''.symtab'' (sh_offset (sb_section (symtab_builder b2)))
                M_symtab (of_nat (length (w_symtab loc) * sizeof_Sym T)),
              ElfFileMemoryPiece ''.strtab''
                (sh_offset (sb_section (strtab (symtab_builder b2)))) M_strtab
                (of_nat (length (w_strtab loc)))]
        else []) @
       [ElfFileMemoryPiece ''.shstrtab'' (sh_offset (sb_section (shstrtab_builder b2)))
          M_shstrtab (of_nat (length (shstrtab b2)))] @
       map (\<lambda>i. ElfFileMemoryPiece ''section table piece''
                   (w_sections_offset loc + of_nat (i * sizeof_Shdr T)) (M_section_ptr i)
                   (of_nat (sizeof_Shdr T)))
         [0..<length (section_ptrs b2)] @
       map (\<lambda>it. ElfFileMemoryPiece (sb_name (raw_objects b2 it))
                    (sh_offset (sb_section (raw_objects b2 it))) (M_buffer it)
                    (of_nat (length (buf (raw_objects b2 it)))))
         (other_builders b2)"
proof -
  note fr = Write_prepare_frame [OF w]
  from Write_prepare_pieces [OF w] obtain pp where
    ps: "w_pieces loc = Write_pieces T b2 (w_strtab loc) (w_dynsym loc) (w_symtab loc)
             (w_sections_offset loc) pp"
    and pp: "pp = (if sh_size (sb_section (bss_builder b)) \<noteq> 0
                 then [ElfFileMemoryPiece ''Program headers'' (of_nat (PHDR_OFFSET T))
                         (M_program_headers 0) (of_nat (7 * sizeof_Phdr T))]
                 else [ElfFileMemoryPiece ''Program headers'' (of_nat (PHDR_OFFSET T))
                         (M_program_headers 0) (of_nat (3 * sizeof_Phdr T)),
                       ElfFileMemoryPiece ''Program headers part 2''
                         (of_nat (PHDR_OFFSET T) + of_nat (3 * sizeof_Phdr T))
                         (M_program_headers 4) (of_nat (3 * sizeof_Phdr T))])"
    by blast
  show ?thesis
    unfolding ps pp Write_pieces_def section_table_pieces_def raw_section_pieces_def fr(5)
    by (rule refl)
qed

text \<open>
  Claim C6, amended.  \<^verbatim>\<open>Write\<close> does not sort the pieces.  It commits them in the order in
  which it put them in the list: the ELF header, the program headers (in one piece, or in
  two around the slot of the \<^verbatim>\<open>.bss\<close> segment), \<^verbatim>\<open>.dynamic\<close>, \<^verbatim>\<open>.dynsym\<close>, \<^verbatim>\<open>.dynstr\<close>, \<^verbatim>\<open>.hash\<close>,
  \<^verbatim>\<open>.rodata\<close>, \<^verbatim>\<open>.text\<close>, the debug tables if there are any, \<^verbatim>\<open>.shstrtab\<close>, the section
  headers in the order of the section table, and the raw sections in the order of their
  registration.  For each piece in that order it seeks to the offset of the piece and then
  writes its bytes fully (the code producer writes at \<^verbatim>\<open>.rodata\<close>, and nothing is written at
  \<^verbatim>\<open>.text\<close>).  \<^verbatim>\<open>Write\<close> returns true if and only if the file serves every one of these
  requests; if not, the requests before the first refused one are all the file has seen,
  and \<^verbatim>\<open>Write\<close> returns false.
\<close>

theorem Write_commits_in_order:
  assumes "Write T b f = Inr (ok, b2, f')"
  shows "\<exists>loc reqs k.
     Write_prepare T b = Inr (b2, loc) \<and>
     w_pieces loc =
       [ElfFileMemoryPiece ''Elf Header'' 0 M_elf_header (of_nat (sizeof_Ehdr T))] @
       (if sh_size (sb_section (bss_builder b2)) \<noteq> 0
        then [ElfFileMemoryPiece ''Program headers'' (of_nat (PHDR_OFFSET T))
                (M_program_headers 0) (of_nat (7 * sizeof_Phdr T))]
        else [ElfFileMemoryPiece ''Program headers'' (of_nat (PHDR_OFFSET T))
                (M_program_headers 0) (of_nat (3 * sizeof_Phdr T)),
              ElfFileMemoryPiece ''Program headers part 2''
                (of_nat (PHDR_OFFSET T) + of_nat (3 * sizeof_Phdr T))
                (M_program_headers 4) (of_nat (3 * sizeof_Phdr T))]) @
       [ElfFileMemoryPiece ''.dynamic'' (sh_offset (sb_section (dynamic_builder b2))) M_dynamic
          (sh_size (sb_section (dynamic_builder b2))),
        ElfFileMemoryPiece ''.dynsym'' (sh_offset (sb_section (dynsym_builder b2))) M_dynsym
          (of_nat (length (w_dynsym loc) * sizeof_Sym T)),
        ElfFileMemoryPiece ''.dynstr'' (sh_offset (sb_section (strtab (dynsym_builder b2))))
          M_dynstr (of_nat (length (dynstr b2))),
        ElfFileMemoryPiece ''.hash'' (sh_offset (sb_section (hash_builder b2))) M_hash
          (of_nat (length (hash b2) * sizeof_Word T)),
        ElfFileRodataPiece (sh_offset (sb_section (rodata_builder b2))),
        ElfFileOatTextPiece (sh_offset (sb_section (text_builder b2)))] @
       (if IncludingDebugSymbols b2
        then [ElfFileMemoryPiece ''.symtab'' (sh_offset (sb_section (symtab_builder b2)))
                M_symtab (of_nat (length (w_symtab loc) * sizeof_Sym T)),
              ElfFileMemoryPiece ''.strtab''
                (sh_offset (sb_section (strtab (symtab_builder b2)))) M_strtab
                (of_nat (length (w_strtab loc)))]
        else []) @
       [ElfFileMemoryPiece ''.shstrtab'' (sh_offset (sb_section (shstrtab_builder b2)))
          M_shstrtab (of_nat (length (shstrtab b2)))] @
       map (\<lambda>i. ElfFileMemoryPiece ''section table piece''
                   (w_sections_offset loc + of_nat (i * sizeof_Shdr T)) (M_section_ptr i)
                   (of_nat (sizeof_Shdr T)))
         [0..<length (section_ptrs b2)] @
       map (\<lambda>it. ElfFileMemoryPiece (sb_name (raw_objects b2 it))
                    (sh_offset (sb_section (raw_objects b2 it))) (M_buffer it)
                    (of_nat (length (buf (raw_objects b2 it)))))
         (other_builders b2) \<and>
     reqs = concat (map (\<lambda>p. case p of
                ElfFileMemoryPiece nm offset data sz \<Rightarrow> [Seek offset, WriteFully data sz]
              | ElfFileRodataPiece offset \<Rightarrow> [Seek offset, OatWrite offset]
              | ElfFileOatTextPiece offset \<Rightarrow> [Seek offset]) (w_pieces loc)) \<and>
     ok = (\<forall>n<length reqs. accepts f (events f @ take n reqs) (reqs ! n)) \<and>
     k \<le> length reqs \<and> events f' = events f @ take k reqs \<and>
     (if ok then k = length reqs
      else k < length reqs \<and> \<not> accepts f (events f @ take k reqs) (reqs ! k))"
proof -
  from Write_Inr [OF assms] obtain loc where w: "Write_prepare T b = Inr (b2, loc)"
    and o: "WriteOutFile (w_pieces loc) f = (ok, f')" by blast
  define reqs where "reqs = concat (map piece_events (w_pieces loc))"
  have rq: "reqs = concat (map (\<lambda>p. case p of
                ElfFileMemoryPiece nm offset data sz \<Rightarrow> [Seek offset, WriteFully data sz]
              | ElfFileRodataPiece offset \<Rightarrow> [Seek offset, OatWrite offset]
              | ElfFileOatTextPiece offset \<Rightarrow> [Seek offset]) (w_pieces loc))"
    unfolding reqs_def by (rule arg_cong [where f = concat], rule map_cong [OF refl])
      (rule piece_events_cases)
  from o have s: "serve reqs f = (ok, f')" by (simp add: WriteOutFile_serve reqs_def)
  from serve_fst [of reqs f] s
  have a: "ok = (\<forall>n<length reqs. accepts f (events f @ take n reqs) (reqs ! n))" by simp
  from serve_events [of reqs f] s obtain k where
    k: "k \<le> length reqs" "events f' = events f @ take k reqs"
      "if ok then k = length reqs
       else k < length reqs \<and> \<not> accepts f (events f @ take k reqs) (reqs ! k)"
    by (elim exE conjE) simp
  note pl = Write_prepare_piece_list [OF w]
  show ?thesis
    by (intro exI [of _ loc] exI [of _ reqs] exI [of _ k] conjI)
      (fact w pl rq a k)+
qed

text \<open>The theorem at the example with a raw section registered twice: every request is
  served, the first two are those of the ELF header, and the last four seek and write the
  one raw section twice, at the one offset it was given last.\<close>

theorem Write_commits_in_order_witness:
  "(case Init ElfTypes32 example_raw_builder of
      Some (Inr b1) \<Rightarrow>
        (case Write ElfTypes32 b1 accepting_file of
           Inr (ok, b2, f') \<Rightarrow>
             ok \<and> take 2 (events f') = [Seek 0, WriteFully M_elf_header 52] \<and>
             drop (length (events f') - 4) (events f') =
               [Seek 12347, WriteFully (M_buffer 0) 3, Seek 12347, WriteFully (M_buffer 0) 3]
         | Inl e \<Rightarrow> False)
    | _ \<Rightarrow> False)"
proof -
  from example_raw_emit obtain b1 b2 loc0 f' where
    i: "Init ElfTypes32 example_raw_builder = Some (Inr b1)"
    and w0: "Write_prepare ElfTypes32 b1 = Inr (b2, loc0)"
    and w: "Write ElfTypes32 b1 accepting_file = Inr (True, b2, f')" by (elim exE conjE)
  note rp = example_raw_pieces [OF i w0]
  from Write_commits_in_order [OF w] obtain loc reqs k where
    "Write_prepare ElfTypes32 b1 = Inr (b2, loc)"
    and ps: "w_pieces loc =
       [ElfFileMemoryPiece ''Elf Header'' 0 M_elf_header (of_nat (sizeof_Ehdr ElfTypes32))] @
       (if sh_size (sb_section (bss_builder b2)) \<noteq> 0
        then [ElfFileMemoryPiece ''Program headers'' (of_nat (PHDR_OFFSET ElfTypes32))
                (M_program_headers 0) (of_nat (7 * sizeof_Phdr ElfTypes32))]
        else [ElfFileMemoryPiece ''Program headers'' (of_nat (PHDR_OFFSET ElfTypes32))
                (M_program_headers 0) (of_nat (3 * sizeof_Phdr ElfTypes32)),
              ElfFileMemoryPiece ''Program headers part 2''
                (of_nat (PHDR_OFFSET ElfTypes32) + of_nat (3 * sizeof_Phdr ElfTypes32))
                (M_program_headers 4) (of_nat (3 * sizeof_Phdr ElfTypes32))]) @
       [ElfFileMemoryPiece ''.dynamic'' (sh_offset (sb_section (dynamic_builder b2))) M_dynamic
          (sh_size (sb_section (dynamic_builder b2))),
        ElfFileMemoryPiece ''.dynsym'' (sh_offset (sb_section (dynsym_builder b2))) M_dynsym
          (of_nat (length (w_dynsym loc) * sizeof_Sym ElfTypes32)),
        ElfFileMemoryPiece ''.dynstr'' (sh_offset (sb_section (strtab (dynsym_builder b2))))
          M_dynstr (of_nat (length (dynstr b2))),
        ElfFileMemoryPiece ''.hash'' (sh_offset (sb_section (hash_builder b2))) M_hash
          (of_nat (length (hash b2) * sizeof_Word ElfTypes32)),
        ElfFileRodataPiece (sh_offset (sb_section (rodata_builder b2))),
        ElfFileOatTextPiece (sh_offset (sb_section (text_builder b2)))] @
       (if IncludingDebugSymbols b2
        then [ElfFileMemoryPiece ''.symtab'' (sh_offset (sb_section (symtab_builder b2)))
                M_symtab (of_nat (length (w_symtab loc) * sizeof_Sym ElfTypes32)),
              ElfFileMemoryPiece ''.strtab''
                (sh_offset (sb_section (strtab (symtab_builder b2)))) M_strtab
                (of_nat (length (w_strtab loc)))]
        else []) @
       [ElfFileMemoryPiece ''.shstrtab'' (sh_offset (sb_section (shstrtab_builder b2)))
          M_shstrtab (of_nat (length (shstrtab b2)))] @
       map (\<lambda>i. ElfFileMemoryPiece ''section table piece''
                   (w_sections_offset loc + of_nat (i * sizeof_Shdr ElfTypes32)) (M_section_ptr i)
                   (of_nat (sizeof_Shdr ElfTypes32)))
         [0..<length (section_ptrs b2)] @
       map (\<lambda>it. ElfFileMemoryPiece (sb_name (raw_objects b2 it))
                    (sh_offset (sb_section (raw_objects b2 it))) (M_buffer it)
                    (of_nat (length (buf (raw_objects b2 it)))))
         (other_builders b2)"
    and r: "reqs = concat (map (\<lambda>p. case p of
                ElfFileMemoryPiece nm offset data sz \<Rightarrow> [Seek offset, WriteFully data sz]
              | ElfFileRodataPiece offset \<Rightarrow> [Seek offset, OatWrite offset]
              | ElfFileOatTextPiece offset \<Rightarrow> [Seek offset]) (w_pieces loc))"
    and "True = (\<forall>n<length reqs. accepts accepting_file (events accepting_file @ take n reqs) (reqs ! n))"
    and "k \<le> length reqs"
    and e: "events f' = events accepting_file @ take k reqs"
    and kk: "if True then k = length reqs
       else k < length reqs \<and>
            \<not> accepts accepting_file (events accepting_file @ take k reqs) (reqs ! k)"
    by (elim exE conjE) (rule that)
  from kk have k: "k = length reqs" by simp
  have ev: "events f' = reqs" by (simp add: e k accepting_file_def)
  have t2: "take 2 (events f') = [Seek 0, WriteFully M_elf_header 52]"
    unfolding ev r ps by (simp add: ElfTypes32_def)
  obtain pre where pre: "events f' =
      pre @ [Seek 12347, WriteFully (M_buffer 0) 3, Seek 12347, WriteFully (M_buffer 0) 3]"
    unfolding ev r ps by (simp add: rp)
  have "drop (length (events f') - 4) (events f') =
      [Seek 12347, WriteFully (M_buffer 0) 3, Seek 12347, WriteFully (M_buffer 0) 3]"
    unfolding pre by simp
  with i w t2 show ?thesis by simp
qed

section \<open>Addresses and offsets\<close>

lemma layout_raw_nonalloc_addr_is_offset:
  "allocatable (raw_objects b q) \<longrightarrow> addr_is_offset (raw_objects b q) \<Longrightarrow>
   allocatable (raw_objects (fst (layout_raw_nonalloc prev ps b)) q) \<longrightarrow>
     addr_is_offset (raw_objects (fst (layout_raw_nonalloc prev ps b)) q)"
proof (induction ps arbitrary: prev b)
  case Nil
  then show ?case by simp
next
  case (Cons p ps)
  show ?case
  proof (cases "sh_flags (sb_section (raw_objects b p)) AND SHF_ALLOC = 0")
    case True
    then show ?thesis
      using Cons.prems
      by (simp add: Let_def) (rule Cons.IH, simp add: upd_other_def allocatable_def addr_is_offset_def)
  next
    case False
    then show ?thesis using Cons.prems by (simp add: Cons.IH)
  qed
qed

lemma Write_layout_addr_is_offset:
  assumes "allocatable (raw_objects b q) \<longrightarrow> addr_is_offset (raw_objects b q)"
  shows "allocatable (raw_objects (fst (Write_layout T b)) q) \<longrightarrow>
           addr_is_offset (raw_objects (fst (Write_layout T b)) q)"
proof -
  have "allocatable (raw_objects (fst (layout_raw_nonalloc prev ps b')) q) \<longrightarrow>
           addr_is_offset (raw_objects (fst (layout_raw_nonalloc prev ps b')) q)"
    if "raw_objects b' = raw_objects (Write_other_sections ps' b'')"
      and "raw_objects b'' = raw_objects b" for prev ps b' ps' b''
    by (rule layout_raw_nonalloc_addr_is_offset)
      (use assms that in \<open>simp add: allocatable_def addr_is_offset_def\<close>)
  then show ?thesis
    by (simp add: Write_layout_def Let_def split_beta)
qed

lemma emitted_others:
  assumes i: "Init T b0 = Some (Inr b1)" and w: "Write_prepare T b1 = Inr (b2, loc)"
    and m: "p \<in> set (other_builders b2)" and a: "allocatable (raw_objects b2 p)"
  shows "addr_is_offset (raw_objects b2 p)"
proof -
  note r = Write_prepare_raw [OF w] and la = Init_result_layout [OF i]
  from la(30) obtain prev b' where
    b': "raw_objects b' = raw_objects b0"
    and o1: "raw_objects b1 = raw_objects (fst (layout_raw_alloc prev (other_builders b0) b'))"
    by blast
  from m have m0: "p \<in> set (other_builders b0)" by (simp add: r(2) la(33))
  have "allocatable (raw_objects b1 p) \<longrightarrow> addr_is_offset (raw_objects b1 p)"
    unfolding o1 using layout_raw_alloc_addr [OF m0] by blast
  from Write_layout_addr_is_offset [OF this, of T] a show ?thesis
    by (simp add: r(1))
qed

lemma Write_layout_flags:
  "sh_flags (sb_section (shstrtab_builder (fst (Write_layout T b)))) =
     sh_flags (sb_section (shstrtab_builder b))"
  "sh_flags (sb_section (symtab_builder (fst (Write_layout T b)))) =
     sh_flags (sb_section (symtab_builder b))"
  "sh_flags (sb_section (strtab (symtab_builder (fst (Write_layout T b))))) =
     sh_flags (sb_section (strtab (symtab_builder b)))"
  by (simp_all add: Write_layout_def Let_def split_beta Write_layout_shstrtab_def
        Write_layout_symtab_def Write_debug_sections_def setup_effects)

lemma Write_prepare_flags:
  assumes "Write_prepare T b = Inr (b2, loc)"
  shows "sh_flags (sb_section (shstrtab_builder b2)) = sh_flags (sb_section (shstrtab_builder b))"
    "sh_flags (sb_section (symtab_builder b2)) = sh_flags (sb_section (symtab_builder b))"
    "sh_flags (sb_section (strtab (symtab_builder b2))) =
       sh_flags (sb_section (strtab (symtab_builder b)))"
proof -
  from Write_prepare_Inr(1) [OF assms] obtain f where
    b2: "b2 = Write_ehdr T (snd (snd (Write_layout T b)))
                  (upd_phdr PH_EH_FRAME_HDR f (Write_program_headers (fst (Write_layout T b))))"
    by blast
  show "sh_flags (sb_section (shstrtab_builder b2)) = sh_flags (sb_section (shstrtab_builder b))"
    "sh_flags (sb_section (symtab_builder b2)) = sh_flags (sb_section (symtab_builder b))"
    "sh_flags (sb_section (strtab (symtab_builder b2))) =
       sh_flags (sb_section (strtab (symtab_builder b)))"
    unfolding b2 by (simp_all add: Write_layout_flags)
qed

text \<open>The constructor creates the debug tables and \<^verbatim>\<open>.shstrtab\<close> without \<^verbatim>\<open>SHF_ALLOC\<close>.\<close>

lemma ctor_not_allocatable:
  fixes bss_sz :: "'w::len word"
  assumes "ElfBuilder_ctor T path isa ro_off ro_sz tx_off tx_sz bss_off bss_sz add = Inr b"
  shows "\<not> allocatable (symtab_builder b)" "\<not> allocatable (strtab (symtab_builder b))"
    "\<not> allocatable (shstrtab_builder b)"
  by (simp_all add: ctor_fields [OF assms] allocatable_def)

text \<open>
  Claim C2, as the specification states it, at the example.  \<^verbatim>\<open>.dynamic\<close> is allocatable;
  its address is 16384, its offset in the file 12288, the offset of \<^verbatim>\<open>.bss\<close>.
\<close>

theorem dynamic_addr_not_offset:
  "emitted_dynamic ElfTypes32 example_builder accepting_file = Some (True, 16384, 12288)"
proof -
  from example_emit obtain b1 b2 loc f' where i: "Init ElfTypes32 example_builder = Some (Inr b1)"
    and w: "Write_prepare ElfTypes32 b1 = Inr (b2, loc)"
    and e: "emit ElfTypes32 example_builder accepting_file = Some (True, b2, f')"
    by (elim exE conjE)
  note fr = Write_prepare_frame [OF w] and l = example_layout [OF i]
  show ?thesis
    by (simp add: emitted_dynamic_def e fr(6) l SHF_ALLOC_def)
qed

text \<open>
  Claim C2, amended.  For every emission, \<^verbatim>\<open>.dynsym\<close>, \<^verbatim>\<open>.dynstr\<close>, \<^verbatim>\<open>.hash\<close>, \<^verbatim>\<open>.rodata\<close>,
  \<^verbatim>\<open>.text\<close>, \<^verbatim>\<open>.bss\<close> and every allocatable raw section have their address equal to their
  offset in the file.  The debug tables and \<^verbatim>\<open>.shstrtab\<close> are allocatable only if they were
  before \<^verbatim>\<open>Init\<close>.  \<^verbatim>\<open>.dynamic\<close> is the exception: its offset is the offset of \<^verbatim>\<open>.bss\<close>, which
  takes no room in the file, and its address is the end of \<^verbatim>\<open>.bss\<close> rounded up to the
  alignment of \<^verbatim>\<open>.dynamic\<close>; the two are equal if \<^verbatim>\<open>.bss\<close> is empty.
\<close>

theorem allocatable_addr_is_offset:
  assumes "emit T b0 f = Some (ok, b2, f')"
  shows "addr_is_offset (dynsym_builder b2) \<and> addr_is_offset (strtab (dynsym_builder b2)) \<and>
    addr_is_offset (hash_builder b2) \<and> addr_is_offset (rodata_builder b2) \<and>
    addr_is_offset (text_builder b2) \<and> addr_is_offset (bss_builder b2) \<and>
    (\<forall>p\<in>set (other_builders b2).
       allocatable (raw_objects b2 p) \<longrightarrow> addr_is_offset (raw_objects b2 p)) \<and>
    allocatable (symtab_builder b2) = allocatable (symtab_builder b0) \<and>
    allocatable (strtab (symtab_builder b2)) = allocatable (strtab (symtab_builder b0)) \<and>
    allocatable (shstrtab_builder b2) = allocatable (shstrtab_builder b0) \<and>
    sh_offset (sb_section (dynamic_builder b2)) = sh_offset (sb_section (bss_builder b2)) \<and>
    sh_addr (sb_section (dynamic_builder b2)) =
      NextOffset (sb_section (dynamic_builder b2)) (sb_section (bss_builder b2)) \<and>
    (oat_size (bss_builder b0) = 0 \<longrightarrow> addr_is_offset (dynamic_builder b2))"
proof -
  from emit_Some [OF assms] obtain b1 loc where i: "Init T b0 = Some (Inr b1)"
    and w: "Write_prepare T b1 = Inr (b2, loc)" by blast
  note fr = Write_prepare_frame [OF w] and l = Init_result_layout [OF i]
    and f = Init_result_frame [OF i] and fl = Write_prepare_flags [OF w]
  have six: "addr_is_offset (dynsym_builder b2)" "addr_is_offset (strtab (dynsym_builder b2))"
    "addr_is_offset (hash_builder b2)" "addr_is_offset (rodata_builder b2)"
    "addr_is_offset (text_builder b2)" "addr_is_offset (bss_builder b2)"
    by (simp_all add: addr_is_offset_def fr(1-5) l(16-21))
  have raw: "\<forall>p\<in>set (other_builders b2).
       allocatable (raw_objects b2 p) \<longrightarrow> addr_is_offset (raw_objects b2 p)"
    using emitted_others [OF i w] by blast
  have dbg: "allocatable (symtab_builder b2) = allocatable (symtab_builder b0)"
    "allocatable (strtab (symtab_builder b2)) = allocatable (strtab (symtab_builder b0))"
    "allocatable (shstrtab_builder b2) = allocatable (shstrtab_builder b0)"
    by (simp_all add: allocatable_def fl f(5,6))
  have off: "sh_offset (sb_section (dynamic_builder b2)) = sh_offset (sb_section (bss_builder b2))"
    by (simp add: fr(5,6) l(13))
  have addr: "sh_addr (sb_section (dynamic_builder b2)) =
      NextOffset (sb_section (dynamic_builder b2)) (sb_section (bss_builder b2))"
    by (simp add: fr(5,6) l(14) l(29) NextOffset_def)
  have empty: "addr_is_offset (dynamic_builder b2)" if z: "oat_size (bss_builder b0) = 0"
  proof -
    have "sh_addr (sb_section (dynamic_builder b1)) =
        RoundUp (sh_offset (sb_section (bss_builder b1))) (sh_addralign (sb_section (dynamic_builder b0)))"
      by (simp add: l(14) l(12) z)
    also have "\<dots> = sh_offset (sb_section (bss_builder b1))"
      using l(32) by (rule RoundUp_aligned)
    finally show ?thesis by (simp add: addr_is_offset_def fr(6) l(13))
  qed
  from six raw dbg off addr empty show ?thesis by (intro conjI impI)
qed

text \<open>The theorem at the example with an allocatable raw section registered twice: the
  raw section and \<^verbatim>\<open>.bss\<close> have their address equal to their offset, and the offset of
  \<^verbatim>\<open>.dynamic\<close> is the offset of \<^verbatim>\<open>.bss\<close>.\<close>

theorem allocatable_addr_is_offset_witness:
  "(case emit ElfTypes32 example_alloc_builder accepting_file of
      Some (ok, b2, f') \<Rightarrow>
        other_builders b2 = [0, 0] \<and> allocatable (raw_objects b2 0) \<and>
        sh_addr (sb_section (raw_objects b2 0)) = sh_offset (sb_section (raw_objects b2 0)) \<and>
        sh_addr (sb_section (bss_builder b2)) = sh_offset (sb_section (bss_builder b2)) \<and>
        sh_offset (sb_section (dynamic_builder b2)) = sh_offset (sb_section (bss_builder b2))
    | None \<Rightarrow> False)"
proof -
  from example_alloc_emit obtain b1 b2 loc f' where
    i: "Init ElfTypes32 example_alloc_builder = Some (Inr b1)"
    and w: "Write_prepare ElfTypes32 b1 = Inr (b2, loc)"
    and e: "emit ElfTypes32 example_alloc_builder accepting_file = Some (True, b2, f')"
    by (elim exE conjE)
  note r = Write_prepare_raw [OF w] and la = Init_result_layout [OF i]
    and n = Init_raw_names [OF i]
  have ob: "other_builders b2 = [0, 0]"
    by (simp add: r(2) la(33) example_alloc_fields)
  have al: "allocatable (raw_objects b2 0)"
    by (simp add: allocatable_def r(1) n(3) example_alloc_fields SHF_ALLOC_def)
  from allocatable_addr_is_offset [OF e]
  have "\<forall>p\<in>set (other_builders b2).
       allocatable (raw_objects b2 p) \<longrightarrow> addr_is_offset (raw_objects b2 p)"
    and "addr_is_offset (bss_builder b2)"
    and "sh_offset (sb_section (dynamic_builder b2)) = sh_offset (sb_section (bss_builder b2))"
    by simp_all
  with ob al have "sh_addr (sb_section (raw_objects b2 0)) = sh_offset (sb_section (raw_objects b2 0)) \<and>
        sh_addr (sb_section (bss_builder b2)) = sh_offset (sb_section (bss_builder b2)) \<and>
        sh_offset (sb_section (dynamic_builder b2)) = sh_offset (sb_section (bss_builder b2))"
    by (simp add: addr_is_offset_def)
  with e ob al show ?thesis by simp
qed

section \<open>The section table\<close>

lemma setup_section_ptrs [simp]:
  "section_ptrs (setup_section R_dynsym dynsym_builder dynsym_builder_update b) = section_ptrs b @ [H_section R_dynsym]"
  "section_ptrs (setup_section R_dynstr (\<lambda>b. strtab (dynsym_builder b)) upd_dynstr b) = section_ptrs b @ [H_section R_dynstr]"
  "section_ptrs (setup_section R_hash hash_builder hash_builder_update b) = section_ptrs b @ [H_section R_hash]"
  "section_ptrs (setup_section R_rodata rodata_builder rodata_builder_update b) = section_ptrs b @ [H_section R_rodata]"
  "section_ptrs (setup_section R_text text_builder text_builder_update b) = section_ptrs b @ [H_section R_text]"
  "section_ptrs (setup_section R_bss bss_builder bss_builder_update b) = section_ptrs b @ [H_section R_bss]"
  "section_ptrs (setup_section R_dynamic dynamic_builder dynamic_builder_update b) = section_ptrs b @ [H_section R_dynamic]"
  "section_ptrs (setup_section R_symtab symtab_builder symtab_builder_update b) = section_ptrs b @ [H_section R_symtab]"
  "section_ptrs (setup_section R_strtab (\<lambda>b. strtab (symtab_builder b)) upd_strtab b) = section_ptrs b @ [H_section R_strtab]"
  "section_ptrs (setup_section R_shstrtab shstrtab_builder shstrtab_builder_update b) = section_ptrs b @ [H_section R_shstrtab]"
  "section_ptrs (setup_section (R_other i) (\<lambda>b. raw_objects b i) (upd_other i) b) = section_ptrs b @ [H_section (R_other i)]"
  by (simp_all add: setup_section_def Let_def split_beta AssignSectionStr_def upd_dynstr_def
        upd_strtab_def upd_other_def)

lemma Init_sections_ptrs: "H_section R_dynamic \<in> set (section_ptrs (Init_sections b))"
  by (simp add: Init_sections_def Let_def)

lemma Init_result_ptrs:
  assumes "Init T b = Some (Inr b1)"
  shows "H_section R_dynamic \<in> set (section_ptrs b1)"
proof -
  from Init_Inr [OF assms] obtain h where
    l: "Init_layout T ((Init_setup T b)\<lparr>hash := h\<rparr>) = Inr b1" by blast
  from Init_layout_Inr [OF l] obtain bo prev where
    o: "Init_layout_others (Init_layout_hash T (Init_layout_dynstr
          (Init_layout_dynsym T ((Init_setup T b)\<lparr>hash := h\<rparr>)))) = (bo, prev)"
    and b1: "b1 = Init_layout_dynamic T (Init_layout_bss (Init_layout_text
          (Init_layout_rodata prev bo)))" by blast
  from o have bo: "bo = fst (Init_layout_others (Init_layout_hash T (Init_layout_dynstr
          (Init_layout_dynsym T ((Init_setup T b)\<lparr>hash := h\<rparr>)))))" by simp
  have "section_ptrs b1 = section_ptrs (Init_setup T b)"
    unfolding b1 bo by simp
  then show ?thesis by (simp add: Init_setup_def Init_sections_ptrs)
qed

lemma Write_other_sections_ptrs:
  "x \<in> set (section_ptrs b) \<Longrightarrow> x \<in> set (section_ptrs (Write_other_sections idxs b))"
  by (induction idxs arbitrary: b) simp_all

lemma Write_layout_ptrs:
  "x \<in> set (section_ptrs b) \<Longrightarrow> x \<in> set (section_ptrs (fst (Write_layout T b)))"
  by (simp add: Write_layout_def Let_def split_beta Write_debug_sections_def
        Write_other_sections_ptrs)

lemma Write_prepare_ptrs:
  assumes "Write_prepare T b = Inr (b2, loc)" and "x \<in> set (section_ptrs b)"
  shows "x \<in> set (section_ptrs b2)"
proof -
  from Write_prepare_Inr(1) [OF assms(1)] obtain f where
    b2: "b2 = Write_ehdr T (snd (snd (Write_layout T b)))
                  (upd_phdr PH_EH_FRAME_HDR f (Write_program_headers (fst (Write_layout T b))))"
    by blast
  show ?thesis unfolding b2 using assms(2) by (simp add: Write_layout_ptrs)
qed

lemma Write_program_headers_dynamic:
  assumes "length (program_headers b) = PH_NUM"
  shows "program_headers (Write_program_headers b) ! PH_LOAD_RW_DYNAMIC =
     (program_headers b ! PH_LOAD_RW_DYNAMIC)
       \<lparr>p_offset := sh_offset (sb_section (dynamic_builder b)),
        p_vaddr := sh_addr (sb_section (dynamic_builder b)),
        p_paddr := sh_addr (sb_section (dynamic_builder b)),
        p_filesz := sh_size (sb_section (dynamic_builder b)),
        p_memsz := sh_size (sb_section (dynamic_builder b)),
        p_align := sh_addralign (sb_section (dynamic_builder b))\<rparr>"
  using assms
  by (simp add: Write_program_headers_def Let_def upd_phdr_def PH_NUM_def PH_LOAD_R_def
        PH_LOAD_R_X_def PH_LOAD_RW_BSS_def PH_LOAD_RW_DYNAMIC_def PH_DYNAMIC_def)

lemma Write_prepare_load_dynamic:
  assumes w: "Write_prepare T b = Inr (b2, loc)" and n: "length (program_headers b) = PH_NUM"
  shows "program_headers b2 ! PH_LOAD_RW_DYNAMIC =
     (program_headers b ! PH_LOAD_RW_DYNAMIC)
       \<lparr>p_offset := sh_offset (sb_section (dynamic_builder b)),
        p_vaddr := sh_addr (sb_section (dynamic_builder b)),
        p_paddr := sh_addr (sb_section (dynamic_builder b)),
        p_filesz := sh_size (sb_section (dynamic_builder b)),
        p_memsz := sh_size (sb_section (dynamic_builder b)),
        p_align := sh_addralign (sb_section (dynamic_builder b))\<rparr>"
proof -
  from Write_prepare_Inr(1) [OF w] obtain f where
    b2: "b2 = Write_ehdr T (snd (snd (Write_layout T b)))
                  (upd_phdr PH_EH_FRAME_HDR f (Write_program_headers (fst (Write_layout T b))))"
    by blast
  have "program_headers b2 ! PH_LOAD_RW_DYNAMIC =
      program_headers (Write_program_headers (fst (Write_layout T b))) ! PH_LOAD_RW_DYNAMIC"
    unfolding b2 by (simp add: upd_phdr_def PH_EH_FRAME_HDR_def PH_LOAD_RW_DYNAMIC_def)
  also have "\<dots> = (program_headers (fst (Write_layout T b)) ! PH_LOAD_RW_DYNAMIC)
       \<lparr>p_offset := sh_offset (sb_section (dynamic_builder (fst (Write_layout T b)))),
        p_vaddr := sh_addr (sb_section (dynamic_builder (fst (Write_layout T b)))),
        p_paddr := sh_addr (sb_section (dynamic_builder (fst (Write_layout T b)))),
        p_filesz := sh_size (sb_section (dynamic_builder (fst (Write_layout T b)))),
        p_memsz := sh_size (sb_section (dynamic_builder (fst (Write_layout T b)))),
        p_align := sh_addralign (sb_section (dynamic_builder (fst (Write_layout T b))))\<rparr>"
    by (rule Write_program_headers_dynamic) (simp add: n)
  finally show ?thesis by simp
qed

lemma deref_shdr_dynamic:
  "deref_shdr b (H_section R_dynamic) = sb_section (dynamic_builder b)"
  by (simp add: deref_shdr_def deref_def ElfSectionBuilder.truncate_def)

text \<open>
  Claim C10.  The constructor of the dynamic builder gives \<^verbatim>\<open>.dynamic\<close> the flags
  \<^verbatim>\<open>SHF_ALLOC | SHF_ALLOC\<close>, which is \<^verbatim>\<open>SHF_ALLOC\<close> alone.  In every emission of a builder made
  by the constructor of \<^verbatim>\<open>ElfBuilder\<close>, whatever was registered or added since, the header of
  \<^verbatim>\<open>.dynamic\<close> is in the section table with these flags, so without \<^verbatim>\<open>SHF_WRITE\<close>, while the
  program header \<^verbatim>\<open>PH_LOAD_RW_DYNAMIC\<close> is a \<^verbatim>\<open>PT_LOAD\<close> segment with the flags
  \<^verbatim>\<open>PF_R | PF_W\<close> that spans exactly this section.
\<close>

theorem dynamic_flags_alloc_only:
  fixes bss_sz :: "'w::len word"
  assumes "ElfBuilder_ctor T path isa ro_off ro_sz tx_off tx_sz bss_off bss_sz add = Inr bc"
    and "emit T (configure ops bc) f = Some (ok, b2, f')"
  shows "sh_flags (sb_section (ElfDynamicBuilder_ctor T nm link :: 'w ElfDynamicBuilder)) =
           SHF_ALLOC \<and>
    H_section R_dynamic \<in> set (section_ptrs b2) \<and>
    sh_flags (deref_shdr b2 (H_section R_dynamic)) = SHF_ALLOC \<and>
    sh_flags (deref_shdr b2 (H_section R_dynamic)) AND SHF_WRITE = 0 \<and>
    p_type (program_headers b2 ! PH_LOAD_RW_DYNAMIC) = PT_LOAD \<and>
    p_flags (program_headers b2 ! PH_LOAD_RW_DYNAMIC) = PF_R OR PF_W \<and>
    p_offset (program_headers b2 ! PH_LOAD_RW_DYNAMIC) =
      sh_offset (deref_shdr b2 (H_section R_dynamic)) \<and>
    p_vaddr (program_headers b2 ! PH_LOAD_RW_DYNAMIC) =
      sh_addr (deref_shdr b2 (H_section R_dynamic)) \<and>
    p_filesz (program_headers b2 ! PH_LOAD_RW_DYNAMIC) =
      sh_size (deref_shdr b2 (H_section R_dynamic)) \<and>
    p_memsz (program_headers b2 ! PH_LOAD_RW_DYNAMIC) =
      sh_size (deref_shdr b2 (H_section R_dynamic))"
proof -
  let ?b0 = "configure ops bc"
  from emit_Some [OF assms(2)] obtain b1 loc where i: "Init T ?b0 = Some (Inr b1)"
    and w: "Write_prepare T b1 = Inr (b2, loc)" by blast
  note fr = Write_prepare_frame [OF w] and l = Init_result_layout [OF i]
    and f = Init_result_frame [OF i]
  have c: "sh_flags (sb_section (ElfDynamicBuilder_ctor T nm link :: 'w ElfDynamicBuilder)) =
      SHF_ALLOC" by simp
  have p: "H_section R_dynamic \<in> set (section_ptrs b2)"
    using w Init_result_ptrs [OF i] by (rule Write_prepare_ptrs)
  have fl: "sh_flags (sb_section (dynamic_builder b2)) = SHF_ALLOC"
    by (simp add: fr(6) l(28) ctor_fields(12) [OF assms(1)])
  have nw: "(SHF_ALLOC :: 'w word) AND SHF_WRITE = 0"
    by (simp add: SHF_ALLOC_def SHF_WRITE_def)
  have n: "length (program_headers b1) = PH_NUM"
    by (simp add: f(10) Init_program_headers_def PH_NUM_def)
  have ph: "program_headers b2 ! PH_LOAD_RW_DYNAMIC =
     (zero_Phdr\<lparr>p_type := PT_LOAD, p_flags := PF_R OR PF_W\<rparr>)
       \<lparr>p_offset := sh_offset (sb_section (dynamic_builder b1)),
        p_vaddr := sh_addr (sb_section (dynamic_builder b1)),
        p_paddr := sh_addr (sb_section (dynamic_builder b1)),
        p_filesz := sh_size (sb_section (dynamic_builder b1)),
        p_memsz := sh_size (sb_section (dynamic_builder b1)),
        p_align := sh_addralign (sb_section (dynamic_builder b1))\<rparr>"
    unfolding Write_prepare_load_dynamic [OF w n]
    by (simp add: f(10) Init_program_headers_def PH_LOAD_RW_DYNAMIC_def)
  show ?thesis
    using c p fl nw by (simp add: deref_shdr_dynamic ph fr(6))
qed

text \<open>The theorem at the example: the flags of \<^verbatim>\<open>.dynamic\<close> are 2, those of its segment 6.\<close>

theorem dynamic_flags_alloc_only_witness:
  "(case emit ElfTypes32 example_builder accepting_file of
      Some (ok, b2, f') \<Rightarrow>
        sh_flags (sb_section (dynamic_builder b2)) = 2 \<and>
        p_flags (program_headers b2 ! PH_LOAD_RW_DYNAMIC) = 6
    | None \<Rightarrow> False)"
proof -
  from example_emit obtain b2 f' where
    e: "emit ElfTypes32 example_builder accepting_file = Some (True, b2, f')"
    by (elim exE conjE)
  have c: "emit ElfTypes32 (configure [] example_builder) accepting_file = Some (True, b2, f')"
    using e by (simp add: configure_Nil)
  from dynamic_flags_alloc_only [OF example_ctor c]
  have "sh_flags (deref_shdr b2 (H_section R_dynamic)) = SHF_ALLOC"
    and "p_flags (program_headers b2 ! PH_LOAD_RW_DYNAMIC) = PF_R OR PF_W"
    by simp_all
  then have "sh_flags (sb_section (dynamic_builder b2)) = 2 \<and>
        p_flags (program_headers b2 ! PH_LOAD_RW_DYNAMIC) = 6"
    by (simp add: deref_shdr_dynamic SHF_ALLOC_def PF_R_def PF_W_def)
  with e show ?thesis by simp
qed


section \<open>An unsupported instruction set\<close>




section \<open>The required symbols\<close>

text \<open>
  Claim C8.  For every builder that the constructor returns, and whatever a caller
  registers or adds afterwards, the dynamic symbol table holds, in this order, \<open>oatdata\<close> (relative to \<^verbatim>\<open>.rodata\<close>, address 0, the size of
  \<^verbatim>\<open>.rodata\<close>), \<open>oatexec\<close> (relative to \<^verbatim>\<open>.text\<close>, address 0, the size of \<^verbatim>\<open>.text\<close>) and
  \<open>oatlastword\<close> (relative to \<^verbatim>\<open>.text\<close>, address the size of \<^verbatim>\<open>.text\<close> less 4, size 4), and
  then, if and only if the size of \<^verbatim>\<open>.bss\<close> is not zero, \<open>oatbss\<close> (relative to \<^verbatim>\<open>.bss\<close>,
  address 0, the size of \<^verbatim>\<open>.bss\<close>) and \<open>oatbsslastword\<close> (relative to \<^verbatim>\<open>.bss\<close>, address the
  size of \<^verbatim>\<open>.bss\<close> less 4, size 4); every one with the binding \<open>STB_GLOBAL\<close> and the type
  \<open>STT_OBJECT\<close>.
\<close>

theorem required_symbols_correct:
  fixes bss_sz :: "'w::len word"
  assumes "ElfBuilder_ctor T path isa ro_off ro_sz tx_off tx_sz bss_off bss_sz add = Inr bc"
  shows "let b = configure ops bc;
             sym = (\<lambda>nm sec addr sz.
                      \<lparr>sym_name = nm, sym_section = sec, sym_addr = addr, sym_size = sz,
                       sym_is_relative = True, sym_info = MakeStInfo STB_GLOBAL STT_OBJECT,
                       sym_other = 0, sym_name_idx = 0\<rparr>)
         in symbols (dynsym_builder b) =
              [sym ''oatdata'' R_rodata 0 ro_sz, sym ''oatexec'' R_text 0 tx_sz,
               sym ''oatlastword'' R_text (tx_sz - 4) 4] @
              (if bss_sz \<noteq> 0
               then [sym ''oatbss'' R_bss 0 bss_sz, sym ''oatbsslastword'' R_bss (bss_sz - 4) 4]
               else []) \<and>
            (''oatbss'' \<in> set (map sym_name (symbols (dynsym_builder b)))) = (bss_sz \<noteq> 0) \<and>
            (''oatbsslastword'' \<in> set (map sym_name (symbols (dynsym_builder b)))) = (bss_sz \<noteq> 0)"
proof -
  let ?b = "configure ops bc"
  let ?sym = "\<lambda>nm sec addr sz.
                      \<lparr>sym_name = nm, sym_section = sec, sym_addr = addr, sym_size = sz,
                       sym_is_relative = True, sym_info = MakeStInfo STB_GLOBAL STT_OBJECT,
                       sym_other = 0, sym_name_idx = 0 :: 'w word\<rparr>"
  have s: "symbols (dynsym_builder ?b) =
              [?sym ''oatdata'' R_rodata 0 ro_sz, ?sym ''oatexec'' R_text 0 tx_sz,
               ?sym ''oatlastword'' R_text (tx_sz - 4) 4] @
              (if bss_sz \<noteq> 0
               then [?sym ''oatbss'' R_bss 0 bss_sz, ?sym ''oatbsslastword'' R_bss (bss_sz - 4) 4]
               else [])"
    by (simp add: ctor_fields [OF assms] symbols_AddSymbols required_symbols_def symbol_state_def)
  have n: "map sym_name (symbols (dynsym_builder ?b)) =
      [''oatdata'', ''oatexec'', ''oatlastword''] @
      (if bss_sz \<noteq> 0 then [''oatbss'', ''oatbsslastword''] else [])"
    unfolding s by simp
  have m: "(''oatbss'' \<in> set (map sym_name (symbols (dynsym_builder ?b)))) = (bss_sz \<noteq> 0)"
    "(''oatbsslastword'' \<in> set (map sym_name (symbols (dynsym_builder ?b)))) = (bss_sz \<noteq> 0)"
    unfolding n by simp_all
  from s m show ?thesis unfolding Let_def by (intro conjI)
qed

text \<open>The theorem at the example, with 4096 bytes each of \<^verbatim>\<open>.rodata\<close>, \<^verbatim>\<open>.text\<close> and \<^verbatim>\<open>.bss\<close>:
  \<open>oatdata\<close> has the size 4096, \<open>oatlastword\<close> is at 4092 in \<^verbatim>\<open>.text\<close>.\<close>

theorem required_symbols_correct_witness:
  "ElfBuilder_ctor ElfTypes32 ''/tmp/foo/bar.oat'' kX86 0 4096 4096 4096 8192 4096 False =
     Inr example_builder \<and>
   map (\<lambda>s. (sym_name s, sym_section s, sym_addr s, sym_size s, sym_is_relative s))
     (symbols (dynsym_builder example_builder)) =
     [(''oatdata'', R_rodata, 0, 4096, True), (''oatexec'', R_text, 0, 4096, True),
      (''oatlastword'', R_text, 4092, 4, True), (''oatbss'', R_bss, 0, 4096, True),
      (''oatbsslastword'', R_bss, 4092, 4, True)]"
  using required_symbols_correct [OF example_ctor, of "[]"] example_ctor
  by (simp add: Let_def configure_Nil)

section \<open>The shared object name\<close>

text \<open>
  Claim C9.  In every emission, \<^verbatim>\<open>Init\<close> has appended to the dynamic string table, right
  after the pool of the symbol names, the basename of the output path (what follows its
  final slash, or the whole path if it has none) and a \<open>NUL\<close>; the table is written as
  \<^verbatim>\<open>Init\<close> left it; and the value of the \<open>DT_SONAME\<close> entry of the dynamic vector is the offset
  at which that name starts in the table.  The offset is an \<^verbatim>\<open>Elf_Word\<close>, so the pool is taken
  to be shorter than \<open>2 ^ 32\<close>.
\<close>

theorem soname_correct:
  assumes "emit T b0 f = Some (ok, b2, f')"
    and "length (fst (GenerateStrtab (dynsym_builder b0))) < 2 ^ 32"
  shows "\<exists>b1 loc pre.
    Init T b0 = Some (Inr b1) \<and> Write_prepare T b1 = Inr (b2, loc) \<and>
    fst (GenerateStrtab (dynsym_builder b0)) =
      NUL # concat (map (\<lambda>s. sym_name s @ [NUL]) (symbols (dynsym_builder b0))) \<and>
    dynstr b1 = fst (GenerateStrtab (dynsym_builder b0)) @ basename_spec (elf_file_path b0) @ [NUL] \<and>
    dynstr b2 = dynstr b1 \<and>
    unat (dynstr_soname_offset b2) = length (fst (GenerateStrtab (dynsym_builder b0))) \<and>
    drop (unat (dynstr_soname_offset b2)) (dynstr b2) = basename_spec (elf_file_path b0) @ [NUL] \<and>
    w_dynamic loc = pre @
      [\<lparr>d_tag = DT_STRSZ, d_un = of_nat (length (dynstr b2))\<rparr>,
       \<lparr>d_tag = DT_SONAME, d_un = ucast (dynstr_soname_offset b2)\<rparr>,
       \<lparr>d_tag = DT_NULL, d_un = 0\<rparr>]"
proof -
  let ?pool = "fst (GenerateStrtab (dynsym_builder b0))"
  from emit_Some [OF assms(1)] obtain b1 loc where i: "Init T b0 = Some (Inr b1)"
    and w: "Write_prepare T b1 = Inr (b2, loc)" by blast
  note fr = Write_prepare_frame [OF w] and f = Init_result_frame [OF i]
  have d1: "dynstr b1 = ?pool @ basename_spec (elf_file_path b0) @ [NUL]"
    by (simp add: f(8) basename_src_spec)
  have d2: "dynstr b2 = dynstr b1" by (rule fr(7))
  have "unat (dynstr_soname_offset b1) = length ?pool"
    using assms(2) by (simp add: f(9) unat_of_nat)
  then have u: "unat (dynstr_soname_offset b2) = length ?pool" by (simp add: fr(8))
  have dr: "drop (unat (dynstr_soname_offset b2)) (dynstr b2) =
      basename_spec (elf_file_path b0) @ [NUL]"
    by (simp add: u d2 d1)
  have dy: "w_dynamic loc = map (make_dyn (deref (fst (Write_layout T b1))))
        (dynamics (dynamic_builder b1)) @
      [\<lparr>d_tag = DT_STRSZ, d_un = of_nat (length (dynstr b2))\<rparr>,
       \<lparr>d_tag = DT_SONAME, d_un = ucast (dynstr_soname_offset b2)\<rparr>,
       \<lparr>d_tag = DT_NULL, d_un = 0\<rparr>]"
    by (simp add: Write_prepare_Inr(3) [OF w] GetDynamics_def fr(7,8))
  show ?thesis
    by (intro exI [of _ b1] exI [of _ loc]
          exI [of _ "map (make_dyn (deref (fst (Write_layout T b1)))) (dynamics (dynamic_builder b1))"]
          conjI)
      (fact i w GenerateStrtab_tab d1 d2 u dr dy)+
qed

text \<open>The theorem at the example, written to \<^verbatim>\<open>/tmp/foo/bar.oat\<close>: the name \<open>bar.oat\<close> is at
  the offset 51 of the table.\<close>

theorem soname_correct_witness:
  "(case emit ElfTypes32 example_builder accepting_file of
      Some (ok, b2, f') \<Rightarrow>
        unat (dynstr_soname_offset b2) = 51 \<and> drop 51 (dynstr b2) = ''bar.oat'' @ [NUL]
    | None \<Rightarrow> False)"
proof -
  from example_emit obtain b2 f' where
    e: "emit ElfTypes32 example_builder accepting_file = Some (True, b2, f')"
    by (elim exE conjE)
  have p: "length (fst (GenerateStrtab (dynsym_builder example_builder))) = 51"
    by (simp add: GenerateStrtab_tab example_fields symbol_state_def required_symbols_def)
  have "length (fst (GenerateStrtab (dynsym_builder example_builder))) < 2 ^ 32"
    unfolding p by simp
  from soname_correct [OF e this]
  have "unat (dynstr_soname_offset b2) = 51 \<and> drop 51 (dynstr b2) = ''bar.oat'' @ [NUL]"
    by (auto simp: p example_fields basename_spec_def)
  with e show ?thesis by simp
qed


section \<open>The dynamic vector of an emission\<close>

lemma deref_Write_prepare:
  assumes "Write_prepare T b = Inr (b2, loc)"
  shows "deref b2 r = deref (fst (Write_layout T b)) r"
proof -
  from Write_prepare_Inr(1) [OF assms] obtain f where
    b2: "b2 = Write_ehdr T (snd (snd (Write_layout T b)))
                  (upd_phdr PH_EH_FRAME_HDR f (Write_program_headers (fst (Write_layout T b))))"
    by blast
  show ?thesis unfolding b2 by (cases r) (simp_all add: deref_def)
qed

lemma deref_sections:
  "sb_section (deref b R_hash) = sb_section (hash_builder b)"
  "sb_section (deref b R_dynstr) = sb_section (strtab (dynsym_builder b))"
  "sb_section (deref b R_dynsym) = sb_section (dynsym_builder b)"
  by (simp_all add: deref_def ElfSectionBuilder.truncate_def)

text \<open>
  Claim C5.  Take a builder that the constructor returns, whatever a caller registers or
  adds afterwards, and any further calls of \<^verbatim>\<open>AddDynamicTag\<close> on its dynamic builder.  In
  every emission of it, the vector that \<^verbatim>\<open>Write\<close> materialises for \<^verbatim>\<open>.dynamic\<close> is \<open>DT_HASH\<close>,
  \<open>DT_STRTAB\<close>, \<open>DT_SYMTAB\<close> (each the \<open>sh_addr\<close> of its section), \<open>DT_SYMENT\<close>, then the tags
  of those calls in order, each rebased by the \<open>sh_addr\<close> of its section where it has one,
  then \<open>DT_STRSZ\<close> with the size of the dynamic string table, \<open>DT_SONAME\<close> with the offset of
  the name in it, and \<open>DT_NULL = 0\<close>.  A call with the tag \<open>DT_NULL\<close> changes nothing.  The
  length of the vector is the number of tags added through \<^verbatim>\<open>AddDynamicTag\<close>, the four of
  \<^verbatim>\<open>SetupDynamic\<close> among them, plus 3.  \<^verbatim>\<open>Elf_Word\<close> has at least 32 bits.
\<close>

theorem dynamic_vector_correct:
  fixes bss_sz :: "'w::len word" and calls :: "'w AddDynamicTag_args list"
  assumes "32 \<le> LENGTH('w)"
    and "ElfBuilder_ctor T path isa ro_off ro_sz tx_off tx_sz bss_off bss_sz add = Inr bc"
    and "emit T ((configure ops bc)\<lparr>dynamic_builder :=
                    AddDynamicTags calls (dynamic_builder bc)\<rparr>) f = Some (ok, b2, f')"
  shows "\<exists>b1 loc.
     Init T ((configure ops bc)\<lparr>dynamic_builder :=
                AddDynamicTags calls (dynamic_builder bc)\<rparr>) = Some (Inr b1) \<and>
     Write_prepare T b1 = Inr (b2, loc) \<and>
     (let added = filter (\<lambda>a. t_tag a \<noteq> DT_NULL) calls
      in w_dynamic loc =
           [\<lparr>d_tag = DT_HASH, d_un = sh_addr (sb_section (hash_builder b2))\<rparr>,
            \<lparr>d_tag = DT_STRTAB, d_un = sh_addr (sb_section (strtab (dynsym_builder b2)))\<rparr>,
            \<lparr>d_tag = DT_SYMTAB, d_un = sh_addr (sb_section (dynsym_builder b2))\<rparr>,
            \<lparr>d_tag = DT_SYMENT, d_un = of_nat (sizeof_Sym T)\<rparr>] @
           map (\<lambda>a. \<lparr>d_tag = t_tag a,
                      d_un = (case t_section a of
                                Some s \<Rightarrow> t_value a + sh_addr (sb_section (deref b2 s))
                              | None \<Rightarrow> t_value a)\<rparr>) added @
           [\<lparr>d_tag = DT_STRSZ, d_un = of_nat (length (dynstr b2))\<rparr>,
            \<lparr>d_tag = DT_SONAME, d_un = ucast (dynstr_soname_offset b2)\<rparr>,
            \<lparr>d_tag = DT_NULL, d_un = 0\<rparr>] \<and>
         length (dynamics (dynamic_builder b2)) = 4 + length added \<and>
         length (w_dynamic loc) = length (dynamics (dynamic_builder b2)) + 3 \<and>
         AddDynamicTag DT_NULL v (dynamic_builder b2) = dynamic_builder b2 \<and>
         AddDynamicTag_section DT_NULL v s (dynamic_builder b2) = dynamic_builder b2)"
proof -
  let ?b0 = "(configure ops bc)\<lparr>dynamic_builder := AddDynamicTags calls (dynamic_builder bc)\<rparr>"
  let ?added = "filter (\<lambda>a. t_tag a \<noteq> DT_NULL) calls"
  from emit_Some [OF assms(3)] obtain b1 loc where i: "Init T ?b0 = Some (Inr b1)"
    and w: "Write_prepare T b1 = Inr (b2, loc)" by blast
  note fr = Write_prepare_frame [OF w] and f = Init_result_frame [OF i]
  have m: "make_dyn d (dyn_state a) =
      \<lparr>d_tag = t_tag a,
       d_un = (case t_section a of
                 Some s \<Rightarrow> t_value a + sh_addr (sb_section (d s))
               | None \<Rightarrow> t_value a)\<rparr>" for a :: "'w AddDynamicTag_args" and d
    by (simp add: make_dyn_def dyn_state_def split: option.split)
  have dy: "dynamics (dynamic_builder b1) =
     [\<lparr>dyn_section = Some R_hash, dyn_tag = DT_HASH, dyn_off = 0\<rparr>,
      \<lparr>dyn_section = Some R_dynstr, dyn_tag = DT_STRTAB, dyn_off = 0\<rparr>,
      \<lparr>dyn_section = Some R_dynsym, dyn_tag = DT_SYMTAB, dyn_off = 0\<rparr>,
      \<lparr>dyn_section = None, dyn_tag = DT_SYMENT, dyn_off = of_nat (sizeof_Sym T)\<rparr>] @
     map dyn_state ?added"
    by (simp add: f(16) dynamics_AddDynamicTags dynamics_ctor [OF assms(1,2)])
  have d: "deref (fst (Write_layout T b1)) = deref b2"
    by (rule ext) (rule deref_Write_prepare [OF w, symmetric])
  have v: "w_dynamic loc =
           [\<lparr>d_tag = DT_HASH, d_un = sh_addr (sb_section (hash_builder b2))\<rparr>,
            \<lparr>d_tag = DT_STRTAB, d_un = sh_addr (sb_section (strtab (dynsym_builder b2)))\<rparr>,
            \<lparr>d_tag = DT_SYMTAB, d_un = sh_addr (sb_section (dynsym_builder b2))\<rparr>,
            \<lparr>d_tag = DT_SYMENT, d_un = of_nat (sizeof_Sym T)\<rparr>] @
           map (\<lambda>a. \<lparr>d_tag = t_tag a,
                      d_un = (case t_section a of
                                Some s \<Rightarrow> t_value a + sh_addr (sb_section (deref b2 s))
                              | None \<Rightarrow> t_value a)\<rparr>) ?added @
           [\<lparr>d_tag = DT_STRSZ, d_un = of_nat (length (dynstr b2))\<rparr>,
            \<lparr>d_tag = DT_SONAME, d_un = ucast (dynstr_soname_offset b2)\<rparr>,
            \<lparr>d_tag = DT_NULL, d_un = 0\<rparr>]"
    unfolding Write_prepare_Inr(3) [OF w] d
    by (simp add: GetDynamics_def dy m fr(7,8) deref_sections
          make_dyn_def [of "deref b2" "\<lparr>dyn_section = x, dyn_tag = y, dyn_off = z\<rparr>" for x y z])
  have l1: "length (dynamics (dynamic_builder b2)) = 4 + length ?added"
    by (simp add: fr(6) dy)
  have l2: "length (w_dynamic loc) = length (dynamics (dynamic_builder b2)) + 3"
    unfolding Write_prepare_Inr(3) [OF w] by (simp add: GetDynamics_def fr(6))
  have n: "AddDynamicTag DT_NULL v (dynamic_builder b2) = dynamic_builder b2"
    "AddDynamicTag_section DT_NULL v s (dynamic_builder b2) = dynamic_builder b2"
    by (simp_all add: AddDynamicTag_def AddDynamicTag_section_def)
  show ?thesis
    unfolding Let_def
    by (intro exI [of _ b1] exI [of _ loc] conjI) (fact i w v l1 l2 n)+
qed

text \<open>The theorem for ELF32 at the example, after a call that adds \<open>DT_NULL\<close> and one that
  adds the tag 1 with the value 7: the vector has eight entries.\<close>

theorem dynamic_vector_correct_witness:
  "32 \<le> LENGTH(32) \<and>
   ElfBuilder_ctor ElfTypes32 ''/tmp/foo/bar.oat'' kX86 0 4096 4096 4096 8192 4096 False =
     Inr example_builder \<and>
   (case Init ElfTypes32 example_tags_builder of
      Some (Inr b1) \<Rightarrow>
        (case Write_prepare ElfTypes32 b1 of
           Inr (b2, loc) \<Rightarrow>
             w_dynamic loc =
               [\<lparr>d_tag = DT_HASH, d_un = 432\<rparr>, \<lparr>d_tag = DT_STRTAB, d_un = 372\<rparr>,
                \<lparr>d_tag = DT_SYMTAB, d_un = 276\<rparr>, \<lparr>d_tag = DT_SYMENT, d_un = 16\<rparr>,
                \<lparr>d_tag = 1, d_un = 7\<rparr>, \<lparr>d_tag = DT_STRSZ, d_un = 59\<rparr>,
                \<lparr>d_tag = DT_SONAME, d_un = 51\<rparr>, \<lparr>d_tag = DT_NULL, d_un = 0\<rparr>]
         | Inl e \<Rightarrow> False)
    | _ \<Rightarrow> False)"
proof -
  from example_tags_emit obtain b1 b2 loc f' where
    i: "Init ElfTypes32 example_tags_builder = Some (Inr b1)"
    and w: "Write_prepare ElfTypes32 b1 = Inr (b2, loc)"
    and e: "emit ElfTypes32 example_tags_builder accepting_file = Some (True, b2, f')"
    by (elim exE conjE)
  have t: "example_tags_builder = (configure [] example_builder)\<lparr>dynamic_builder :=
                    AddDynamicTags example_tags (dynamic_builder example_builder)\<rparr>"
    by (simp add: example_tags_builder_def configure_Nil)
  have l32: "32 \<le> LENGTH(32)" by simp
  from dynamic_vector_correct [where v = 0 and s = "Some R_hash", OF l32 example_ctor e [unfolded t]]
  obtain b1' loc' where "Init ElfTypes32 example_tags_builder = Some (Inr b1')"
    and "Write_prepare ElfTypes32 b1' = Inr (b2, loc')"
    and v: "w_dynamic loc' =
           [\<lparr>d_tag = DT_HASH, d_un = sh_addr (sb_section (hash_builder b2))\<rparr>,
            \<lparr>d_tag = DT_STRTAB, d_un = sh_addr (sb_section (strtab (dynsym_builder b2)))\<rparr>,
            \<lparr>d_tag = DT_SYMTAB, d_un = sh_addr (sb_section (dynsym_builder b2))\<rparr>,
            \<lparr>d_tag = DT_SYMENT, d_un = of_nat (sizeof_Sym ElfTypes32)\<rparr>] @
           map (\<lambda>a. \<lparr>d_tag = t_tag a,
                      d_un = (case t_section a of
                                Some s \<Rightarrow> t_value a + sh_addr (sb_section (deref b2 s))
                              | None \<Rightarrow> t_value a)\<rparr>)
             (filter (\<lambda>a. t_tag a \<noteq> DT_NULL) example_tags) @
           [\<lparr>d_tag = DT_STRSZ, d_un = of_nat (length (dynstr b2))\<rparr>,
            \<lparr>d_tag = DT_SONAME, d_un = ucast (dynstr_soname_offset b2)\<rparr>,
            \<lparr>d_tag = DT_NULL, d_un = 0\<rparr>]"
    unfolding t [symmetric] Let_def by (elim exE conjE) (rule that)
  with i w have loc: "loc' = loc" by simp
  note fr = Write_prepare_frame [OF w] and l = example_tags_layout [OF i]
  have s: "dynsym_builder example_tags_builder = dynsym_builder example_builder"
    "elf_file_path example_tags_builder = elf_file_path example_builder"
    by (simp_all add: example_tags_builder_def)
  note ds = example_like_dynstr [OF i s]
  have "w_dynamic loc =
               [\<lparr>d_tag = DT_HASH, d_un = 432\<rparr>, \<lparr>d_tag = DT_STRTAB, d_un = 372\<rparr>,
                \<lparr>d_tag = DT_SYMTAB, d_un = 276\<rparr>, \<lparr>d_tag = DT_SYMENT, d_un = 16\<rparr>,
                \<lparr>d_tag = 1, d_un = 7\<rparr>, \<lparr>d_tag = DT_STRSZ, d_un = 59\<rparr>,
                \<lparr>d_tag = DT_SONAME, d_un = 51\<rparr>, \<lparr>d_tag = DT_NULL, d_un = 0\<rparr>]"
    using v unfolding loc
    by (simp add: fr l ds example_tags_def DT_NULL_def ElfTypes32_def)
  with i w example_ctor show ?thesis by simp
qed


end
